theory Spec2Isabelle
  imports Main "HOL-Library.AList" "HOL-Library.Sublist"
begin

section \<open>JavaScript values and objects\<close>

text \<open>
  The build script \<^verbatim>\<open>gulpfile.mjs\<close> passes plain JavaScript values around: flag sets
  (``defines''), output descriptors and option bags. Objects are insertion-ordered
  association lists from property names to values; numbers are restricted to integers.
\<close>

datatype jsval =
    JUndefined
  | JNull
  | JBool bool
  | JNum int
  | JStr string
  | JArr "jsval list"
  | JObj "(string \<times> jsval) list"

type_synonym jsobj = "(string \<times> jsval) list"

datatype error =
    ENOENT string
  | SyntaxError string
  | TypeError string
  | JsError string
  | ImportFailed string
  | MinifyFailed string
  | BundlerFailed string

text \<open>JavaScript truthiness, as used by \<^verbatim>\<open>if (x)\<close>, \<^verbatim>\<open>!x\<close>, \<^verbatim>\<open>x ? a : b\<close> and \<^verbatim>\<open>x || y\<close>.\<close>

fun truthy :: "jsval \<Rightarrow> bool" where
  "truthy JUndefined = False"
| "truthy JNull = False"
| "truthy (JBool b) = b"
| "truthy (JNum n) = (n \<noteq> 0)"
| "truthy (JStr s) = (s \<noteq> [])"
| "truthy (JArr xs) = True"
| "truthy (JObj kvs) = True"

text \<open>\<^verbatim>\<open>obj[key]\<close> on an object: a missing property reads as \<^verbatim>\<open>undefined\<close>.\<close>

definition prop_get :: "jsobj \<Rightarrow> string \<Rightarrow> jsval" where
  "prop_get obj k = (case map_of obj k of None \<Rightarrow> JUndefined | Some v \<Rightarrow> v)"

text \<open>\<^verbatim>\<open>obj[key] = v\<close>: an existing property keeps its position, a new one is appended.\<close>

definition prop_set :: "jsobj \<Rightarrow> string \<Rightarrow> jsval \<Rightarrow> jsobj" where
  "prop_set obj k v = AList.update k v obj"

text \<open>
  \<^verbatim>\<open>v.key\<close> on an arbitrary value: reading a property of \<^verbatim>\<open>undefined\<close> or \<^verbatim>\<open>null\<close>
  throws a TypeError; primitives and arrays have none of the property names the script
  reads, so they give \<^verbatim>\<open>undefined\<close>.
\<close>

fun member :: "jsval \<Rightarrow> string \<Rightarrow> error + jsval" where
  "member JUndefined k = Inl (TypeError k)"
| "member JNull k = Inl (TypeError k)"
| "member (JObj kvs) k = Inr (prop_get kvs k)"
| "member v k = Inr JUndefined"

text \<open>\<^verbatim>\<open>v?.key\<close>: optional chaining short-circuits to \<^verbatim>\<open>undefined\<close> on a nullish value.\<close>

fun opt_member :: "jsval \<Rightarrow> string \<Rightarrow> jsval" where
  "opt_member (JObj kvs) k = prop_get kvs k"
| "opt_member v k = JUndefined"

text \<open>\<^verbatim>\<open>a ?? b\<close>: the right operand is used only when the left one is \<^verbatim>\<open>null\<close> or \<^verbatim>\<open>undefined\<close>.\<close>

definition nullish :: "jsval \<Rightarrow> bool" where
  "nullish v = (v = JUndefined \<or> v = JNull)"

definition coalesce :: "jsval \<Rightarrow> jsval \<Rightarrow> jsval" where
  "coalesce a b = (if nullish a then b else a)"

text \<open>
  Modelled from the spec: \<^verbatim>\<open>builder.merge\<close> lives in \<^verbatim>\<open>external/builder/builder.mjs\<close>,
  which is not part of the sources at hand. The specification (section 4.1) says: later
  overrides take precedence per key, keys absent from the override keep the base value,
  unknown keys of the override are admitted, and the result is a new flag set (the
  inputs are not mutated).
\<close>

definition builder_merge :: "jsobj \<Rightarrow> jsobj \<Rightarrow> jsobj" where
  "builder_merge defaults overrides = foldl (\<lambda>acc (k, v). prop_set acc k v) defaults overrides"

text \<open>The object spread \<^verbatim>\<open>{ ...a, ...b, ...c }\<close> on string-valued tables.\<close>

definition spread :: "(string \<times> string) list list \<Rightarrow> (string \<times> string) list" where
  "spread objs = foldl (\<lambda>acc obj. foldl (\<lambda>acc2 (k, v). AList.update k v acc2) acc obj) [] objs"

section \<open>The world the script runs in\<close>

text \<open>
  File-system calls are recorded in the order they are issued. Paths are resolved as
  POSIX does for the relative paths the script builds: a leading \<^verbatim>\<open>./\<close> and repeated
  slashes do not matter.
\<close>

datatype fs_event =
    EvRead string
  | EvWrite string
  | EvUnlink string
  | EvRename string string

fun squeeze :: "string \<Rightarrow> string" where
  "squeeze [] = []"
| "squeeze [c] = [c]"
| "squeeze (a # b # cs) =
     (if a = CHR ''/'' \<and> b = CHR ''/'' then squeeze (b # cs) else a # squeeze (b # cs))"

fun strip_dot :: "string \<Rightarrow> string" where
  "strip_dot (a # b # cs) = (if a = CHR ''.'' \<and> b = CHR ''/'' then strip_dot cs else a # b # cs)"
| "strip_dot cs = cs"

definition norm_path :: "string \<Rightarrow> string" where
  "norm_path p = strip_dot (squeeze p)"

record world =
  heap :: "nat \<Rightarrow> jsobj"
  next_ref :: nat
  files :: "string \<rightharpoonup> string"
  console :: "string list"
  fs_trace :: "fs_event list"

type_synonym 'a io = "world \<Rightarrow> (error + 'a) \<times> world"

definition ret :: "'a \<Rightarrow> 'a io" where
  "ret x = (\<lambda>w. (Inr x, w))"

definition throw :: "error \<Rightarrow> 'a io" where
  "throw e = (\<lambda>w. (Inl e, w))"

definition bind :: "'a io \<Rightarrow> ('a \<Rightarrow> 'b io) \<Rightarrow> 'b io" where
  "bind m f = (\<lambda>w. case m w of (Inl e, w') \<Rightarrow> (Inl e, w') | (Inr x, w') \<Rightarrow> f x w')"

definition lift :: "error + 'a \<Rightarrow> 'a io" where
  "lift r = (\<lambda>w. (r, w))"

definition log_line :: "string \<Rightarrow> unit io" where
  "log_line s = (\<lambda>w. (Inr (), w\<lparr>console := console w @ [s]\<rparr>))"

subsection \<open>Objects on the heap\<close>

definition alloc :: "jsobj \<Rightarrow> nat io" where
  "alloc obj = (\<lambda>w. (Inr (next_ref w),
     w\<lparr>heap := (heap w)(next_ref w := obj), next_ref := Suc (next_ref w)\<rparr>))"

definition deref :: "nat \<Rightarrow> jsobj io" where
  "deref r = (\<lambda>w. (Inr (heap w r), w))"

definition assign :: "nat \<Rightarrow> string \<Rightarrow> jsval \<Rightarrow> unit io" where
  "assign r k v = (\<lambda>w. (Inr (), w\<lparr>heap := (heap w)(r := prop_set (heap w r) k v)\<rparr>))"

subsection \<open>The \<^verbatim>\<open>fs\<close> module\<close>

definition readFileSync :: "string \<Rightarrow> string io" where
  "readFileSync p = (\<lambda>w.
     let w' = w\<lparr>fs_trace := fs_trace w @ [EvRead p]\<rparr> in
     case files w (norm_path p) of
       None \<Rightarrow> (Inl (ENOENT p), w')
     | Some c \<Rightarrow> (Inr c, w'))"

definition writeFileSync :: "string \<Rightarrow> string \<Rightarrow> unit io" where
  "writeFileSync p c = (\<lambda>w.
     (Inr (), w\<lparr>files := (files w)(norm_path p \<mapsto> c), fs_trace := fs_trace w @ [EvWrite p]\<rparr>))"

definition unlinkSync :: "string \<Rightarrow> unit io" where
  "unlinkSync p = (\<lambda>w.
     let w' = w\<lparr>fs_trace := fs_trace w @ [EvUnlink p]\<rparr> in
     case files w (norm_path p) of
       None \<Rightarrow> (Inl (ENOENT p), w')
     | Some c \<Rightarrow> (Inr (), w'\<lparr>files := (files w)(norm_path p := None)\<rparr>))"

definition renameSync :: "string \<Rightarrow> string \<Rightarrow> unit io" where
  "renameSync a b = (\<lambda>w.
     let w' = w\<lparr>fs_trace := fs_trace w @ [EvRename a b]\<rparr> in
     case files w (norm_path a) of
       None \<Rightarrow> (Inl (ENOENT a), w')
     | Some c \<Rightarrow> (Inr (), w'\<lparr>files := ((files w)(norm_path a := None))(norm_path b \<mapsto> c)\<rparr>))"

section \<open>Constants of the script\<close>

definition BUILD_DIR :: string where
  "BUILD_DIR = ''build/''"

definition DEFAULT_PREFERENCES_DIR :: string where
  "DEFAULT_PREFERENCES_DIR = BUILD_DIR @ ''default_preferences/''"

definition MINIFIED_DIR :: string where
  "MINIFIED_DIR = BUILD_DIR @ ''minified/''"

definition MINIFIED_LEGACY_DIR :: string where
  "MINIFIED_LEGACY_DIR = BUILD_DIR @ ''minified-legacy/''"

definition TMP_DIR :: string where
  "TMP_DIR = BUILD_DIR @ ''tmp/''"

definition ENV_TARGETS :: "string list" where
  "ENV_TARGETS = [''last 2 versions'', ''Chrome >= 92'', ''Firefox ESR'', ''Safari >= 15.4'',
     ''Node >= 18'', ''> 1%'', ''not IE > 0'', ''not dead'']"

text \<open>\<^verbatim>\<open>Array.prototype.join\<close> on strings.\<close>

fun js_join :: "string \<Rightarrow> string list \<Rightarrow> string" where
  "js_join sep [] = []"
| "js_join sep [x] = x"
| "js_join sep (x # y # ys) = x @ sep @ js_join sep (y # ys)"

definition BABEL_TARGETS :: string where
  "BABEL_TARGETS = js_join '', '' ENV_TARGETS"

definition DEFINES :: jsobj where
  "DEFINES = [(''SKIP_BABEL'', JBool True), (''TESTING'', JUndefined),
     (''GENERIC'', JBool False), (''MOZCENTRAL'', JBool False), (''GECKOVIEW'', JBool False),
     (''CHROME'', JBool False), (''MINIFIED'', JBool False), (''COMPONENTS'', JBool False),
     (''LIB'', JBool False), (''IMAGE_DECODERS'', JBool False)]"

section \<open>Webpack configurations\<close>

record options =
  disableVersionInfo :: bool
  disableSourceMaps :: bool
  disableLicenseHeader :: bool
  defaultPreferencesDir :: "string option"

text \<open>The defaults of the destructured third parameter of \<^verbatim>\<open>createWebpackConfig\<close>.\<close>

definition default_options :: options where
  "default_options = \<lparr>disableVersionInfo = False, disableSourceMaps = False,
     disableLicenseHeader = False, defaultPreferencesDir = None\<rparr>"

datatype plugin = BannerPlugin string bool

datatype loader_rule =
    BabelLoader string "(string \<times> jsobj) list list option" "string list" string
  | PdfjsdevLoader string string bool jsobj

record webpack_config =
  cfg_mode :: string
  cfg_experiments :: "jsobj option"
  cfg_output :: nat
  cfg_performance_hints :: bool
  cfg_plugins :: "plugin list"
  cfg_alias :: "(string \<times> string) list"
  cfg_devtool :: "string option"
  cfg_rules :: "loader_rule list"
  cfg_node :: bool

datatype minify_input = Source string | NamedSources "(string \<times> string) list"

text \<open>
  Everything the script takes from its surroundings without changing it: the process
  environment, the directory of the script, the \<^verbatim>\<open>pdfjs.config\<close> values read at start-up,
  and the external tools it calls (Node's \<^verbatim>\<open>path.join\<close> and \<^verbatim>\<open>JSON\<close>, the bundler, the
  minifier, the module loader and the two version-control queries). The tools are
  parameters: nothing is assumed about what they compute.
\<close>

record host =
  process_env :: "string \<rightharpoonup> string"
  dirname :: string
  baseVersion :: string
  versionPrefix :: string
  path_join :: "string \<Rightarrow> string \<Rightarrow> string"
  json_parse :: "string \<Rightarrow> error + jsval"
  json_stringify :: "jsval \<Rightarrow> string"
  webpack_run :: "webpack_config \<Rightarrow> jsobj \<Rightarrow> string \<Rightarrow> (string \<rightharpoonup> string) \<Rightarrow> error + string"
  terser_minify :: "minify_input \<Rightarrow> error + string"
  load_preferences :: "string \<Rightarrow> error + jsobj"
  exec_git :: "string \<Rightarrow> bool \<times> string"

definition getVersionJSON :: "host \<Rightarrow> jsval io" where
  "getVersionJSON h =
     bind (readFileSync (BUILD_DIR @ ''version.json'')) (\<lambda>str. lift (json_parse h str))"

definition getDefaultPreferences :: "host \<Rightarrow> string \<Rightarrow> jsval io" where
  "getDefaultPreferences h dir =
     bind (readFileSync (DEFAULT_PREFERENCES_DIR @ dir @ ''default_preferences.json''))
       (\<lambda>str. lift (json_parse h str))"

subsection \<open>The alias table\<close>

definition basicAlias :: "(string \<times> string) list" where
  "basicAlias = [(''pdfjs'', ''src''), (''pdfjs-web'', ''web''), (''pdfjs-lib'', ''web/pdfjs'')]"

definition libraryAlias_init :: "(string \<times> string) list" where
  "libraryAlias_init =
    [(''display-fetch_stream'', ''src/display/stubs.js''),
     (''display-l10n_utils'', ''src/display/stubs.js''),
     (''display-network'', ''src/display/stubs.js''),
     (''display-node_stream'', ''src/display/stubs.js''),
     (''display-node_utils'', ''src/display/stubs.js''),
     (''display-svg'', ''src/display/stubs.js'')]"

definition viewerAlias_init :: "(string \<times> string) list" where
  "viewerAlias_init =
    [(''web-annotation_editor_params'', ''web/annotation_editor_params.js''),
     (''web-com'', []),
     (''web-pdf_attachment_viewer'', ''web/pdf_attachment_viewer.js''),
     (''web-pdf_cursor_tools'', ''web/pdf_cursor_tools.js''),
     (''web-pdf_document_properties'', ''web/pdf_document_properties.js''),
     (''web-pdf_find_bar'', ''web/pdf_find_bar.js''),
     (''web-pdf_layer_viewer'', ''web/pdf_layer_viewer.js''),
     (''web-pdf_outline_viewer'', ''web/pdf_outline_viewer.js''),
     (''web-pdf_presentation_mode'', ''web/pdf_presentation_mode.js''),
     (''web-pdf_sidebar'', ''web/pdf_sidebar.js''),
     (''web-pdf_thumbnail_viewer'', ''web/pdf_thumbnail_viewer.js''),
     (''web-print_service'', []),
     (''web-secondary_toolbar'', ''web/secondary_toolbar.js''),
     (''web-toolbar'', ''web/toolbar.js'')]"

text \<open>A run of assignments \<^verbatim>\<open>tbl[k] = v\<close>.\<close>

definition assigns :: "(string \<times> string) list \<Rightarrow> (string \<times> string) list \<Rightarrow> (string \<times> string) list" where
  "assigns tbl kvs = foldl (\<lambda>t (k, v). AList.update k v t) tbl kvs"

definition gvAlias :: "(string \<times> string) list" where
  "gvAlias = [(''web-toolbar'', ''web/toolbar-geckoview.js'')]"

text \<open>
  The loop \<^verbatim>\<open>for (const key in viewerAlias) viewerAlias[key] = gvAlias[key] || stub\<close>:
  a missing or empty entry of \<^verbatim>\<open>gvAlias\<close> is falsy.
\<close>

definition geckoviewAlias :: "(string \<times> string) list \<Rightarrow> (string \<times> string) list" where
  "geckoviewAlias tbl = map (\<lambda>(key, old).
     (key, case map_of gvAlias key of
             None \<Rightarrow> ''web/stubs-geckoview.js''
           | Some v \<Rightarrow> if v \<noteq> [] then v else ''web/stubs-geckoview.js'')) tbl"

text \<open>The branches on the target flags; the result is (libraryAlias, viewerAlias).\<close>

definition targetAlias :: "jsobj \<Rightarrow> (string \<times> string) list \<times> (string \<times> string) list" where
  "targetAlias bundleDefines =
    (if truthy (prop_get bundleDefines ''CHROME'') then
       (assigns libraryAlias_init
          [(''display-fetch_stream'', ''src/display/fetch_stream.js''),
           (''display-network'', ''src/display/network.js'')],
        assigns viewerAlias_init
          [(''web-com'', ''web/chromecom.js''),
           (''web-print_service'', ''web/pdf_print_service.js'')])
     else if truthy (prop_get bundleDefines ''GENERIC'') then
       (assigns libraryAlias_init
          [(''display-fetch_stream'', ''src/display/fetch_stream.js''),
           (''display-l10n_utils'', ''web/l10n_utils.js''),
           (''display-network'', ''src/display/network.js''),
           (''display-node_stream'', ''src/display/node_stream.js''),
           (''display-node_utils'', ''src/display/node_utils.js''),
           (''display-svg'', ''src/display/svg.js'')],
        assigns viewerAlias_init
          [(''web-com'', ''web/genericcom.js''),
           (''web-print_service'', ''web/pdf_print_service.js'')])
     else if truthy (prop_get bundleDefines ''MOZCENTRAL'') then
       (libraryAlias_init,
        assigns
          (if truthy (prop_get bundleDefines ''GECKOVIEW'')
           then geckoviewAlias viewerAlias_init else viewerAlias_init)
          [(''web-com'', ''web/firefoxcom.js''),
           (''web-print_service'', ''web/firefox_print_service.js'')])
     else (libraryAlias_init, viewerAlias_init))"

text \<open>The merged table \<^verbatim>\<open>{ ...basicAlias, ...libraryAlias, ...viewerAlias }\<close>, before
  the paths are made absolute.\<close>

definition aliasPaths :: "jsobj \<Rightarrow> (string \<times> string) list" where
  "aliasPaths bundleDefines =
     (case targetAlias bundleDefines of
        (libraryAlias, viewerAlias) \<Rightarrow> spread [basicAlias, libraryAlias, viewerAlias])"

text \<open>The loop \<^verbatim>\<open>for (const key in alias) alias[key] = path.join(__dirname, alias[key])\<close>.\<close>

definition aliasTable :: "host \<Rightarrow> jsobj \<Rightarrow> (string \<times> string) list" where
  "aliasTable h bundleDefines =
     map (\<lambda>(key, p). (key, path_join h (dirname h) p)) (aliasPaths bundleDefines)"

subsection \<open>\<^verbatim>\<open>createWebpackConfig\<close>\<close>

text \<open>\<^verbatim>\<open>defines.TESTING ?? process.env.TESTING === "true"\<close>; the comparison binds tighter
  than \<^verbatim>\<open>??\<close>.\<close>

definition testingDefine :: "host \<Rightarrow> jsobj \<Rightarrow> jsval" where
  "testingDefine h defs =
     coalesce (prop_get defs ''TESTING'') (JBool (process_env h ''TESTING'' = Some ''true''))"

definition babelExcludes :: "bool \<Rightarrow> string list" where
  "babelExcludes enableSourceMaps =
     [''node_modules['' @ [CHR 0x5C, CHR 0x5C, CHR 0x5C] @ ''/]core-js''] @
     (if enableSourceMaps
      then [''src['' @ [CHR 0x5C, CHR 0x5C, CHR 0x5C] @ ''/]core['' @ [CHR 0x5C, CHR 0x5C, CHR 0x5C]
              @ ''/](glyphlist|unicode)'']
      else [])"

definition babelPresets :: "jsval \<Rightarrow> (string \<times> jsobj) list list option" where
  "babelPresets skipBabel =
     (if truthy skipBabel then None
      else Some [[(''@babel/preset-env'',
             [(''corejs'', JStr ''3.31.1''), (''shippedProposals'', JBool True),
              (''useBuiltIns'', JStr ''usage'')])]])"

text \<open>The flag set handed to the loaders: \<^verbatim>\<open>builder.merge(defines, { ... })\<close>.\<close>

definition bundleDefinesOf :: "host \<Rightarrow> jsobj \<Rightarrow> jsval \<Rightarrow> jsval \<Rightarrow> jsval \<Rightarrow> jsobj" where
  "bundleDefinesOf h definesObj bundleVersion bundleBuild defaultPreferences =
     builder_merge definesObj
       [(''BUNDLE_VERSION'', bundleVersion),
        (''BUNDLE_BUILD'', bundleBuild),
        (''TESTING'', testingDefine h definesObj),
        (''DEFAULT_PREFERENCES'', defaultPreferences)]"

text \<open>
  \<^verbatim>\<open>!disableVersionInfo ? getVersionJSON() : { version: 0, commit: 0 }\<close> and
  \<^verbatim>\<open>defaultPreferencesDir ? getDefaultPreferences(defaultPreferencesDir) : {}\<close>
  (an empty directory name is falsy).
\<close>

definition versionInfoOf :: "host \<Rightarrow> options \<Rightarrow> jsval io" where
  "versionInfoOf h opts =
     (if \<not> disableVersionInfo opts then getVersionJSON h
      else ret (JObj [(''version'', JNum 0), (''commit'', JNum 0)]))"

definition defaultPreferencesOf :: "host \<Rightarrow> options \<Rightarrow> jsval io" where
  "defaultPreferencesOf h opts =
     (case defaultPreferencesDir opts of
        None \<Rightarrow> ret (JObj [])
      | Some dir \<Rightarrow> if dir \<noteq> [] then getDefaultPreferences h dir else ret (JObj []))"

text \<open>
  The part of \<^verbatim>\<open>createWebpackConfig\<close> that only computes: from the merged flag set, the
  license header, the output descriptor as it was passed in and its reference, to the
  returned configuration object.
\<close>

definition webpackConfigOf ::
  "host \<Rightarrow> options \<Rightarrow> jsobj \<Rightarrow> string \<Rightarrow> jsobj \<Rightarrow> nat \<Rightarrow> webpack_config" where
  "webpackConfigOf h opts bundleDefines licenseHeaderLibre outputObj outp =
     (let enableSourceMaps =
           (\<not> truthy (prop_get bundleDefines ''MOZCENTRAL'') \<and>
            \<not> truthy (prop_get bundleDefines ''CHROME'') \<and>
            \<not> truthy (prop_get bundleDefines ''LIB'') \<and>
            \<not> truthy (prop_get bundleDefines ''TESTING'') \<and>
            \<not> disableSourceMaps opts);
         skipBabel = prop_get bundleDefines ''SKIP_BABEL'';
         babelExcludeRegExp = ''('' @ js_join ''|'' (babelExcludes enableSourceMaps) @ '')'';
         plugins = (if \<not> disableLicenseHeader opts
                    then [BannerPlugin licenseHeaderLibre True] else []);
         experiments =
           (if opt_member (prop_get outputObj ''library'') ''type'' = JStr ''module''
            then Some [(''outputModule'', JBool True)] else None)
      in \<lparr>cfg_mode = ''none'',
          cfg_experiments = experiments,
          cfg_output = outp,
          cfg_performance_hints = False,
          cfg_plugins = plugins,
          cfg_alias = aliasTable h bundleDefines,
          cfg_devtool = (if enableSourceMaps then Some ''source-map'' else None),
          cfg_rules =
            [BabelLoader babelExcludeRegExp (babelPresets skipBabel)
               [''@babel/plugin-transform-modules-commonjs''] BABEL_TARGETS,
             PdfjsdevLoader (path_join h (dirname h) ''external/webpack/pdfjsdev-loader.mjs'')
               (dirname h) False bundleDefines],
          cfg_node = False\<rparr>)"

text \<open>
  \<^verbatim>\<open>createWebpackConfig(defines, output, options)\<close>. Both \<^verbatim>\<open>defines\<close> and \<^verbatim>\<open>output\<close> are
  references to objects of the caller; the statement \<^verbatim>\<open>output.globalObject = "globalThis"\<close>
  writes through the second one. The effects come in the order of the source: the version
  file, the default preferences, the license header, then the write to \<^verbatim>\<open>output\<close>.
\<close>

definition createWebpackConfig :: "host \<Rightarrow> nat \<Rightarrow> nat \<Rightarrow> options \<Rightarrow> webpack_config io" where
  "createWebpackConfig h defs outp opts =
     bind (versionInfoOf h opts) (\<lambda>versionInfo.
     bind (lift (member versionInfo ''version'')) (\<lambda>bundleVersion.
     bind (lift (member versionInfo ''commit'')) (\<lambda>bundleBuild.
     bind (deref defs) (\<lambda>definesObj.
     bind (defaultPreferencesOf h opts) (\<lambda>defaultPreferences.
     bind (readFileSync ''./src/license_header_libre.js'') (\<lambda>licenseHeaderLibre.
     bind (deref outp) (\<lambda>outputObj.
     bind (assign outp ''globalObject'' (JStr ''globalThis'')) (\<lambda>u.
     ret (webpackConfigOf h opts
            (bundleDefinesOf h definesObj bundleVersion bundleBuild defaultPreferences)
            licenseHeaderLibre outputObj outp)))))))))"

text \<open>The flag set a configuration hands to the \<^verbatim>\<open>pdfjsdev-loader\<close> (\<^verbatim>\<open>options.defines\<close>).\<close>

fun loader_defines :: "loader_rule \<Rightarrow> jsobj" where
  "loader_defines (PdfjsdevLoader p r s d) = d"
| "loader_defines (BabelLoader e p q t) = []"

definition cfg_defines :: "webpack_config \<Rightarrow> jsobj" where
  "cfg_defines cfg = loader_defines (last (cfg_rules cfg))"

section \<open>Text post-processing of the bundles\<close>

text \<open>
  \<^verbatim>\<open>replace(search, replacement)\<close> of the \<^verbatim>\<open>gulp-replace\<close> package with a string search:
  the contents become \<^verbatim>\<open>contents.split(search).join(replacement)\<close>, that is every
  occurrence found scanning left to right, without overlaps, is replaced, and the
  replacement is taken literally. An empty search string splits between all characters.
\<close>

function gulp_replace :: "string \<Rightarrow> string \<Rightarrow> string \<Rightarrow> string" where
  "gulp_replace s r [] = []"
| "gulp_replace s r (c # cs) =
     (if s = [] then c # concat (map (\<lambda>d. r @ [d]) cs)
      else if prefix s (c # cs) then r @ gulp_replace s r (drop (length s) (c # cs))
      else c # gulp_replace s r cs)"
  by pat_completeness auto
termination
  by (relation "measure (\<lambda>(s, r, t). length t)") (auto simp: Suc_le_eq)

definition dquote :: string where
  "dquote = [CHR 0x22]"

definition replaceWebpackRequire :: "string \<Rightarrow> string" where
  "replaceWebpackRequire = gulp_replace ''__webpack_require__'' ''__w_pdfjs_require__''"

definition replaceNonWebpackImport :: "string \<Rightarrow> string" where
  "replaceNonWebpackImport = gulp_replace ''__non_webpack_import__'' ''import''"

definition rootAssignment :: "string \<Rightarrow> string" where
  "rootAssignment amdName = ''root['' @ dquote @ amdName @ dquote @ ''] = factory()''"

definition rootAssignmentLegacy :: "string \<Rightarrow> string \<Rightarrow> string" where
  "rootAssignmentLegacy amdName jsName =
     ''root['' @ dquote @ amdName @ dquote @ ''] = root.'' @ jsName @ '' = factory()''"

definition replaceJSRootName :: "string \<Rightarrow> string \<Rightarrow> string \<Rightarrow> string" where
  "replaceJSRootName amdName jsName =
     gulp_replace (rootAssignment amdName) (rootAssignmentLegacy amdName jsName)"

text \<open>The (amdName, jsName) pairs the script passes to \<^verbatim>\<open>replaceJSRootName\<close>.\<close>

definition jsRootNames :: "(string \<times> string) list" where
  "jsRootNames =
    [(''pdfjs-dist/build/pdf'', ''pdfjsLib''),
     (''pdfjs-dist/build/pdf.sandbox'', ''pdfjsSandbox''),
     (''pdfjs-dist/build/pdf.worker'', ''pdfjsWorker''),
     (''pdfjs-dist/web/pdf_viewer'', ''pdfjsViewer''),
     (''pdfjs-dist/image_decoders/pdf.image_decoders'', ''pdfjsImageDecoders'')]"

section \<open>Bundles\<close>

text \<open>
  A stream carries one virtual file (name, contents). \<^verbatim>\<open>gulp.src(entry).pipe(webpack2Stream(config))\<close>
  hands the entry and the configuration to the bundler; \<^verbatim>\<open>gulp.dest(dir)\<close> writes the file
  below \<^verbatim>\<open>dir\<close>. A step of \<^verbatim>\<open>gulp.series\<close> starts when the stream of the step before has
  ended, so the pipelines are run to completion in sequence.
\<close>

definition run_webpack :: "host \<Rightarrow> webpack_config \<Rightarrow> string \<Rightarrow> string io" where
  "run_webpack h cfg entry =
     (\<lambda>w. (webpack_run h cfg (heap w (cfg_output cfg)) entry (files w), w))"

definition gulp_dest :: "string \<Rightarrow> string \<times> string \<Rightarrow> unit io" where
  "gulp_dest dir file = writeFileSync (dir @ fst file) (snd file)"

text \<open>\<^verbatim>\<open>rimraf.sync(dir)\<close> removes the directory with everything below it.\<close>

definition rimraf_sync :: "string \<Rightarrow> unit io" where
  "rimraf_sync dir = (\<lambda>w.
     (Inr (), w\<lparr>files := (\<lambda>p. if prefix (norm_path dir) p then None else files w p)\<rparr>))"

definition opts_of :: "options option \<Rightarrow> options" where
  "opts_of extraOptions = (case extraOptions of None \<Rightarrow> default_options | Some opts \<Rightarrow> opts)"

definition umd_output :: "string \<Rightarrow> string \<Rightarrow> jsobj" where
  "umd_output outputName amdName =
     [(''filename'', JStr outputName), (''library'', JStr amdName),
      (''libraryTarget'', JStr ''umd''), (''umdNamedDefine'', JBool True)]"

definition createScriptingBundle :: "host \<Rightarrow> nat \<Rightarrow> options option \<Rightarrow> (string \<times> string) io" where
  "createScriptingBundle h defs extraOptions =
     (let scriptingAMDName = ''pdfjs-dist/build/pdf.scripting'';
          scriptingOutputName = ''pdf.scripting.js'' in
      bind (alloc (umd_output scriptingOutputName scriptingAMDName)) (\<lambda>outp.
      bind (createWebpackConfig h defs outp (opts_of extraOptions)) (\<lambda>scriptingFileConfig.
      bind (run_webpack h scriptingFileConfig ''./src/pdf.scripting.js'') (\<lambda>text.
      ret (scriptingOutputName,
           gulp_replace (rootAssignment scriptingAMDName) ''root.pdfjsScripting = factory()''
             (replaceNonWebpackImport (replaceWebpackRequire text)))))))"

definition createTemporaryScriptingBundle :: "host \<Rightarrow> nat \<Rightarrow> options option \<Rightarrow> unit io" where
  "createTemporaryScriptingBundle h defs extraOptions =
     bind (createScriptingBundle h defs
             (Some \<lparr>disableVersionInfo =
                       (case extraOptions of None \<Rightarrow> False | Some opts \<Rightarrow> disableVersionInfo opts),
                    disableSourceMaps = True,
                    disableLicenseHeader = True,
                    defaultPreferencesDir = None\<rparr>))
       (gulp_dest TMP_DIR)"

definition scriptingPath :: string where
  "scriptingPath = TMP_DIR @ ''pdf.scripting.js''"

text \<open>The first half of \<^verbatim>\<open>createSandboxBundle\<close>, up to its local \<^verbatim>\<open>sandboxFileConfig\<close>.\<close>

definition sandboxFileConfig :: "host \<Rightarrow> nat \<Rightarrow> options option \<Rightarrow> webpack_config io" where
  "sandboxFileConfig h defs extraOptions =
     (let sandboxAMDName = ''pdfjs-dist/build/pdf.sandbox'';
          sandboxOutputName = ''pdf.sandbox.js'' in
      bind (readFileSync scriptingPath) (\<lambda>src.
      bind (deref defs) (\<lambda>definesObj.
      bind (alloc (builder_merge definesObj [(''PDF_SCRIPTING_JS_SOURCE'', JStr src)]))
        (\<lambda>sandboxDefines.
      bind (unlinkSync scriptingPath) (\<lambda>u.
      bind (alloc (umd_output sandboxOutputName sandboxAMDName)) (\<lambda>outp.
      createWebpackConfig h sandboxDefines outp (opts_of extraOptions)))))))"

definition createSandboxBundle :: "host \<Rightarrow> nat \<Rightarrow> options option \<Rightarrow> (string \<times> string) io" where
  "createSandboxBundle h defs extraOptions =
     bind (sandboxFileConfig h defs extraOptions) (\<lambda>cfg.
     bind (run_webpack h cfg ''./src/pdf.sandbox.js'') (\<lambda>text.
     ret (''pdf.sandbox.js'',
          replaceJSRootName ''pdfjs-dist/build/pdf.sandbox'' ''pdfjsSandbox''
            (replaceNonWebpackImport (replaceWebpackRequire text)))))"

text \<open>The two functions of the \<^verbatim>\<open>dev-sandbox\<close> task, run by \<^verbatim>\<open>gulp.series\<close>.\<close>

definition devDefines :: jsobj where
  "devDefines = builder_merge DEFINES [(''GENERIC'', JBool True), (''TESTING'', JBool True)]"

definition devOptions :: "options option" where
  "devOptions = Some (default_options\<lparr>disableVersionInfo := True\<rparr>)"

definition scriptingDevSandbox :: "host \<Rightarrow> unit io" where
  "scriptingDevSandbox h =
     bind (alloc devDefines) (\<lambda>defs. createTemporaryScriptingBundle h defs devOptions)"

definition createDevSandbox :: "host \<Rightarrow> unit io" where
  "createDevSandbox h =
     bind (log_line []) (\<lambda>u1.
     bind (log_line ''### Building development sandbox'') (\<lambda>u2.
     bind (alloc devDefines) (\<lambda>defs.
     let sandboxDir = BUILD_DIR @ ''dev-sandbox/'' in
     bind (rimraf_sync sandboxDir) (\<lambda>u3.
     bind (createSandboxBundle h defs devOptions) (gulp_dest sandboxDir)))))"

definition dev_sandbox :: "host \<Rightarrow> unit io" where
  "dev_sandbox h = bind (scriptingDevSandbox h) (\<lambda>u. createDevSandbox h)"

section \<open>Versioning\<close>

definition digit_char :: "nat \<Rightarrow> char" where
  "digit_char d = ''0123456789'' ! d"

fun string_of_nat :: "nat \<Rightarrow> string" where
  "string_of_nat n =
     (if n < 10 then [digit_char n] else string_of_nat (n div 10) @ [digit_char (n mod 10)])"

definition newline :: char where
  "newline = CHR 0x0A"

text \<open>\<^verbatim>\<open>stdout.match(/\n/g)\<close>: the list of matches, or \<^verbatim>\<open>null\<close> when there is none.\<close>

definition match_newlines :: "string \<Rightarrow> string list option" where
  "match_newlines s =
     (let ms = map (\<lambda>c. [c]) (filter (\<lambda>c. c = newline) s) in if ms = [] then None else Some ms)"

text \<open>\<^verbatim>\<open>stdout2.replace("\n", "")\<close> with a string pattern: only the first occurrence.\<close>

fun remove_first :: "char \<Rightarrow> string \<Rightarrow> string" where
  "remove_first x [] = []"
| "remove_first x (c # cs) = (if c = x then cs else c # remove_first x cs)"

definition versionDescriptor :: "string \<Rightarrow> nat \<Rightarrow> string \<Rightarrow> jsval" where
  "versionDescriptor version buildNumber buildCommit =
     JObj [(''version'', JStr version), (''build'', JNum (int buildNumber)),
           (''commit'', JStr buildCommit)]"

text \<open>
  \<^verbatim>\<open>createBuildNumber\<close>: \<^verbatim>\<open>exec\<close> calls back with \<^verbatim>\<open>(err, stdout)\<close>; the host's
  \<^verbatim>\<open>exec_git\<close> gives, for a command line, whether it failed and what it printed.
\<close>

definition gitCountCommand :: "host \<Rightarrow> string" where
  "gitCountCommand h = ''git log --format=oneline '' @ baseVersion h @ ''..''"

definition gitHashCommand :: string where
  "gitHashCommand = ''git log --format='' @ dquote @ ''%h'' @ dquote @ '' -n 1''"

definition createBuildNumber :: "host \<Rightarrow> unit io" where
  "createBuildNumber h =
     bind (log_line []) (\<lambda>u1.
     bind (log_line ''### Getting extension build number'') (\<lambda>u2.
     case exec_git h (gitCountCommand h) of (err, stdout) \<Rightarrow>
     bind (if \<not> err then
             (if stdout \<noteq> [] then
                (case match_newlines stdout of
                   None \<Rightarrow> throw (TypeError ''length'')
                 | Some ms \<Rightarrow> ret (length ms))
              else ret 0)
           else bind (log_line ''This is not a Git repository; using default build number.'')
                  (\<lambda>u3. ret 0)) (\<lambda>buildNumber.
     bind (log_line (''Extension build number: '' @ string_of_nat buildNumber)) (\<lambda>u4.
     let version = versionPrefix h @ string_of_nat buildNumber in
     case exec_git h gitHashCommand of (err2, stdout2) \<Rightarrow>
     let buildCommit = (if \<not> err2 then remove_first newline stdout2 else []) in
     gulp_dest BUILD_DIR
       (''version.json'', json_stringify h (versionDescriptor version buildNumber buildCommit))))))"

section \<open>Default preferences\<close>

definition buildDefaultPreferencesDefines :: "host \<Rightarrow> jsobj \<Rightarrow> jsobj" where
  "buildDefaultPreferencesDefines h definesObj =
     builder_merge definesObj
       [(''LIB'', JBool True), (''TESTING'', testingDefine h definesObj)]"

definition buildDefaultPreferences :: "host \<Rightarrow> nat \<Rightarrow> string \<Rightarrow> unit io" where
  "buildDefaultPreferences h defs dir =
     bind (log_line []) (\<lambda>u1.
     bind (log_line ''### Building default preferences'') (\<lambda>u2.
     bind (deref defs) (\<lambda>definesObj.
     bind (alloc (buildDefaultPreferencesDefines h definesObj)) (\<lambda>bundleDefines.
     bind (alloc [(''filename'', JStr ''app_options.mjs''),
                  (''library'', JObj [(''type'', JStr ''module'')])]) (\<lambda>outp.
     bind (createWebpackConfig h bundleDefines outp (default_options\<lparr>disableVersionInfo := True\<rparr>))
       (\<lambda>defaultPreferencesConfig.
     bind (run_webpack h defaultPreferencesConfig ''web/app_options.js'') (\<lambda>text.
     gulp_dest (DEFAULT_PREFERENCES_DIR @ dir) (''app_options.mjs'', text))))))))"

text \<open>
  The dynamic \<^verbatim>\<open>import(...)\<close> of the generated module followed by
  \<^verbatim>\<open>AppOptions.getAll(OptionKind.PREFERENCE)\<close>: the host's \<^verbatim>\<open>load_preferences\<close> gives the
  preferences a module text yields, or the failure of loading it.
\<close>

definition import_app_options :: "host \<Rightarrow> string \<Rightarrow> jsobj io" where
  "import_app_options h p = (\<lambda>w.
     case files w (norm_path p) of
       None \<Rightarrow> (Inl (ImportFailed p), w)
     | Some src \<Rightarrow> (load_preferences h src, w))"

text \<open>\<^verbatim>\<open>Object.keys(obj)\<close>: each property name once.\<close>

definition object_keys :: "jsobj \<Rightarrow> string list" where
  "object_keys obj = remdups (map fst obj)"

definition parseDefaultPreferences :: "host \<Rightarrow> string \<Rightarrow> unit io" where
  "parseDefaultPreferences h dir =
     bind (log_line []) (\<lambda>u1.
     bind (log_line ''### Parsing default preferences'') (\<lambda>u2.
     bind (import_app_options h (''./'' @ DEFAULT_PREFERENCES_DIR @ dir @ ''app_options.mjs''))
       (\<lambda>prefs.
     if length (object_keys prefs) = 0 then throw (JsError ''No default preferences found.'')
     else writeFileSync (DEFAULT_PREFERENCES_DIR @ dir @ ''default_preferences.json'')
            (json_stringify h (JObj prefs)))))"

section \<open>Minification\<close>

definition minify :: "host \<Rightarrow> minify_input \<Rightarrow> string io" where
  "minify h inp = lift (terser_minify h inp)"

definition parseMinified :: "host \<Rightarrow> string \<Rightarrow> unit io" where
  "parseMinified h dir =
     bind (readFileSync (dir @ ''/build/pdf.js'')) (\<lambda>pdfFile.
     bind (readFileSync (dir @ ''/build/pdf.worker.js'')) (\<lambda>pdfWorkerFile.
     bind (readFileSync (dir @ ''/build/pdf.sandbox.js'')) (\<lambda>pdfSandboxFile.
     bind (readFileSync (dir @ ''/image_decoders/pdf.image_decoders.js'')) (\<lambda>pdfImageDecodersFile.
     bind (readFileSync (dir @ ''/web/viewer.js'')) (\<lambda>viewerJs.
     let viewerFiles = [(''pdf.js'', pdfFile), (''viewer.js'', viewerJs)] in
     bind (log_line []) (\<lambda>u1.
     bind (log_line ''### Minifying js files'') (\<lambda>u2.
     bind (minify h (NamedSources viewerFiles)) (\<lambda>c1.
     bind (writeFileSync (dir @ ''/web/pdf.viewer.js'') c1) (\<lambda>u3.
     bind (minify h (Source pdfFile)) (\<lambda>c2.
     bind (writeFileSync (dir @ ''/build/pdf.min.js'') c2) (\<lambda>u4.
     bind (minify h (Source pdfWorkerFile)) (\<lambda>c3.
     bind (writeFileSync (dir @ ''/build/pdf.worker.min.js'') c3) (\<lambda>u5.
     bind (minify h (Source pdfSandboxFile)) (\<lambda>c4.
     bind (writeFileSync (dir @ ''/build/pdf.sandbox.min.js'') c4) (\<lambda>u6.
     bind (minify h (Source pdfImageDecodersFile)) (\<lambda>c5.
     bind (writeFileSync (dir @ ''image_decoders/pdf.image_decoders.min.js'') c5) (\<lambda>u7.
     bind (log_line []) (\<lambda>u8.
     bind (log_line ''### Cleaning js files'') (\<lambda>u9.
     bind (unlinkSync (dir @ ''/web/viewer.js'')) (\<lambda>u10.
     bind (unlinkSync (dir @ ''/web/debugger.js'')) (\<lambda>u11.
     bind (unlinkSync (dir @ ''/build/pdf.js'')) (\<lambda>u12.
     bind (unlinkSync (dir @ ''/build/pdf.worker.js'')) (\<lambda>u13.
     bind (unlinkSync (dir @ ''/build/pdf.sandbox.js'')) (\<lambda>u14.
     bind (renameSync (dir @ ''/build/pdf.min.js'') (dir @ ''/build/pdf.js'')) (\<lambda>u15.
     bind (renameSync (dir @ ''/build/pdf.worker.min.js'') (dir @ ''/build/pdf.worker.js'')) (\<lambda>u16.
     bind (renameSync (dir @ ''/build/pdf.sandbox.min.js'') (dir @ ''/build/pdf.sandbox.js''))
       (\<lambda>u17.
     renameSync (dir @ ''/image_decoders/pdf.image_decoders.min.js'')
       (dir @ ''/image_decoders/pdf.image_decoders.js''))))))))))))))))))))))))))))"

section \<open>Names used in the statements\<close>

text \<open>The slot names of the alias table, in the order of the three tables of the source.\<close>

definition slotNames :: "string list" where
  "slotNames = map fst (basicAlias @ libraryAlias_init @ viewerAlias_init)"

text \<open>None of the branches on \<^verbatim>\<open>CHROME\<close>, \<^verbatim>\<open>GENERIC\<close> and \<^verbatim>\<open>MOZCENTRAL\<close> is taken.\<close>

definition no_target :: "jsobj \<Rightarrow> bool" where
  "no_target d = (\<not> truthy (prop_get d ''CHROME'') \<and> \<not> truthy (prop_get d ''GENERIC'') \<and>
     \<not> truthy (prop_get d ''MOZCENTRAL''))"

text \<open>A computation that leaves the files alone and issues nothing but reads.\<close>

definition reads_only :: "'a io \<Rightarrow> bool" where
  "reads_only m = (\<forall>w r w'. m w = (r, w') \<longrightarrow>
     files w' = files w \<and> (\<exists>rest. fs_trace w' = fs_trace w @ rest \<and> set rest \<subseteq> range EvRead))"

text \<open>
  A computation whose file-system calls are the events \<open>evs\<close>, in this order: all of
  them when it returns, an initial part of them when it throws.
\<close>

definition emits :: "'a io \<Rightarrow> fs_event list \<Rightarrow> bool" where
  "emits m evs = (\<forall>w r w'. m w = (r, w') \<longrightarrow>
     (case r of Inr x \<Rightarrow> fs_trace w' = fs_trace w @ evs
              | Inl e \<Rightarrow> (\<exists>k. fs_trace w' = fs_trace w @ take k evs)))"

text \<open>The file-system calls of \<^verbatim>\<open>parseMinified\<close> in the order of the source.\<close>

definition minify_events :: "string \<Rightarrow> fs_event list" where
  "minify_events dir =
    [EvRead (dir @ ''/build/pdf.js''),
     EvRead (dir @ ''/build/pdf.worker.js''),
     EvRead (dir @ ''/build/pdf.sandbox.js''),
     EvRead (dir @ ''/image_decoders/pdf.image_decoders.js''),
     EvRead (dir @ ''/web/viewer.js''),
     EvWrite (dir @ ''/web/pdf.viewer.js''),
     EvWrite (dir @ ''/build/pdf.min.js''),
     EvWrite (dir @ ''/build/pdf.worker.min.js''),
     EvWrite (dir @ ''/build/pdf.sandbox.min.js''),
     EvWrite (dir @ ''image_decoders/pdf.image_decoders.min.js''),
     EvUnlink (dir @ ''/web/viewer.js''),
     EvUnlink (dir @ ''/web/debugger.js''),
     EvUnlink (dir @ ''/build/pdf.js''),
     EvUnlink (dir @ ''/build/pdf.worker.js''),
     EvUnlink (dir @ ''/build/pdf.sandbox.js''),
     EvRename (dir @ ''/build/pdf.min.js'') (dir @ ''/build/pdf.js''),
     EvRename (dir @ ''/build/pdf.worker.min.js'') (dir @ ''/build/pdf.worker.js''),
     EvRename (dir @ ''/build/pdf.sandbox.min.js'') (dir @ ''/build/pdf.sandbox.js''),
     EvRename (dir @ ''/image_decoders/pdf.image_decoders.min.js'')
              (dir @ ''/image_decoders/pdf.image_decoders.js'')]"

text \<open>The calls that delete a file or replace one by another.\<close>

fun is_cleanup :: "fs_event \<Rightarrow> bool" where
  "is_cleanup (EvUnlink p) = True"
| "is_cleanup (EvRename a b) = True"
| "is_cleanup (EvRead p) = False"
| "is_cleanup (EvWrite p) = False"

text \<open>
  Two strings of which the second cannot start inside the first in any text: no nonempty
  end piece of \<open>p\<close> is a beginning of \<open>x\<close> or has \<open>x\<close> as a beginning.
\<close>

fun no_overlap :: "string \<Rightarrow> string \<Rightarrow> bool" where
  "no_overlap [] x = True"
| "no_overlap (c # p) x = (\<not> prefix (c # p) x \<and> \<not> prefix x (c # p) \<and> no_overlap p x)"

text \<open>The characters of JavaScript identifiers (ASCII), and the identifiers of a text: its
  pieces between the other characters.\<close>

definition ident_char :: "char \<Rightarrow> bool" where
  "ident_char c = (c \<in> set (''abcdefghijklmnopqrstuvwxyz'' @ ''ABCDEFGHIJKLMNOPQRSTUVWXYZ'' @
     ''0123456789_$''))"

fun words_of :: "string \<Rightarrow> string list" where
  "words_of [] = [[]]"
| "words_of (c # cs) =
     (if ident_char c
      then (case words_of cs of [] \<Rightarrow> [[c]] | u # us \<Rightarrow> (c # u) # us)
      else [] # words_of cs)"

text \<open>The marker \<open>s\<close> occurs in the text only as a whole identifier.\<close>

definition whole_word :: "string \<Rightarrow> string \<Rightarrow> bool" where
  "whole_word s t = list_all (\<lambda>u. \<not> sublist s u \<or> u = s) (words_of t)"

text \<open>The three passes in each of the six orders.\<close>

definition pass_orders :: "string \<Rightarrow> string \<Rightarrow> (string \<Rightarrow> string) list" where
  "pass_orders amdName jsName =
     (let W = replaceWebpackRequire; N = replaceNonWebpackImport;
          J = replaceJSRootName amdName jsName
      in [J \<circ> N \<circ> W, J \<circ> W \<circ> N, N \<circ> J \<circ> W, N \<circ> W \<circ> J, W \<circ> J \<circ> N, W \<circ> N \<circ> J])"

text \<open>
  What \<^verbatim>\<open>parseMinified\<close> hands to the minifier, in the order of its calls, for the contents
  of the library, the worker, the sandbox, the image decoders and the viewer.
\<close>

definition minify_inputs :: "string \<Rightarrow> string \<Rightarrow> string \<Rightarrow> string \<Rightarrow> string \<Rightarrow> minify_input list" where
  "minify_inputs a b c d v =
     [NamedSources [(''pdf.js'', a), (''viewer.js'', v)], Source a, Source b, Source c, Source d]"

text \<open>The files that the cleaning stage of \<^verbatim>\<open>parseMinified\<close> deletes or renames over.\<close>

definition originals :: "string \<Rightarrow> string list" where
  "originals dir =
     [dir @ ''/web/viewer.js'', dir @ ''/web/debugger.js'', dir @ ''/build/pdf.js'',
      dir @ ''/build/pdf.worker.js'', dir @ ''/build/pdf.sandbox.js'',
      dir @ ''/image_decoders/pdf.image_decoders.js'']"

text \<open>Writing and deleting one entry of the file table, as named operations.\<close>

definition put_file :: "(string \<rightharpoonup> string) \<Rightarrow> string \<Rightarrow> string \<Rightarrow> (string \<rightharpoonup> string)" where
  "put_file fs p c = fs(p \<mapsto> c)"

definition del_file :: "(string \<rightharpoonup> string) \<Rightarrow> string \<Rightarrow> (string \<rightharpoonup> string)" where
  "del_file fs p = fs(p := None)"

text \<open>The resolved form of a directory name, up to and including its final slash.\<close>

definition dir_prefix :: "string \<Rightarrow> string" where
  "dir_prefix dir = strip_dot (squeeze (dir @ ''/''))"

subsection \<open>A concrete host and concrete worlds\<close>

text \<open>
  The examples below run the script in a small world: the script lives in \<^verbatim>\<open>/repo\<close>,
  \<^verbatim>\<open>path.join\<close> joins a directory and a relative path with a slash (and returns the
  directory for the empty path, as Node does), the bundler returns a comment naming
  its entry, the minifier returns its input, and both version-control queries fail.
\<close>

definition posix_join :: "string \<Rightarrow> string \<Rightarrow> string" where
  "posix_join a b = (if b = [] then a else a @ ''/'' @ b)"

definition demo_host :: host where
  "demo_host = \<lparr>process_env = Map.empty, dirname = ''/repo'', baseVersion = ''v4.0'',
     versionPrefix = ''4.0.'', path_join = posix_join,
     json_parse = (\<lambda>s. Inr (JObj [])), json_stringify = (\<lambda>v. ''{}''),
     webpack_run = (\<lambda>cfg outp entry fs. Inr (''/* '' @ entry @ '' */'')),
     terser_minify = (\<lambda>inp. case inp of Source s \<Rightarrow> Inr s
                                        | NamedSources xs \<Rightarrow> Inr (concat (map snd xs))),
     load_preferences = (\<lambda>src. Inr []),
     exec_git = (\<lambda>cmd. (True, []))\<rparr>"

definition testing_env :: host where
  "testing_env = demo_host\<lparr>process_env := [''TESTING'' \<mapsto> ''true'']\<rparr>"

definition demo_world :: "jsobj list \<Rightarrow> (string \<times> string) list \<Rightarrow> world" where
  "demo_world objs fs = \<lparr>heap = (\<lambda>r. if r < length objs then objs ! r else []),
     next_ref = length objs, files = map_of fs, console = [], fs_trace = []\<rparr>"

definition demo_options :: options where
  "demo_options = default_options\<lparr>disableVersionInfo := True\<rparr>"

definition license_only :: "(string \<times> string) list" where
  "license_only = [(''src/license_header_libre.js'', ''/* license */'')]"

definition main_output :: jsobj where
  "main_output = umd_output ''pdf.js'' ''pdfjs-dist/build/pdf''"

text \<open>The configuration \<^verbatim>\<open>createWebpackConfig\<close> returns in that world for a flag set \<open>d\<close>.\<close>

definition demo_config :: "host \<Rightarrow> jsobj \<Rightarrow> webpack_config" where
  "demo_config h d = webpackConfigOf h demo_options
     (bundleDefinesOf h d (JNum 0) (JNum 0) (JObj [])) ''/* license */'' main_output 1"

text \<open>A host whose commit-count query prints three lines and whose short-hash query fails.\<close>

definition hash_fails_host :: host where
  "hash_fails_host = demo_host\<lparr>exec_git :=
     (\<lambda>cmd. if cmd = gitHashCommand then (True, [])
            else (False, ''a'' @ [newline] @ ''b'' @ [newline] @ ''c'' @ [newline]))\<rparr>"

text \<open>The paths of the default preferences of the generic target.\<close>

definition generic_app_options :: string where
  "generic_app_options = ''build/default_preferences/generic/app_options.mjs''"

text \<open>The post-processing \<^verbatim>\<open>createScriptingBundle\<close> applies to the bundler's output.\<close>

definition scripting_post :: "string \<Rightarrow> string" where
  "scripting_post text = gulp_replace (rootAssignment ''pdfjs-dist/build/pdf.scripting'')
     ''root.pdfjsScripting = factory()'' (replaceNonWebpackImport (replaceWebpackRequire text))"

text \<open>The worlds of a \<^verbatim>\<open>dev-sandbox\<close> run: before it, after the temporary scripting bundle
  has been written, and after the sandbox bundle has been set up.\<close>

definition dev_world0 :: world where
  "dev_world0 = demo_world [devDefines] license_only"

definition dev_world1 :: world where
  "dev_world1 = snd (createTemporaryScriptingBundle demo_host 0 devOptions dev_world0)"

definition dev_world2 :: world where
  "dev_world2 = snd (createSandboxBundle demo_host 0 devOptions dev_world1)"

text \<open>A bundler whose output is the scripting source its configuration defines, and the
  name of the entry where the configuration defines none.\<close>

definition echo_host :: host where
  "echo_host = demo_host\<lparr>webpack_run :=
     (\<lambda>cfg outp entry fs.
        case prop_get (cfg_defines cfg) ''PDF_SCRIPTING_JS_SOURCE'' of
          JStr s \<Rightarrow> Inr s
        | _ \<Rightarrow> Inr (''/* '' @ entry @ '' */''))\<rparr>"

text \<open>A minified build directory before \<^verbatim>\<open>parseMinified\<close> runs.\<close>

definition minified_files :: "(string \<times> string) list" where
  "minified_files =
     [(''build/minified/build/pdf.js'', ''A''),
      (''build/minified/build/pdf.worker.js'', ''B''),
      (''build/minified/build/pdf.sandbox.js'', ''C''),
      (''build/minified/image_decoders/pdf.image_decoders.js'', ''D''),
      (''build/minified/web/viewer.js'', ''V''),
      (''build/minified/web/debugger.js'', ''G'')]"

definition minified_world :: world where
  "minified_world = demo_world [] minified_files"

text \<open>A minifier that throws on the worker and returns every other input unchanged.\<close>

definition failing_host :: host where
  "failing_host = demo_host\<lparr>terser_minify :=
     (\<lambda>inp. if inp = Source ''B'' then Inl (MinifyFailed ''B'') else terser_minify demo_host inp)\<rparr>"

text \<open>A bundle in which the three passes each find something to replace.\<close>

definition bundle_text :: string where
  "bundle_text = rootAssignment ''pdfjs-dist/build/pdf'' @
     ''; __webpack_require__(1); __non_webpack_import__(x);''"

definition bundle_text_processed :: string where
  "bundle_text_processed = rootAssignmentLegacy ''pdfjs-dist/build/pdf'' ''pdfjsLib'' @
     ''; __w_pdfjs_require__(1); import(x);''"

section \<open>Properties\<close>

subsection \<open>Sequencing and the primitive effects\<close>

lemma bindE:
  assumes "bind m f w = (Inr y, w')"
  obtains x w1 where "m w = (Inr x, w1)" and "f x w1 = (Inr y, w')"
  using assms unfolding bind_def by (auto split: prod.splits sum.splits)

lemma bind_Inl_cases:
  assumes "bind m f w = (Inl e, w')"
  obtains "m w = (Inl e, w')"
  | x w1 where "m w = (Inr x, w1)" and "f x w1 = (Inl e, w')"
  using assms unfolding bind_def by (auto split: prod.splits sum.splits)

lemma bind_Inr_I: "m w = (Inr x, w1) \<Longrightarrow> bind m f w = f x w1"
  unfolding bind_def by simp

lemma bind_alloc:
  "bind (alloc obj) f w =
     f (next_ref w) (w\<lparr>heap := (heap w)(next_ref w := obj), next_ref := Suc (next_ref w)\<rparr>)"
  by (simp add: bind_def alloc_def)

lemma bind_assoc: "bind (bind m f) g = bind m (\<lambda>x. bind (f x) g)"
  by (auto simp: bind_def fun_eq_iff split: prod.splits sum.splits)

lemma bind_deref: "bind (deref a) f w = f (heap w a) w"
  by (simp add: bind_def deref_def)

lemma bind_ret: "bind (ret x) f w = f x w"
  by (simp add: bind_def ret_def)

lemma bind_log_line: "bind (log_line s) f w = f () (w\<lparr>console := console w @ [s]\<rparr>)"
  by (simp add: bind_def log_line_def)

lemma readFileSync_world:
  "readFileSync p w = (r, w1) \<Longrightarrow> w1 = w\<lparr>fs_trace := fs_trace w @ [EvRead p]\<rparr>"
  unfolding readFileSync_def by (auto simp: Let_def split: option.splits)

lemma lift_world: "lift r w = (x, w1) \<Longrightarrow> w1 = w"
  unfolding lift_def by simp

lemma ret_world: "ret a w = (x, w1) \<Longrightarrow> w1 = w \<and> x = Inr a"
  unfolding ret_def by auto

lemma deref_world: "deref r w = (x, w1) \<Longrightarrow> w1 = w \<and> x = Inr (heap w r)"
  unfolding deref_def by auto

lemma prop_get_set: "prop_get (prop_set obj k v) k' = (if k' = k then v else prop_get obj k')"
  by (simp add: prop_get_def prop_set_def update_conv')

lemma builder_merge_Nil: "builder_merge d [] = d"
  by (simp add: builder_merge_def)

lemma builder_merge_Cons: "builder_merge d ((k, v) # ovs) = builder_merge (prop_set d k v) ovs"
  by (simp add: builder_merge_def)

subsection \<open>What \<^verbatim>\<open>createWebpackConfig\<close> reads, writes and returns\<close>

lemma getVersionJSON_world:
  "getVersionJSON h w = (r, w1) \<Longrightarrow> \<exists>tr. w1 = w\<lparr>fs_trace := tr\<rparr>"
  unfolding getVersionJSON_def bind_def lift_def readFileSync_def
  by (auto simp: Let_def split: option.splits sum.splits prod.splits)

lemma getDefaultPreferences_world:
  "getDefaultPreferences h d w = (r, w1) \<Longrightarrow> \<exists>tr. w1 = w\<lparr>fs_trace := tr\<rparr>"
  unfolding getDefaultPreferences_def bind_def lift_def readFileSync_def
  by (auto simp: Let_def split: option.splits sum.splits prod.splits)

lemma versionInfoOf_world:
  "versionInfoOf h opts w = (r, w1) \<Longrightarrow> \<exists>tr. w1 = w\<lparr>fs_trace := tr\<rparr>"
  unfolding versionInfoOf_def
  by (auto dest: getVersionJSON_world simp: ret_def split: if_splits intro: exI[of _ "fs_trace w"])

lemma defaultPreferencesOf_world:
  "defaultPreferencesOf h opts w = (r, w1) \<Longrightarrow> \<exists>tr. w1 = w\<lparr>fs_trace := tr\<rparr>"
  unfolding defaultPreferencesOf_def
  by (auto dest: getDefaultPreferences_world simp: ret_def split: if_splits option.splits
      intro: exI[of _ "fs_trace w"])

text \<open>A call that returns: the configuration is built from the flag set and the output
  descriptor as they were at the call, and the only write is to the output descriptor.\<close>

lemma createWebpackConfig_Inr:
  assumes "createWebpackConfig h defs outp opts w = (Inr cfg, w')"
  shows "\<exists>bv bb dp lic tr.
           cfg = webpackConfigOf h opts (bundleDefinesOf h (heap w defs) bv bb dp) lic (heap w outp) outp
         \<and> w' = w\<lparr>heap := (heap w)(outp := prop_set (heap w outp) ''globalObject'' (JStr ''globalThis'')),
                 fs_trace := tr\<rparr>"
proof -
  from assms obtain vi w1 bv w2 bb w3 dobj w4 dp w5 lic w6 oobj w7 u w8 where
    s1: "versionInfoOf h opts w = (Inr vi, w1)" and
    s2: "lift (member vi ''version'') w1 = (Inr bv, w2)" and
    s3: "lift (member vi ''commit'') w2 = (Inr bb, w3)" and
    s4: "deref defs w3 = (Inr dobj, w4)" and
    s5: "defaultPreferencesOf h opts w4 = (Inr dp, w5)" and
    s6: "readFileSync ''./src/license_header_libre.js'' w5 = (Inr lic, w6)" and
    s7: "deref outp w6 = (Inr oobj, w7)" and
    s8: "assign outp ''globalObject'' (JStr ''globalThis'') w7 = (Inr u, w8)" and
    s9: "ret (webpackConfigOf h opts (bundleDefinesOf h dobj bv bb dp) lic oobj outp) w8 = (Inr cfg, w')"
    unfolding createWebpackConfig_def by (elim bindE)
  from versionInfoOf_world[OF s1] obtain t1 where w1: "w1 = w\<lparr>fs_trace := t1\<rparr>" by blast
  from lift_world[OF s2] lift_world[OF s3] deref_world[OF s4]
  have w4: "w4 = w1" and dobj: "dobj = heap w1 defs" by auto
  from defaultPreferencesOf_world[OF s5] obtain t5 where w5: "w5 = w4\<lparr>fs_trace := t5\<rparr>" by blast
  from readFileSync_world[OF s6]
  have w6: "w6 = w5\<lparr>fs_trace := fs_trace w5 @ [EvRead ''./src/license_header_libre.js'']\<rparr>" .
  from deref_world[OF s7] have w7: "w7 = w6" and oobj: "oobj = heap w6 outp" by auto
  from s8 have w8: "w8 = w7\<lparr>heap := (heap w7)(outp := prop_set (heap w7 outp) ''globalObject'' (JStr ''globalThis''))\<rparr>"
    unfolding assign_def by auto
  from ret_world[OF s9] have w': "w' = w8"
    and cfg: "cfg = webpackConfigOf h opts (bundleDefinesOf h dobj bv bb dp) lic oobj outp" by auto
  show ?thesis
    apply (rule exI[of _ bv], rule exI[of _ bb], rule exI[of _ dp], rule exI[of _ lic])
    apply (rule exI[of _ "t5 @ [EvRead ''./src/license_header_libre.js'']"])
    by (simp add: cfg w' w8 w7 oobj w6 w5 w4 dobj w1)
qed

text \<open>A call that throws has written nothing.\<close>

lemma createWebpackConfig_Inl:
  assumes "createWebpackConfig h defs outp opts w = (Inl e, w')"
  shows "\<exists>tr. w' = w\<lparr>fs_trace := tr\<rparr>"
  using assms unfolding createWebpackConfig_def
  apply (elim bind_Inl_cases bindE)
  apply (auto dest!: versionInfoOf_world defaultPreferencesOf_world lift_world deref_world readFileSync_world
        simp: assign_def ret_def)
  done

text \<open>With version information disabled and no default preferences asked for, the call
  returns as soon as the license header can be read.\<close>

lemma createWebpackConfig_succeeds:
  assumes "disableVersionInfo opts" and "defaultPreferencesDir opts = None"
    and "files w ''src/license_header_libre.js'' = Some lic"
  shows "createWebpackConfig h defs outp opts w =
    (Inr (webpackConfigOf h opts (bundleDefinesOf h (heap w defs) (JNum 0) (JNum 0) (JObj []))
            lic (heap w outp) outp),
     w\<lparr>heap := (heap w)(outp := prop_set (heap w outp) ''globalObject'' (JStr ''globalThis'')),
       fs_trace := fs_trace w @ [EvRead ''./src/license_header_libre.js'']\<rparr>)"
  using assms
  by (simp add: createWebpackConfig_def versionInfoOf_def defaultPreferencesOf_def bind_def ret_def
      lift_def deref_def assign_def readFileSync_def norm_path_def prop_get_def Let_def)

lemma demo_run:
  "createWebpackConfig h 0 1 demo_options (demo_world [d, main_output] license_only) =
    (Inr (demo_config h d),
     (demo_world [d, main_output] license_only)
       \<lparr>heap := (heap (demo_world [d, main_output] license_only))
                  (1 := prop_set main_output ''globalObject'' (JStr ''globalThis'')),
        fs_trace := [EvRead ''./src/license_header_libre.js'']\<rparr>)"
proof -
  let ?w = "demo_world [d, main_output] license_only"
  have "createWebpackConfig h 0 1 demo_options ?w =
    (Inr (webpackConfigOf h demo_options
            (bundleDefinesOf h (heap ?w 0) (JNum 0) (JNum 0) (JObj []))
            ''/* license */'' (heap ?w 1) 1),
     ?w\<lparr>heap := (heap ?w)(1 := prop_set (heap ?w 1) ''globalObject'' (JStr ''globalThis'')),
        fs_trace := fs_trace ?w @ [EvRead ''./src/license_header_libre.js'']\<rparr>)"
    by (rule createWebpackConfig_succeeds)
       (simp_all add: demo_options_def default_options_def demo_world_def license_only_def)
  then show ?thesis by (simp add: demo_world_def demo_config_def)
qed

lemma prop_get_bundleDefinesOf_TESTING:
  "prop_get (bundleDefinesOf h d bv bb dp) ''TESTING'' = testingDefine h d"
  by (simp add: bundleDefinesOf_def builder_merge_Nil builder_merge_Cons prop_get_set)

lemma prop_get_bundleDefinesOf_other:
  "k \<notin> {''BUNDLE_VERSION'', ''BUNDLE_BUILD'', ''TESTING'', ''DEFAULT_PREFERENCES''} \<Longrightarrow>
   prop_get (bundleDefinesOf h d bv bb dp) k = prop_get d k"
  by (simp add: bundleDefinesOf_def builder_merge_Nil builder_merge_Cons prop_get_set)

lemma cfg_defines_webpackConfigOf: "cfg_defines (webpackConfigOf h opts bd lic oobj outp) = bd"
  by (simp add: cfg_defines_def webpackConfigOf_def Let_def)

lemma cfg_alias_webpackConfigOf: "cfg_alias (webpackConfigOf h opts bd lic oobj outp) = aliasTable h bd"
  by (simp add: webpackConfigOf_def Let_def)

lemma cfg_output_webpackConfigOf: "cfg_output (webpackConfigOf h opts bd lic oobj outp) = outp"
  by (simp add: webpackConfigOf_def Let_def)

subsection \<open>The alias table\<close>

lemma update_fresh: "k \<notin> fst ` set al \<Longrightarrow> AList.update k v al = al @ [(k, v)]"
  by (induction al) auto

lemma foldl_update_fresh:
  "distinct (map fst (al @ obj)) \<Longrightarrow>
   foldl (\<lambda>acc (k, v). AList.update k v acc) al obj = al @ obj"
proof (induction obj arbitrary: al)
  case Nil
  then show ?case by simp
next
  case (Cons kv obj)
  obtain k v where kv: "kv = (k, v)" by (cases kv)
  from Cons.prems have fresh: "k \<notin> fst ` set al" by (auto simp: kv)
  from Cons.prems have "distinct (map fst ((al @ [(k, v)]) @ obj))" by (auto simp: kv)
  from Cons.IH[OF this] show ?case by (simp add: kv update_fresh[OF fresh])
qed

text \<open>Spreading tables with pairwise different keys concatenates them.\<close>

lemma spread3:
  assumes "distinct (map fst (a @ b @ c))"
  shows "spread [a, b, c] = a @ b @ c"
proof -
  from assms have da: "distinct (map fst ([] @ a))" and dab: "distinct (map fst (a @ b))"
    and dabc: "distinct (map fst ((a @ b) @ c))" by auto
  show ?thesis
    unfolding spread_def
    using foldl_update_fresh[OF da] foldl_update_fresh[OF dab] foldl_update_fresh[OF dabc]
    by simp
qed

lemma update_keys_mem: "k \<in> set (map fst al) \<Longrightarrow> map fst (AList.update k v al) = map fst al"
  by (simp add: update_keys)

text \<open>Assigning to slots that exist keeps the slots and their order.\<close>

lemma assigns_keys:
  "set (map fst kvs) \<subseteq> set (map fst tbl) \<Longrightarrow> map fst (assigns tbl kvs) = map fst tbl"
  unfolding assigns_def
proof (induction kvs arbitrary: tbl)
  case Nil
  then show ?case by simp
next
  case (Cons kv kvs)
  obtain k v where kv: "kv = (k, v)" by (cases kv)
  from Cons.prems have k: "k \<in> set (map fst tbl)" by (simp add: kv)
  have "map fst (AList.update k v tbl) = map fst tbl" by (rule update_keys_mem[OF k])
  with Cons.prems Cons.IH[of "AList.update k v tbl"] show ?case by (simp add: kv)
qed

lemma map_of_assigns: "map_of (assigns tbl kvs) = map_of tbl ++ map_of (rev kvs)"
  unfolding assigns_def
proof (induction kvs arbitrary: tbl)
  case Nil
  then show ?case by simp
next
  case (Cons kv kvs)
  obtain k v where kv: "kv = (k, v)" by (cases kv)
  show ?case by (simp add: kv Cons.IH update_conv' map_add_def fun_eq_iff split: option.splits)
qed

lemma geckoviewAlias_keys: "map fst (geckoviewAlias tbl) = map fst tbl"
  by (induction tbl) (auto simp: geckoviewAlias_def)

lemma slotNames_distinct: "distinct slotNames"
  unfolding slotNames_def basicAlias_def libraryAlias_init_def viewerAlias_init_def
  by simp

lemma targetAlias_keys:
  "map fst (fst (targetAlias bd)) = map fst libraryAlias_init"
  "map fst (snd (targetAlias bd)) = map fst viewerAlias_init"
  unfolding targetAlias_def
  by (simp_all add: assigns_keys geckoviewAlias_keys libraryAlias_init_def viewerAlias_init_def)

lemma aliasPaths_eq: "aliasPaths bd = basicAlias @ fst (targetAlias bd) @ snd (targetAlias bd)"
proof -
  have "distinct (map fst (basicAlias @ fst (targetAlias bd) @ snd (targetAlias bd)))"
    using slotNames_distinct by (simp add: targetAlias_keys slotNames_def)
  from spread3[OF this] show ?thesis by (cases "targetAlias bd") (simp add: aliasPaths_def)
qed

lemma aliasPaths_keys: "map fst (aliasPaths bd) = slotNames"
  by (simp add: aliasPaths_eq targetAlias_keys slotNames_def)

lemma aliasPaths_fallback:
  "\<not> truthy (prop_get bd ''CHROME'') \<Longrightarrow> \<not> truthy (prop_get bd ''GENERIC'') \<Longrightarrow>
   \<not> truthy (prop_get bd ''MOZCENTRAL'') \<Longrightarrow>
   aliasPaths bd = basicAlias @ libraryAlias_init @ viewerAlias_init"
  by (simp add: aliasPaths_eq targetAlias_def)

lemma map_of_map_values:
  "map_of (map (\<lambda>(key, p). (key, f p)) xs) k = map_option f (map_of xs k)"
  by (induction xs) auto

lemma aliasTable_lookup:
  "map_of (aliasTable h bd) k = map_option (path_join h (dirname h)) (map_of (aliasPaths bd) k)"
  unfolding aliasTable_def by (rule map_of_map_values)

lemma demo_join: "path_join demo_host (dirname demo_host) = posix_join ''/repo''"
  by (simp add: demo_host_def)

lemma fst_demo_run:
  "fst (createWebpackConfig h 0 1 demo_options (demo_world [d, main_output] license_only))
     = Inr (demo_config h d)"
  unfolding demo_run by simp

lemma demo_heap0: "heap (demo_world [d, outobj] fs) 0 = d"
  by (simp add: demo_world_def)

lemma DEFINES_no_target: "no_target DEFINES"
  by (simp add: no_target_def DEFINES_def prop_get_def)

text \<open>
  Claim C3, as amended. Whenever \<^verbatim>\<open>createWebpackConfig\<close> returns a configuration, its alias
  table has exactly the slot names of the three tables of the source, in their order, and
  every slot is mapped to \<^verbatim>\<open>path.join(__dirname, p)\<close> for a relative path \<open>p\<close>. When
  none of \<^verbatim>\<open>CHROME\<close>, \<^verbatim>\<open>GENERIC\<close> and \<^verbatim>\<open>MOZCENTRAL\<close> is truthy in the caller's flag set, the
  table is the initial one: the six \<^verbatim>\<open>display-*\<close> slots are mapped to the stub module
  \<^verbatim>\<open>src/display/stubs.js\<close>, but the viewer slots keep their initial values, the empty path
  for \<^verbatim>\<open>web-com\<close> and \<^verbatim>\<open>web-print_service\<close> and the regular \<^verbatim>\<open>web/*.js\<close> modules for the
  others.
\<close>

theorem alias_table_total:
  assumes "createWebpackConfig h defs outp opts w = (Inr cfg, w')"
  shows "map fst (cfg_alias cfg) = slotNames \<and>
         (\<forall>k \<in> set slotNames. \<exists>rel. map_of (cfg_alias cfg) k = Some (path_join h (dirname h) rel)) \<and>
         (no_target (heap w defs) \<longrightarrow>
            cfg_alias cfg = map (\<lambda>(k, p). (k, path_join h (dirname h) p))
                              (basicAlias @ libraryAlias_init @ viewerAlias_init))"
proof -
  from createWebpackConfig_Inr[OF assms] obtain bv bb dp where
    al: "cfg_alias cfg = aliasTable h (bundleDefinesOf h (heap w defs) bv bb dp)"
    by (auto simp: cfg_alias_webpackConfigOf)
  let ?bd = "bundleDefinesOf h (heap w defs) bv bb dp"
  have keys: "map fst (cfg_alias cfg) = slotNames"
    unfolding al aliasTable_def using aliasPaths_keys[of ?bd] by (simp add: case_prod_unfold comp_def)
  have each: "\<forall>k \<in> set slotNames. \<exists>rel. map_of (cfg_alias cfg) k = Some (path_join h (dirname h) rel)"
  proof
    fix k assume "k \<in> set slotNames"
    then have "k \<in> fst ` set (aliasPaths ?bd)" using aliasPaths_keys[of ?bd] by (metis set_map)
    then obtain rel where "map_of (aliasPaths ?bd) k = Some rel"
      by (metis map_of_eq_None_iff not_Some_eq)
    then show "\<exists>rel. map_of (cfg_alias cfg) k = Some (path_join h (dirname h) rel)"
      by (auto simp: al aliasTable_lookup)
  qed
  have fb: "no_target (heap w defs) \<longrightarrow>
            cfg_alias cfg = map (\<lambda>(k, p). (k, path_join h (dirname h) p))
                              (basicAlias @ libraryAlias_init @ viewerAlias_init)"
  proof
    assume "no_target (heap w defs)"
    then have "aliasPaths ?bd = basicAlias @ libraryAlias_init @ viewerAlias_init"
      by (intro aliasPaths_fallback) (simp_all add: no_target_def prop_get_bundleDefinesOf_other)
    then show "cfg_alias cfg = map (\<lambda>(k, p). (k, path_join h (dirname h) p))
                              (basicAlias @ libraryAlias_init @ viewerAlias_init)"
      by (simp add: al aliasTable_def)
  qed
  from keys each fb show ?thesis by blast
qed

text \<open>The theorem at the base flag set \<^verbatim>\<open>DEFINES\<close>, in which no target is set.\<close>

theorem alias_table_total_witness:
  "fst (createWebpackConfig demo_host 0 1 demo_options (demo_world [DEFINES, main_output] license_only))
     = Inr (demo_config demo_host DEFINES) \<and>
   no_target DEFINES \<and>
   map fst (cfg_alias (demo_config demo_host DEFINES)) = slotNames \<and>
   cfg_alias (demo_config demo_host DEFINES) =
     map (\<lambda>(k, p). (k, posix_join ''/repo'' p)) (basicAlias @ libraryAlias_init @ viewerAlias_init)"
proof -
  from alias_table_total[OF demo_run[of demo_host DEFINES]]
  have keys: "map fst (cfg_alias (demo_config demo_host DEFINES)) = slotNames"
    and fb: "no_target DEFINES \<longrightarrow> cfg_alias (demo_config demo_host DEFINES) =
       map (\<lambda>(k, p). (k, posix_join ''/repo'' p)) (basicAlias @ libraryAlias_init @ viewerAlias_init)"
    unfolding demo_heap0 demo_join by blast+
  from keys fb DEFINES_no_target fst_demo_run[of demo_host DEFINES] show ?thesis by blast
qed

text \<open>
  Claim C3, as it is stated, fails at the base flag set \<^verbatim>\<open>DEFINES\<close> (no target set): the
  toolbar slot is resolved to the regular toolbar module and the slots \<^verbatim>\<open>web-com\<close> and
  \<^verbatim>\<open>web-print_service\<close> to the directory of the script, none of them to a stub.
\<close>

theorem alias_fallback_not_all_stubs:
  "fst (createWebpackConfig demo_host 0 1 demo_options (demo_world [DEFINES, main_output] license_only))
     = Inr (demo_config demo_host DEFINES) \<and>
   map_of (cfg_alias (demo_config demo_host DEFINES)) ''web-toolbar'' = Some ''/repo/web/toolbar.js'' \<and>
   map_of (cfg_alias (demo_config demo_host DEFINES)) ''web-com'' = Some ''/repo'' \<and>
   map_of (cfg_alias (demo_config demo_host DEFINES)) ''web-print_service'' = Some ''/repo'' \<and>
   map_of (cfg_alias (demo_config demo_host DEFINES)) ''display-network'' = Some ''/repo/src/display/stubs.js''"
proof -
  have nt: "\<not> truthy (prop_get (bundleDefinesOf demo_host DEFINES (JNum 0) (JNum 0) (JObj [])) ''CHROME'')"
    "\<not> truthy (prop_get (bundleDefinesOf demo_host DEFINES (JNum 0) (JNum 0) (JObj [])) ''GENERIC'')"
    "\<not> truthy (prop_get (bundleDefinesOf demo_host DEFINES (JNum 0) (JNum 0) (JObj [])) ''MOZCENTRAL'')"
    using DEFINES_no_target by (simp_all add: no_target_def prop_get_bundleDefinesOf_other)
  have "cfg_alias (demo_config demo_host DEFINES) =
     map (\<lambda>(k, p). (k, path_join demo_host (dirname demo_host) p))
       (basicAlias @ libraryAlias_init @ viewerAlias_init)"
    by (simp add: demo_config_def cfg_alias_webpackConfigOf aliasTable_def aliasPaths_fallback[OF nt])
  then have tbl: "map_of (cfg_alias (demo_config demo_host DEFINES)) =
     map_of (map (\<lambda>(k, p). (k, posix_join ''/repo'' p))
       (basicAlias @ libraryAlias_init @ viewerAlias_init))"
    unfolding demo_join by simp
  have "map_of (cfg_alias (demo_config demo_host DEFINES)) ''web-toolbar'' = Some ''/repo/web/toolbar.js'' \<and>
   map_of (cfg_alias (demo_config demo_host DEFINES)) ''web-com'' = Some ''/repo'' \<and>
   map_of (cfg_alias (demo_config demo_host DEFINES)) ''web-print_service'' = Some ''/repo'' \<and>
   map_of (cfg_alias (demo_config demo_host DEFINES)) ''display-network'' = Some ''/repo/src/display/stubs.js''"
    unfolding tbl
    by (simp add: basicAlias_def libraryAlias_init_def viewerAlias_init_def posix_join_def)
  with fst_demo_run[of demo_host DEFINES] show ?thesis by blast
qed

text \<open>
  Claim C4. When \<^verbatim>\<open>createWebpackConfig\<close> is called with the base flag set merged with
  \<^verbatim>\<open>{ GENERIC: true, TESTING: true }\<close> and returns, the alias table is built from a table of
  relative paths in which the fetch-stream and network slots hold the fetch-based network
  modules, the localization slot holds \<^verbatim>\<open>web/l10n_utils.js\<close>, and the platform-integration
  and print-service slots hold the generic implementations; so none of these slots holds a
  stub or an extension-specific module.
\<close>

theorem generic_testing_aliases:
  assumes "createWebpackConfig h defs outp opts w = (Inr cfg, w')"
    and "heap w defs = builder_merge DEFINES [(''GENERIC'', JBool True), (''TESTING'', JBool True)]"
  shows "cfg_alias cfg = aliasTable h (cfg_defines cfg) \<and>
         map_of (aliasPaths (cfg_defines cfg)) ''display-fetch_stream'' = Some ''src/display/fetch_stream.js'' \<and>
         map_of (aliasPaths (cfg_defines cfg)) ''display-network'' = Some ''src/display/network.js'' \<and>
         map_of (aliasPaths (cfg_defines cfg)) ''display-l10n_utils'' = Some ''web/l10n_utils.js'' \<and>
         map_of (aliasPaths (cfg_defines cfg)) ''web-com'' = Some ''web/genericcom.js'' \<and>
         map_of (aliasPaths (cfg_defines cfg)) ''web-print_service'' = Some ''web/pdf_print_service.js'' \<and>
         map_of (cfg_alias cfg) ''display-fetch_stream'' = Some (path_join h (dirname h) ''src/display/fetch_stream.js'') \<and>
         map_of (cfg_alias cfg) ''display-network'' = Some (path_join h (dirname h) ''src/display/network.js'') \<and>
         map_of (cfg_alias cfg) ''display-l10n_utils'' = Some (path_join h (dirname h) ''web/l10n_utils.js'') \<and>
         map_of (cfg_alias cfg) ''web-com'' = Some (path_join h (dirname h) ''web/genericcom.js'') \<and>
         map_of (cfg_alias cfg) ''web-print_service'' = Some (path_join h (dirname h) ''web/pdf_print_service.js'')"
proof -
  from createWebpackConfig_Inr[OF assms(1)] obtain bv bb dp where
    al: "cfg_alias cfg = aliasTable h (bundleDefinesOf h (heap w defs) bv bb dp)" and
    df: "cfg_defines cfg = bundleDefinesOf h (heap w defs) bv bb dp"
    by (auto simp: cfg_alias_webpackConfigOf cfg_defines_webpackConfigOf)
  have d: "heap w defs = devDefines" by (simp add: assms(2) devDefines_def)
  have flags: "prop_get devDefines ''CHROME'' = JBool False" "prop_get devDefines ''GENERIC'' = JBool True"
    by (simp_all add: devDefines_def DEFINES_def builder_merge_Cons builder_merge_Nil prop_get_set)
       (simp_all add: prop_get_def)
  have c: "\<not> truthy (prop_get (cfg_defines cfg) ''CHROME'')"
    and g: "truthy (prop_get (cfg_defines cfg) ''GENERIC'')"
    by (simp_all add: df d prop_get_bundleDefinesOf_other flags)
  have ta: "targetAlias (cfg_defines cfg) =
       (assigns libraryAlias_init
          [(''display-fetch_stream'', ''src/display/fetch_stream.js''),
           (''display-l10n_utils'', ''web/l10n_utils.js''),
           (''display-network'', ''src/display/network.js''),
           (''display-node_stream'', ''src/display/node_stream.js''),
           (''display-node_utils'', ''src/display/node_utils.js''),
           (''display-svg'', ''src/display/svg.js'')],
        assigns viewerAlias_init
          [(''web-com'', ''web/genericcom.js''),
           (''web-print_service'', ''web/pdf_print_service.js'')])"
    using c g by (simp add: targetAlias_def)
  have rel: "map_of (aliasPaths (cfg_defines cfg)) ''display-fetch_stream'' = Some ''src/display/fetch_stream.js'' \<and>
         map_of (aliasPaths (cfg_defines cfg)) ''display-network'' = Some ''src/display/network.js'' \<and>
         map_of (aliasPaths (cfg_defines cfg)) ''display-l10n_utils'' = Some ''web/l10n_utils.js'' \<and>
         map_of (aliasPaths (cfg_defines cfg)) ''web-com'' = Some ''web/genericcom.js'' \<and>
         map_of (aliasPaths (cfg_defines cfg)) ''web-print_service'' = Some ''web/pdf_print_service.js''"
    by (simp add: aliasPaths_eq ta map_of_assigns basicAlias_def map_add_def
        libraryAlias_init_def viewerAlias_init_def)
  have al': "cfg_alias cfg = aliasTable h (cfg_defines cfg)" by (simp add: al df)
  from rel show ?thesis unfolding al' by (simp add: aliasTable_lookup)
qed

theorem generic_testing_aliases_witness:
  "fst (createWebpackConfig demo_host 0 1 demo_options (demo_world [devDefines, main_output] license_only))
     = Inr (demo_config demo_host devDefines) \<and>
   map_of (aliasPaths (cfg_defines (demo_config demo_host devDefines))) ''web-com'' = Some ''web/genericcom.js'' \<and>
   map_of (cfg_alias (demo_config demo_host devDefines)) ''display-network'' = Some ''/repo/src/display/network.js'' \<and>
   map_of (cfg_alias (demo_config demo_host devDefines)) ''web-com'' = Some ''/repo/web/genericcom.js''"
proof -
  let ?w = "demo_world [devDefines, main_output] license_only"
  have h0: "heap ?w 0 = builder_merge DEFINES [(''GENERIC'', JBool True), (''TESTING'', JBool True)]"
    by (simp add: demo_world_def devDefines_def)
  from generic_testing_aliases[OF demo_run[of demo_host devDefines] h0]
  have a: "map_of (aliasPaths (cfg_defines (demo_config demo_host devDefines))) ''web-com'' = Some ''web/genericcom.js''"
    and b: "map_of (cfg_alias (demo_config demo_host devDefines)) ''display-network'' =
              Some (path_join demo_host (dirname demo_host) ''src/display/network.js'')"
    and c: "map_of (cfg_alias (demo_config demo_host devDefines)) ''web-com'' =
              Some (path_join demo_host (dirname demo_host) ''web/genericcom.js'')"
    by blast+
  have b': "map_of (cfg_alias (demo_config demo_host devDefines)) ''display-network'' = Some ''/repo/src/display/network.js''"
    using b unfolding demo_join by (simp add: posix_join_def)
  have c': "map_of (cfg_alias (demo_config demo_host devDefines)) ''web-com'' = Some ''/repo/web/genericcom.js''"
    using c unfolding demo_join by (simp add: posix_join_def)
  from a b' c' fst_demo_run[of demo_host devDefines] show ?thesis by blast
qed

subsection \<open>Frame of \<^verbatim>\<open>createWebpackConfig\<close>\<close>

text \<open>
  Claim C9, as amended. When a call of \<^verbatim>\<open>createWebpackConfig\<close> returns, the caller's output
  descriptor has been changed in place, exactly by setting its \<^verbatim>\<open>globalObject\<close> property to
  \<^verbatim>\<open>"globalThis"\<close>, the returned configuration refers to that same object, and no other
  object has been written. When the call throws, no object has been written at all, so
  the output descriptor is as it was. A flag set that is a different object from the
  output descriptor is never changed, whether the call returns or throws.
\<close>

theorem createWebpackConfig_frame:
  assumes "createWebpackConfig h defs outp opts w = (r, w')"
  shows "(\<forall>cfg. r = Inr cfg \<longrightarrow>
            heap w' outp = prop_set (heap w outp) ''globalObject'' (JStr ''globalThis'') \<and>
            prop_get (heap w' outp) ''globalObject'' = JStr ''globalThis'' \<and>
            cfg_output cfg = outp \<and>
            (\<forall>a. a \<noteq> outp \<longrightarrow> heap w' a = heap w a)) \<and>
         (\<forall>e. r = Inl e \<longrightarrow> heap w' = heap w) \<and>
         (defs \<noteq> outp \<longrightarrow> heap w' defs = heap w defs)"
proof (cases r)
  case (Inl e)
  with assms createWebpackConfig_Inl[of h defs outp opts w e w'] show ?thesis by auto
next
  case (Inr cfg)
  with assms createWebpackConfig_Inr[of h defs outp opts w cfg w'] show ?thesis
    by (auto simp: prop_get_set cfg_output_webpackConfigOf)
qed

lemma version_json_path: "norm_path (BUILD_DIR @ ''version.json'') = ''build/version.json''"
  by (simp add: BUILD_DIR_def norm_path_def)

lemma version_absent_run:
  "createWebpackConfig demo_host 0 1 default_options (demo_world [DEFINES, main_output] license_only) =
     (Inl (ENOENT (BUILD_DIR @ ''version.json'')),
      (demo_world [DEFINES, main_output] license_only)
        \<lparr>fs_trace := [EvRead (BUILD_DIR @ ''version.json'')]\<rparr>)"
  by (simp add: createWebpackConfig_def versionInfoOf_def getVersionJSON_def default_options_def
      bind_def readFileSync_def Let_def version_json_path demo_world_def license_only_def)

text \<open>A returning call, and the call that throws because \<^verbatim>\<open>build/version.json\<close> is
  absent.\<close>

theorem createWebpackConfig_frame_witness:
  "fst (createWebpackConfig demo_host 0 1 demo_options (demo_world [DEFINES, main_output] license_only))
     = Inr (demo_config demo_host DEFINES) \<and>
   heap (snd (createWebpackConfig demo_host 0 1 demo_options
                 (demo_world [DEFINES, main_output] license_only))) 0 = DEFINES \<and>
   prop_get (heap (snd (createWebpackConfig demo_host 0 1 demo_options
                 (demo_world [DEFINES, main_output] license_only))) 1)
     ''globalObject'' = JStr ''globalThis'' \<and>
   prop_get main_output ''globalObject'' = JUndefined \<and>
   heap (snd (createWebpackConfig demo_host 0 1 default_options
                 (demo_world [DEFINES, main_output] license_only))) =
     heap (demo_world [DEFINES, main_output] license_only)"
proof -
  let ?w = "demo_world [DEFINES, main_output] license_only"
  let ?run = "createWebpackConfig demo_host 0 1 demo_options ?w"
  let ?run2 = "createWebpackConfig demo_host 0 1 default_options ?w"
  have ne: "(0::nat) \<noteq> 1" by simp
  have run: "?run = (fst ?run, snd ?run)" by simp
  have run2: "?run2 = (fst ?run2, snd ?run2)" by simp
  have ok: "fst ?run = Inr (demo_config demo_host DEFINES)" by (rule fst_demo_run)
  have bad: "fst ?run2 = Inl (ENOENT (BUILD_DIR @ ''version.json''))"
    unfolding version_absent_run by simp
  have h0: "heap ?w 0 = DEFINES" by (rule demo_heap0)
  have before: "prop_get main_output ''globalObject'' = JUndefined"
    by (simp add: main_output_def umd_output_def prop_get_def)
  from createWebpackConfig_frame[OF run2] bad have c: "heap (snd ?run2) = heap ?w" by blast
  from createWebpackConfig_frame[OF run] ok h0 before ne
  have "fst ?run = Inr (demo_config demo_host DEFINES) \<and> heap (snd ?run) 0 = DEFINES \<and>
    prop_get (heap (snd ?run) 1) ''globalObject'' = JStr ''globalThis'' \<and>
    prop_get main_output ''globalObject'' = JUndefined" by auto
  with c show ?thesis by blast
qed

text \<open>
  Claim C9, as it is stated for every call, fails for a call that throws: with version
  information enabled and no \<^verbatim>\<open>build/version.json\<close>, the call ends with the missing-file
  error of \<^verbatim>\<open>getVersionJSON\<close> and the output descriptor still has no \<^verbatim>\<open>globalObject\<close>.
\<close>

theorem throwing_call_keeps_output:
  "fst (createWebpackConfig demo_host 0 1 default_options
          (demo_world [DEFINES, main_output] license_only)) =
     Inl (ENOENT (BUILD_DIR @ ''version.json'')) \<and>
   heap (snd (createWebpackConfig demo_host 0 1 default_options
          (demo_world [DEFINES, main_output] license_only))) 1 = main_output \<and>
   prop_get main_output ''globalObject'' = JUndefined"
  unfolding version_absent_run
  by (simp add: demo_world_def main_output_def umd_output_def prop_get_def)

subsection \<open>The \<^verbatim>\<open>TESTING\<close> flag\<close>

lemma buildDefaultPreferences_heap:
  assumes "buildDefaultPreferences h defs dir w = (r, w2)"
  shows "heap w2 (next_ref w) = buildDefaultPreferencesDefines h (heap w defs)"
proof -
  let ?n = "next_ref w"
  let ?W = "w\<lparr>console := console w @ [[], ''### Building default preferences''],
      heap := (heap w)(?n := buildDefaultPreferencesDefines h (heap w defs),
        Suc ?n := [(''filename'', JStr ''app_options.mjs''),
                   (''library'', JObj [(''type'', JStr ''module'')])]),
      next_ref := Suc (Suc ?n)\<rparr>"
  let ?K = "\<lambda>cfg. bind (run_webpack h cfg ''web/app_options.js'')
      (\<lambda>text. gulp_dest (DEFAULT_PREFERENCES_DIR @ dir) (''app_options.mjs'', text))"
  from assms have run: "bind (createWebpackConfig h ?n (Suc ?n)
      (default_options\<lparr>disableVersionInfo := True\<rparr>)) ?K ?W = (r, w2)"
    unfolding buildDefaultPreferences_def
    by (simp add: bind_log_line bind_deref bind_alloc)
  have W: "heap ?W ?n = buildDefaultPreferencesDefines h (heap w defs)" by simp
  obtain r0 W1 where c: "createWebpackConfig h ?n (Suc ?n)
      (default_options\<lparr>disableVersionInfo := True\<rparr>) ?W = (r0, W1)"
    by (cases "createWebpackConfig h ?n (Suc ?n) (default_options\<lparr>disableVersionInfo := True\<rparr>) ?W")
  show ?thesis
  proof (cases r0)
    case (Inl e)
    with c run have "w2 = W1" by (simp add: bind_def)
    moreover from createWebpackConfig_Inl[OF c[unfolded Inl]] obtain tr where
      "W1 = ?W\<lparr>fs_trace := tr\<rparr>" by blast
    ultimately show ?thesis by simp
  next
    case (Inr cfg)
    from createWebpackConfig_Inr[OF c[unfolded Inr]] have h1: "heap W1 ?n = heap ?W ?n" by auto
    from c run Inr have "?K cfg W1 = (r, w2)" by (simp add: bind_def)
    then have "heap w2 = heap W1"
      by (auto simp: bind_def run_webpack_def gulp_dest_def writeFileSync_def
          split: sum.splits)
    with h1 show ?thesis by simp
  qed
qed

text \<open>
  Claim C10. In the flag set that a returning call of \<^verbatim>\<open>createWebpackConfig\<close> hands to the
  loaders, and in the flag set \<^verbatim>\<open>buildDefaultPreferences\<close> merges and stores as a new object
  (whether it then returns or throws), \<^verbatim>\<open>TESTING\<close> is the caller's \<^verbatim>\<open>defines.TESTING\<close> unless
  that is \<^verbatim>\<open>null\<close> or \<^verbatim>\<open>undefined\<close>, and then it is the boolean
  \<^verbatim>\<open>process.env.TESTING === "true"\<close>. In particular an explicit \<^verbatim>\<open>TESTING: false\<close> stays
  \<^verbatim>\<open>false\<close> whatever the environment says.
\<close>

theorem testing_flag_resolution:
  "(createWebpackConfig h defs outp opts w = (Inr cfg, w') \<longrightarrow>
      prop_get (cfg_defines cfg) ''TESTING'' =
        (if nullish (prop_get (heap w defs) ''TESTING'')
         then JBool (process_env h ''TESTING'' = Some ''true'')
         else prop_get (heap w defs) ''TESTING'') \<and>
      (prop_get (heap w defs) ''TESTING'' = JBool False \<longrightarrow>
         prop_get (cfg_defines cfg) ''TESTING'' = JBool False)) \<and>
   (buildDefaultPreferences h defs dir w = (r, w2) \<longrightarrow>
      heap w2 (next_ref w) = buildDefaultPreferencesDefines h (heap w defs) \<and>
      prop_get (heap w2 (next_ref w)) ''TESTING'' =
        (if nullish (prop_get (heap w defs) ''TESTING'')
         then JBool (process_env h ''TESTING'' = Some ''true'')
         else prop_get (heap w defs) ''TESTING'') \<and>
      (prop_get (heap w defs) ''TESTING'' = JBool False \<longrightarrow>
         prop_get (heap w2 (next_ref w)) ''TESTING'' = JBool False))"
proof -
  have b: "prop_get (buildDefaultPreferencesDefines h (heap w defs)) ''TESTING'' =
      testingDefine h (heap w defs)"
    by (simp add: buildDefaultPreferencesDefines_def builder_merge_Cons builder_merge_Nil prop_get_set)
  have A: "prop_get (cfg_defines cfg) ''TESTING'' =
        (if nullish (prop_get (heap w defs) ''TESTING'')
         then JBool (process_env h ''TESTING'' = Some ''true'')
         else prop_get (heap w defs) ''TESTING'') \<and>
      (prop_get (heap w defs) ''TESTING'' = JBool False \<longrightarrow>
         prop_get (cfg_defines cfg) ''TESTING'' = JBool False)"
    if run: "createWebpackConfig h defs outp opts w = (Inr cfg, w')"
  proof -
    from createWebpackConfig_Inr[OF run] obtain bv bb dp where
      df: "cfg_defines cfg = bundleDefinesOf h (heap w defs) bv bb dp"
      by (auto simp: cfg_defines_webpackConfigOf)
    show ?thesis
      by (simp add: df prop_get_bundleDefinesOf_TESTING testingDefine_def coalesce_def nullish_def)
  qed
  have B: "heap w2 (next_ref w) = buildDefaultPreferencesDefines h (heap w defs) \<and>
      prop_get (heap w2 (next_ref w)) ''TESTING'' =
        (if nullish (prop_get (heap w defs) ''TESTING'')
         then JBool (process_env h ''TESTING'' = Some ''true'')
         else prop_get (heap w defs) ''TESTING'') \<and>
      (prop_get (heap w defs) ''TESTING'' = JBool False \<longrightarrow>
         prop_get (heap w2 (next_ref w)) ''TESTING'' = JBool False)"
    if run: "buildDefaultPreferences h defs dir w = (r, w2)"
    by (simp add: buildDefaultPreferences_heap[OF run] b testingDefine_def coalesce_def nullish_def)
  from A B show ?thesis by blast
qed

text \<open>The theorem with \<^verbatim>\<open>TESTING=true\<close> in the environment: an explicit \<^verbatim>\<open>false\<close> is
  kept, the \<^verbatim>\<open>undefined\<close> of the base flag set becomes \<^verbatim>\<open>true\<close>.\<close>

theorem testing_flag_resolution_witness:
  "process_env testing_env ''TESTING'' = Some ''true'' \<and>
   prop_get [(''TESTING'', JBool False)] ''TESTING'' = JBool False \<and>
   fst (createWebpackConfig testing_env 0 1 demo_options
          (demo_world [[(''TESTING'', JBool False)], main_output] license_only))
     = Inr (demo_config testing_env [(''TESTING'', JBool False)]) \<and>
   prop_get (cfg_defines (demo_config testing_env [(''TESTING'', JBool False)])) ''TESTING'' = JBool False \<and>
   prop_get (heap (snd (buildDefaultPreferences testing_env 0 ''generic/''
          (demo_world [[(''TESTING'', JBool False)], main_output] license_only))) 2)
     ''TESTING'' = JBool False \<and>
   prop_get (heap (snd (buildDefaultPreferences testing_env 0 ''generic/''
          (demo_world [DEFINES, main_output] license_only))) 2)
     ''TESTING'' = JBool True"
proof -
  let ?d = "[(''TESTING'', JBool False)]"
  let ?w = "demo_world [?d, main_output] license_only"
  let ?v = "demo_world [DEFINES, main_output] license_only"
  have h0: "heap ?w 0 = ?d" "next_ref ?w = 2" by (simp_all add: demo_world_def)
  have v0: "heap ?v 0 = DEFINES" "next_ref ?v = 2" by (simp_all add: demo_world_def)
  have t: "prop_get ?d ''TESTING'' = JBool False" by (simp add: prop_get_def)
  have u: "nullish (prop_get DEFINES ''TESTING'')" by (simp add: DEFINES_def prop_get_def nullish_def)
  have e: "process_env testing_env ''TESTING'' = Some ''true''"
    by (simp add: testing_env_def demo_host_def)
  note i1 = testing_flag_resolution[of testing_env 0 1 demo_options ?w "demo_config testing_env ?d"
      _ "''generic/''" "fst (buildDefaultPreferences testing_env 0 ''generic/'' ?w)"
      "snd (buildDefaultPreferences testing_env 0 ''generic/'' ?w)"]
  note i2 = testing_flag_resolution[of testing_env 0 1 demo_options ?v "demo_config testing_env DEFINES"
      _ "''generic/''" "fst (buildDefaultPreferences testing_env 0 ''generic/'' ?v)"
      "snd (buildDefaultPreferences testing_env 0 ''generic/'' ?v)"]
  from i1 demo_run[of testing_env ?d] t
  have a: "prop_get (cfg_defines (demo_config testing_env ?d)) ''TESTING'' = JBool False"
    unfolding h0 by blast
  have p: "buildDefaultPreferences testing_env 0 ''generic/'' ?w =
      (fst (buildDefaultPreferences testing_env 0 ''generic/'' ?w),
       snd (buildDefaultPreferences testing_env 0 ''generic/'' ?w))"
    "buildDefaultPreferences testing_env 0 ''generic/'' ?v =
      (fst (buildDefaultPreferences testing_env 0 ''generic/'' ?v),
       snd (buildDefaultPreferences testing_env 0 ''generic/'' ?v))"
    by simp_all
  from i1 p(1) t have b: "prop_get (heap (snd (buildDefaultPreferences testing_env 0 ''generic/'' ?w)) 2)
      ''TESTING'' = JBool False"
    unfolding h0 by blast
  from i2 p(2) have "prop_get (heap (snd (buildDefaultPreferences testing_env 0 ''generic/'' ?v)) 2)
      ''TESTING'' = (if nullish (prop_get DEFINES ''TESTING'')
         then JBool (process_env testing_env ''TESTING'' = Some ''true'')
         else prop_get DEFINES ''TESTING'')"
    unfolding v0 by blast
  with u e have c: "prop_get (heap (snd (buildDefaultPreferences testing_env 0 ''generic/'' ?v)) 2)
      ''TESTING'' = JBool True"
    by simp
  from t e fst_demo_run[of testing_env ?d] a b c show ?thesis by blast
qed

subsection \<open>Default preferences\<close>

lemma getDefaultPreferences_absent:
  assumes "files w (norm_path (DEFAULT_PREFERENCES_DIR @ dir @ ''default_preferences.json'')) = None"
  shows "getDefaultPreferences h dir w =
     (Inl (ENOENT (DEFAULT_PREFERENCES_DIR @ dir @ ''default_preferences.json'')),
      w\<lparr>fs_trace := fs_trace w @ [EvRead (DEFAULT_PREFERENCES_DIR @ dir @ ''default_preferences.json'')]\<rparr>)"
  using assms by (simp add: getDefaultPreferences_def bind_def readFileSync_def Let_def)

lemma versionInfoOf_files: "versionInfoOf h opts w = (r, w1) \<Longrightarrow> files w1 = files w"
  by (auto dest!: versionInfoOf_world)

lemma createWebpackConfig_no_preferences:
  assumes "files w (norm_path (DEFAULT_PREFERENCES_DIR @ dir @ ''default_preferences.json'')) = None"
    and "defaultPreferencesDir opts = Some dir" and "dir \<noteq> []"
  shows "\<exists>e. fst (createWebpackConfig h defs outp opts w) = Inl e"
proof (cases "createWebpackConfig h defs outp opts w")
  case (Pair r w')
  show ?thesis
  proof (cases r)
    case (Inl e)
    with Pair show ?thesis by simp
  next
    case (Inr cfg)
    with Pair have run: "createWebpackConfig h defs outp opts w = (Inr cfg, w')" by simp
    then obtain vi w1 bv w2 bb w3 dobj w4 dp w5 where
      s1: "versionInfoOf h opts w = (Inr vi, w1)" and
      s2: "lift (member vi ''version'') w1 = (Inr bv, w2)" and
      s3: "lift (member vi ''commit'') w2 = (Inr bb, w3)" and
      s4: "deref defs w3 = (Inr dobj, w4)" and
      s5: "defaultPreferencesOf h opts w4 = (Inr dp, w5)"
      unfolding createWebpackConfig_def by (elim bindE)
    from versionInfoOf_files[OF s1] lift_world[OF s2] lift_world[OF s3] deref_world[OF s4]
    have "files w4 = files w" by auto
    with assms(1) have "files w4 (norm_path (DEFAULT_PREFERENCES_DIR @ dir @ ''default_preferences.json'')) = None"
      by simp
    from getDefaultPreferences_absent[OF this, of h] s5 assms(2,3) show ?thesis
      by (simp add: defaultPreferencesOf_def)
  qed
qed

lemma parseDefaultPreferences_empty:
  assumes "files w (norm_path (''./'' @ DEFAULT_PREFERENCES_DIR @ dir @ ''app_options.mjs'')) = Some src"
    and "load_preferences h src = Inr prefs" and "object_keys prefs = []"
  shows "parseDefaultPreferences h dir w =
     (Inl (JsError ''No default preferences found.''),
      w\<lparr>console := console w @ [[], ''### Parsing default preferences'']\<rparr>)"
  using assms
  by (simp add: parseDefaultPreferences_def bind_def log_line_def import_app_options_def throw_def)

text \<open>
  Claim C8. When the generated module yields no preference at all, \<^verbatim>\<open>parseDefaultPreferences\<close>
  throws the error ``No default preferences found.'' and writes no file. When
  \<^verbatim>\<open>default_preferences.json\<close> is absent, \<^verbatim>\<open>getDefaultPreferences\<close> throws the missing-file
  error of the read, and a \<^verbatim>\<open>createWebpackConfig\<close> that was asked for these preferences
  throws as well instead of returning a configuration with empty preferences.
\<close>

theorem default_preferences_errors:
  "(files w (norm_path (''./'' @ DEFAULT_PREFERENCES_DIR @ dir @ ''app_options.mjs'')) = Some src \<and>
    load_preferences h src = Inr prefs \<and> object_keys prefs = [] \<longrightarrow>
      fst (parseDefaultPreferences h dir w) = Inl (JsError ''No default preferences found.'') \<and>
      files (snd (parseDefaultPreferences h dir w)) = files w) \<and>
   (files w (norm_path (DEFAULT_PREFERENCES_DIR @ dir @ ''default_preferences.json'')) = None \<longrightarrow>
      fst (getDefaultPreferences h dir w) =
        Inl (ENOENT (DEFAULT_PREFERENCES_DIR @ dir @ ''default_preferences.json'')) \<and>
      (defaultPreferencesDir opts = Some dir \<and> dir \<noteq> [] \<longrightarrow>
         (\<exists>e. fst (createWebpackConfig h defs outp opts w) = Inl e)))"
  using parseDefaultPreferences_empty[of w dir src h prefs]
    getDefaultPreferences_absent[of w dir h]
    createWebpackConfig_no_preferences[of w dir opts h defs outp]
  by auto

theorem default_preferences_errors_witness:
  "files (demo_world [] [(generic_app_options, ''export {}'')])
     (norm_path (''./'' @ DEFAULT_PREFERENCES_DIR @ ''generic/'' @ ''app_options.mjs'')) = Some ''export {}'' \<and>
   load_preferences demo_host ''export {}'' = Inr [] \<and>
   object_keys [] = [] \<and>
   fst (parseDefaultPreferences demo_host ''generic/'' (demo_world [] [(generic_app_options, ''export {}'')]))
     = Inl (JsError ''No default preferences found.'') \<and>
   files (demo_world [] [(generic_app_options, ''export {}'')])
     (norm_path (DEFAULT_PREFERENCES_DIR @ ''generic/'' @ ''default_preferences.json'')) = None \<and>
   fst (getDefaultPreferences demo_host ''generic/'' (demo_world [] [(generic_app_options, ''export {}'')]))
     = Inl (ENOENT (DEFAULT_PREFERENCES_DIR @ ''generic/'' @ ''default_preferences.json'')) \<and>
   (\<exists>e. fst (createWebpackConfig demo_host 0 1
                (default_options\<lparr>disableVersionInfo := True,
                   defaultPreferencesDir := Some ''generic/''\<rparr>)
                (demo_world [] [(generic_app_options, ''export {}'')])) = Inl e)"
proof -
  let ?w = "demo_world [] [(generic_app_options, ''export {}'')]"
  let ?o = "default_options\<lparr>disableVersionInfo := True, defaultPreferencesDir := Some ''generic/''\<rparr>"
  have a: "files ?w (norm_path (''./'' @ DEFAULT_PREFERENCES_DIR @ ''generic/'' @ ''app_options.mjs''))
             = Some ''export {}''"
    by (simp add: demo_world_def generic_app_options_def DEFAULT_PREFERENCES_DIR_def BUILD_DIR_def
        norm_path_def)
  have b: "load_preferences demo_host ''export {}'' = Inr []" by (simp add: demo_host_def)
  have c: "object_keys [] = []" by (simp add: object_keys_def)
  have d: "files ?w (norm_path (DEFAULT_PREFERENCES_DIR @ ''generic/'' @ ''default_preferences.json'')) = None"
    by (simp add: demo_world_def generic_app_options_def DEFAULT_PREFERENCES_DIR_def BUILD_DIR_def
        norm_path_def)
  have e: "defaultPreferencesDir ?o = Some ''generic/'' \<and> ''generic/'' \<noteq> []" by simp
  from default_preferences_errors[of ?w "''generic/''" "''export {}''" demo_host "[]" ?o 0 1] a b c d e
  show ?thesis by blast
qed

subsection \<open>The build number\<close>

declare string_of_nat.simps [simp del]

lemma string_of_nat_0: "string_of_nat 0 = ''0''"
  by (simp add: string_of_nat.simps digit_char_def)

lemma createBuildNumber_count_fails:
  assumes "fst (exec_git h (gitCountCommand h))"
  shows "createBuildNumber h w =
    (Inr (),
     w\<lparr>console := console w @ [[], ''### Getting extension build number'',
            ''This is not a Git repository; using default build number.'',
            ''Extension build number: 0''],
       files := (files w)(''build/version.json'' \<mapsto>
          json_stringify h (versionDescriptor (versionPrefix h @ ''0'') 0
             (if \<not> fst (exec_git h gitHashCommand)
              then remove_first newline (snd (exec_git h gitHashCommand)) else []))),
       fs_trace := fs_trace w @ [EvWrite (BUILD_DIR @ ''version.json'')]\<rparr>)"
proof -
  obtain o1 where c1: "exec_git h (gitCountCommand h) = (True, o1)"
    using assms by (cases "exec_git h (gitCountCommand h)") auto
  obtain e2 o2 where c2: "exec_git h gitHashCommand = (e2, o2)"
    by (cases "exec_git h gitHashCommand") auto
  show ?thesis
    by (simp add: createBuildNumber_def c1 c2 bind_def log_line_def ret_def gulp_dest_def
        writeFileSync_def version_json_path string_of_nat_0 Let_def)
qed

lemma createBuildNumber_hash_fails:
  assumes "exec_git h (gitCountCommand h) = (False, out)" and "fst (exec_git h gitHashCommand)"
    and "out = [] \<or> newline \<in> set out"
  shows "createBuildNumber h w =
    (Inr (),
     w\<lparr>console := console w @ [[], ''### Getting extension build number'',
            ''Extension build number: '' @ string_of_nat (length (filter (\<lambda>c. c = newline) out))],
       files := (files w)(''build/version.json'' \<mapsto>
          json_stringify h (versionDescriptor
             (versionPrefix h @ string_of_nat (length (filter (\<lambda>c. c = newline) out)))
             (length (filter (\<lambda>c. c = newline) out)) [])),
       fs_trace := fs_trace w @ [EvWrite (BUILD_DIR @ ''version.json'')]\<rparr>)"
proof -
  obtain o2 where c2: "exec_git h gitHashCommand = (True, o2)"
    using assms(2) by (cases "exec_git h gitHashCommand") auto
  show ?thesis
  proof (cases "out = []")
    case True
    then show ?thesis
      by (simp add: createBuildNumber_def assms(1) c2 bind_def log_line_def ret_def gulp_dest_def
        writeFileSync_def version_json_path Let_def)
  next
    case False
    with assms(3) have "filter (\<lambda>c. c = newline) out \<noteq> []" by (auto simp: filter_empty_conv)
    then have m: "match_newlines out = Some (map (\<lambda>c. [c]) (filter (\<lambda>c. c = newline) out))"
      by (simp add: match_newlines_def Let_def)
    from False show ?thesis
      by (simp add: createBuildNumber_def assms(1) c2 m bind_def log_line_def ret_def gulp_dest_def
        writeFileSync_def version_json_path Let_def)
  qed
qed

text \<open>
  Claim C7, as amended. \<^verbatim>\<open>createBuildNumber\<close> is not aborted by a failing version-control
  command and still writes \<^verbatim>\<open>version.json\<close>, but each field degrades on its own. When the
  commit-count query fails, the build number is 0, the version is the prefix followed by 0
  and the warning is logged; the commit hash is still the one the second query prints, if
  that one succeeds. When only the short-hash query fails, the commit hash is empty, the
  build number and the version are those of the count, and no warning is logged. When both
  fail, the descriptor is the default one.
\<close>

theorem createBuildNumber_degrades:
  "(fst (exec_git h (gitCountCommand h)) \<longrightarrow>
      fst (createBuildNumber h w) = Inr () \<and>
      files (snd (createBuildNumber h w)) ''build/version.json'' =
        Some (json_stringify h (versionDescriptor (versionPrefix h @ ''0'') 0
               (if \<not> fst (exec_git h gitHashCommand)
                then remove_first newline (snd (exec_git h gitHashCommand)) else []))) \<and>
      console (snd (createBuildNumber h w)) =
        console w @ [[], ''### Getting extension build number'',
          ''This is not a Git repository; using default build number.'',
          ''Extension build number: 0'']) \<and>
   (exec_git h (gitCountCommand h) = (False, out) \<and> (out = [] \<or> newline \<in> set out) \<and>
    fst (exec_git h gitHashCommand) \<longrightarrow>
      fst (createBuildNumber h w) = Inr () \<and>
      files (snd (createBuildNumber h w)) ''build/version.json'' =
        Some (json_stringify h (versionDescriptor
               (versionPrefix h @ string_of_nat (length (filter (\<lambda>c. c = newline) out)))
               (length (filter (\<lambda>c. c = newline) out)) [])) \<and>
      console (snd (createBuildNumber h w)) =
        console w @ [[], ''### Getting extension build number'',
          ''Extension build number: '' @ string_of_nat (length (filter (\<lambda>c. c = newline) out))]) \<and>
   (fst (exec_git h (gitCountCommand h)) \<and> fst (exec_git h gitHashCommand) \<longrightarrow>
      files (snd (createBuildNumber h w)) ''build/version.json'' =
        Some (json_stringify h (versionDescriptor (versionPrefix h @ ''0'') 0 [])))"
  using createBuildNumber_count_fails[of h w] createBuildNumber_hash_fails[of h out w]
  by auto

lemma hash_fails_host_queries:
  "exec_git hash_fails_host (gitCountCommand hash_fails_host) =
     (False, ''a'' @ [newline] @ ''b'' @ [newline] @ ''c'' @ [newline])"
  "fst (exec_git hash_fails_host gitHashCommand)"
  "versionPrefix hash_fails_host = ''4.0.''"
  by (simp_all add: hash_fails_host_def demo_host_def gitCountCommand_def gitHashCommand_def dquote_def)

lemma three_lines:
  "length (filter (\<lambda>c. c = newline) (''a'' @ [newline] @ ''b'' @ [newline] @ ''c'' @ [newline])) = 3"
  by (simp add: newline_def)

lemma string_of_nat_3: "string_of_nat 3 = ''3''"
  by (simp add: string_of_nat.simps digit_char_def)

text \<open>Both queries fail in the first world; in the second only the short-hash query does.\<close>

theorem createBuildNumber_degrades_witness:
  "fst (exec_git demo_host (gitCountCommand demo_host)) \<and>
   fst (exec_git demo_host gitHashCommand) \<and>
   fst (createBuildNumber demo_host (demo_world [] [])) = Inr () \<and>
   files (snd (createBuildNumber demo_host (demo_world [] []))) ''build/version.json'' =
     Some (json_stringify demo_host (versionDescriptor ''4.0.0'' 0 [])) \<and>
   console (snd (createBuildNumber demo_host (demo_world [] []))) =
     [[], ''### Getting extension build number'',
      ''This is not a Git repository; using default build number.'',
      ''Extension build number: 0''] \<and>
   fst (exec_git hash_fails_host gitHashCommand) \<and>
   fst (createBuildNumber hash_fails_host (demo_world [] [])) = Inr () \<and>
   files (snd (createBuildNumber hash_fails_host (demo_world [] []))) ''build/version.json'' =
     Some (json_stringify hash_fails_host (versionDescriptor ''4.0.3'' 3 []))"
proof -
  have q: "fst (exec_git demo_host (gitCountCommand demo_host))" "fst (exec_git demo_host gitHashCommand)"
    "versionPrefix demo_host = ''4.0.''"
    by (simp_all add: demo_host_def)
  have c0: "console (demo_world [] []) = []" by (simp add: demo_world_def)
  have nl: "newline \<in> set (''a'' @ [newline] @ ''b'' @ [newline] @ ''c'' @ [newline])" by simp
  from createBuildNumber_degrades[of demo_host "demo_world [] []" "[]"] q
  have a: "fst (createBuildNumber demo_host (demo_world [] [])) = Inr ()"
    and b: "files (snd (createBuildNumber demo_host (demo_world [] []))) ''build/version.json'' =
       Some (json_stringify demo_host (versionDescriptor ''4.0.0'' 0 []))"
    and c: "console (snd (createBuildNumber demo_host (demo_world [] []))) =
     [[], ''### Getting extension build number'',
      ''This is not a Git repository; using default build number.'',
      ''Extension build number: 0'']"
    by (simp_all add: c0)
  from createBuildNumber_degrades[of hash_fails_host "demo_world [] []"
      "''a'' @ [newline] @ ''b'' @ [newline] @ ''c'' @ [newline]"] hash_fails_host_queries nl
  have d: "fst (createBuildNumber hash_fails_host (demo_world [] [])) = Inr ()"
    and e: "files (snd (createBuildNumber hash_fails_host (demo_world [] []))) ''build/version.json'' =
     Some (json_stringify hash_fails_host (versionDescriptor ''4.0.3'' 3 []))"
    unfolding three_lines string_of_nat_3 by simp_all
  from q(1,2) a b c hash_fails_host_queries(2) d e show ?thesis by blast
qed

text \<open>
  Claim C7, as it is stated, fails when only the short-hash query fails: the count query
  printed three lines, so the descriptor has build number 3 and version 4.0.3 instead of
  the defaults, and the console shows no warning.
\<close>

theorem hash_failure_keeps_build_number:
  "fst (exec_git hash_fails_host gitHashCommand) \<and>
   fst (createBuildNumber hash_fails_host (demo_world [] [])) = Inr () \<and>
   files (snd (createBuildNumber hash_fails_host (demo_world [] []))) ''build/version.json'' =
     Some (json_stringify hash_fails_host (versionDescriptor ''4.0.3'' 3 [])) \<and>
   console (snd (createBuildNumber hash_fails_host (demo_world [] []))) =
     [[], ''### Getting extension build number'', ''Extension build number: 3'']"
proof -
  have nl: "newline \<in> set (''a'' @ [newline] @ ''b'' @ [newline] @ ''c'' @ [newline])" by simp
  have c0: "console (demo_world [] []) = []" by (simp add: demo_world_def)
  from createBuildNumber_hash_fails[OF hash_fails_host_queries(1,2), of "demo_world [] []"] nl
  show ?thesis
    unfolding three_lines string_of_nat_3
    by (simp add: hash_fails_host_queries c0)
qed

subsection \<open>The two-phase sandbox build\<close>

lemma reads_only_bind:
  assumes "reads_only m" and "\<And>x. reads_only (f x)"
  shows "reads_only (bind m f)"
  unfolding reads_only_def
proof (intro allI impI)
  fix w r w' assume run: "bind m f w = (r, w')"
  obtain r1 w1 where m: "m w = (r1, w1)" by (cases "m w")
  from assms(1) m obtain rest1 where f1: "files w1 = files w"
    and t1: "fs_trace w1 = fs_trace w @ rest1" and s1: "set rest1 \<subseteq> range EvRead"
    unfolding reads_only_def by blast
  show "files w' = files w \<and> (\<exists>rest. fs_trace w' = fs_trace w @ rest \<and> set rest \<subseteq> range EvRead)"
  proof (cases r1)
    case (Inl e)
    with run m have "w' = w1" by (simp add: bind_def)
    with f1 t1 s1 show ?thesis by blast
  next
    case (Inr x)
    with run m have "f x w1 = (r, w')" by (simp add: bind_def)
    with assms(2)[of x] obtain rest2 where f2: "files w' = files w1"
      and t2: "fs_trace w' = fs_trace w1 @ rest2" and s2: "set rest2 \<subseteq> range EvRead"
      unfolding reads_only_def by blast
    from t1 t2 have "fs_trace w' = fs_trace w @ (rest1 @ rest2)" by simp
    moreover from s1 s2 have "set (rest1 @ rest2) \<subseteq> range EvRead" by simp
    ultimately show ?thesis using f1 f2 by metis
  qed
qed

lemma reads_only_same_world: "(\<And>w r w'. m w = (r, w') \<Longrightarrow> files w' = files w \<and> fs_trace w' = fs_trace w) \<Longrightarrow> reads_only m"
  unfolding reads_only_def by (metis append_Nil2 empty_set empty_subsetI)

lemma reads_only_ret: "reads_only (ret x)"
  by (rule reads_only_same_world) (auto simp: ret_def)

lemma reads_only_lift: "reads_only (lift x)"
  by (rule reads_only_same_world) (auto simp: lift_def)

lemma reads_only_deref: "reads_only (deref a)"
  by (rule reads_only_same_world) (auto simp: deref_def)

lemma reads_only_assign: "reads_only (assign a k v)"
  by (rule reads_only_same_world) (auto simp: assign_def)

lemma reads_only_readFileSync: "reads_only (readFileSync p)"
  unfolding reads_only_def readFileSync_def
  by (auto simp: Let_def split: option.splits)

lemma reads_only_run_webpack: "reads_only (run_webpack h cfg entry)"
  by (rule reads_only_same_world) (auto simp: run_webpack_def)

lemma reads_only_createWebpackConfig: "reads_only (createWebpackConfig h defs outp opts)"
  unfolding createWebpackConfig_def versionInfoOf_def defaultPreferencesOf_def
    getVersionJSON_def getDefaultPreferences_def
  by (auto intro!: reads_only_bind reads_only_ret reads_only_lift reads_only_deref reads_only_assign
      reads_only_readFileSync split: option.splits)

lemma scriptingPath_norm: "norm_path scriptingPath = ''build/tmp/pdf.scripting.js''"
  by (simp add: scriptingPath_def TMP_DIR_def BUILD_DIR_def norm_path_def)

lemma sandboxFileConfig_present:
  assumes "files w (norm_path scriptingPath) = Some text"
  shows "sandboxFileConfig h defs extra w =
     createWebpackConfig h (next_ref w) (Suc (next_ref w)) (opts_of extra)
       (w\<lparr>fs_trace := fs_trace w @ [EvRead scriptingPath, EvUnlink scriptingPath],
          files := (files w)(norm_path scriptingPath := None),
          heap := (heap w)
              (next_ref w := builder_merge (heap w defs) [(''PDF_SCRIPTING_JS_SOURCE'', JStr text)],
               Suc (next_ref w) := umd_output ''pdf.sandbox.js'' ''pdfjs-dist/build/pdf.sandbox''),
          next_ref := Suc (Suc (next_ref w))\<rparr>)"
  using assms
  by (simp add: sandboxFileConfig_def bind_def readFileSync_def deref_def alloc_def unlinkSync_def Let_def)

lemma sandboxFileConfig_absent:
  assumes "files w (norm_path scriptingPath) = None"
  shows "sandboxFileConfig h defs extra w =
     (Inl (ENOENT scriptingPath), w\<lparr>fs_trace := fs_trace w @ [EvRead scriptingPath]\<rparr>)"
  using assms
  by (simp add: sandboxFileConfig_def bind_def readFileSync_def Let_def)

lemma createScriptingBundle_name:
  assumes "createScriptingBundle h defs extra w = (Inr f, w1)"
  shows "fst f = ''pdf.scripting.js''"
  using assms unfolding createScriptingBundle_def Let_def
  by (elim bindE) (auto simp: ret_def)

lemma temporary_bundle_written:
  assumes "createTemporaryScriptingBundle h defs extra w = (Inr u, w1)"
  shows "\<exists>text. files w1 (norm_path scriptingPath) = Some text"
proof -
  from assms obtain f w0 where a: "createScriptingBundle h defs
             (Some \<lparr>disableVersionInfo =
                       (case extra of None \<Rightarrow> False | Some opts \<Rightarrow> disableVersionInfo opts),
                    disableSourceMaps = True,
                    disableLicenseHeader = True,
                    defaultPreferencesDir = None\<rparr>) w = (Inr f, w0)"
    and b: "gulp_dest TMP_DIR f w0 = (Inr u, w1)"
    unfolding createTemporaryScriptingBundle_def by (elim bindE)
  from createScriptingBundle_name[OF a] b show ?thesis
    by (auto simp: gulp_dest_def writeFileSync_def scriptingPath_def)
qed

lemma createSandboxBundle_world:
  "createSandboxBundle h defs extra w = (r, w') \<Longrightarrow>
   \<exists>r0. sandboxFileConfig h defs extra w = (r0, w') \<and> (\<forall>e. r0 = Inl e \<longrightarrow> r = Inl e)"
  unfolding createSandboxBundle_def bind_def run_webpack_def ret_def
  by (auto split: prod.splits sum.splits)

lemma createSandboxBundle_returns:
  assumes f: "files w1 (norm_path scriptingPath) = Some text"
    and run: "createSandboxBundle h defs2 extra2 w1 = (Inr out, w2)"
  shows "\<exists>cfg js.
      createWebpackConfig h (next_ref w1) (Suc (next_ref w1)) (opts_of extra2)
        (w1\<lparr>fs_trace := fs_trace w1 @ [EvRead scriptingPath, EvUnlink scriptingPath],
            files := (files w1)(norm_path scriptingPath := None),
            heap := (heap w1)
              (next_ref w1 := builder_merge (heap w1 defs2) [(''PDF_SCRIPTING_JS_SOURCE'', JStr text)],
               Suc (next_ref w1) := umd_output ''pdf.sandbox.js'' ''pdfjs-dist/build/pdf.sandbox''),
            next_ref := Suc (Suc (next_ref w1))\<rparr>) = (Inr cfg, w2) \<and>
      prop_get (cfg_defines cfg) ''PDF_SCRIPTING_JS_SOURCE'' = JStr text \<and>
      webpack_run h cfg (heap w2 (cfg_output cfg)) ''./src/pdf.sandbox.js'' (files w2) = Inr js \<and>
      out = (''pdf.sandbox.js'',
             replaceJSRootName ''pdfjs-dist/build/pdf.sandbox'' ''pdfjsSandbox''
               (replaceNonWebpackImport (replaceWebpackRequire js)))"
proof -
  let ?w = "w1\<lparr>fs_trace := fs_trace w1 @ [EvRead scriptingPath, EvUnlink scriptingPath],
          files := (files w1)(norm_path scriptingPath := None),
          heap := (heap w1)
              (next_ref w1 := builder_merge (heap w1 defs2) [(''PDF_SCRIPTING_JS_SOURCE'', JStr text)],
               Suc (next_ref w1) := umd_output ''pdf.sandbox.js'' ''pdfjs-dist/build/pdf.sandbox''),
          next_ref := Suc (Suc (next_ref w1))\<rparr>"
  from run obtain cfg wa where
    c: "sandboxFileConfig h defs2 extra2 w1 = (Inr cfg, wa)" and
    k: "bind (run_webpack h cfg ''./src/pdf.sandbox.js'')
          (\<lambda>text. ret (''pdf.sandbox.js'',
             replaceJSRootName ''pdfjs-dist/build/pdf.sandbox'' ''pdfjsSandbox''
               (replaceNonWebpackImport (replaceWebpackRequire text)))) wa = (Inr out, w2)"
    unfolding createSandboxBundle_def by (erule bindE)
  from k obtain js wb where
    b: "run_webpack h cfg ''./src/pdf.sandbox.js'' wa = (Inr js, wb)" and
    o: "ret (''pdf.sandbox.js'',
             replaceJSRootName ''pdfjs-dist/build/pdf.sandbox'' ''pdfjsSandbox''
               (replaceNonWebpackImport (replaceWebpackRequire js))) wb = (Inr out, w2)"
    by (erule bindE)
  from b have wb: "wb = wa" and
    wr: "webpack_run h cfg (heap wa (cfg_output cfg)) ''./src/pdf.sandbox.js'' (files wa) = Inr js"
    by (auto simp: run_webpack_def)
  from ret_world[OF o] wb have w2: "w2 = wa" and
    out: "out = (''pdf.sandbox.js'',
             replaceJSRootName ''pdfjs-dist/build/pdf.sandbox'' ''pdfjsSandbox''
               (replaceNonWebpackImport (replaceWebpackRequire js)))" by auto
  from sandboxFileConfig_present[OF f, of h defs2 extra2] c w2
  have cw: "createWebpackConfig h (next_ref w1) (Suc (next_ref w1)) (opts_of extra2) ?w = (Inr cfg, w2)"
    by simp
  from createWebpackConfig_Inr[OF cw] obtain bv bb dp where
    "cfg_defines cfg = bundleDefinesOf h (heap ?w (next_ref w1)) bv bb dp"
    by (auto simp: cfg_defines_webpackConfigOf)
  then have d: "prop_get (cfg_defines cfg) ''PDF_SCRIPTING_JS_SOURCE'' = JStr text"
    by (simp add: prop_get_bundleDefinesOf_other builder_merge_Cons builder_merge_Nil prop_get_set)
  from cw d wr out w2 show ?thesis by blast
qed

text \<open>
  Claim C1. (1) When \<^verbatim>\<open>createTemporaryScriptingBundle\<close> has completed, the temporary
  scripting file \<^verbatim>\<open>build/tmp/pdf.scripting.js\<close> exists. (2) When \<^verbatim>\<open>createSandboxBundle\<close>
  starts with the file in place, then, however the call ends, its file-system calls
  are: the read of the file, its unlink right after, and then only the reads by which
  the webpack configuration is assembled; so the file is deleted exactly once, after
  the read and before the configuration, and it is gone afterwards. (3) When
  \<^verbatim>\<open>createSandboxBundle\<close> returns, the bundle it returns is the post-processed output of the
  bundler for a configuration that carries the text that was read as
  \<^verbatim>\<open>PDF_SCRIPTING_JS_SOURCE\<close>, and this configuration is the one \<^verbatim>\<open>createWebpackConfig\<close>
  assembles in the world in which the text has been merged into a new flag set and the
  file has already been unlinked. (4) When the file is absent, \<^verbatim>\<open>createSandboxBundle\<close>
  throws the missing-file error of the read and does nothing else.
\<close>

theorem sandbox_two_phase:
  "(createTemporaryScriptingBundle h defs extra w = (Inr (), w1) \<longrightarrow>
      (\<exists>text. files w1 (norm_path scriptingPath) = Some text)) \<and>
   (files w1 (norm_path scriptingPath) = Some text \<and>
    createSandboxBundle h defs2 extra2 w1 = (r, w2) \<longrightarrow>
      files w2 (norm_path scriptingPath) = None \<and>
      (\<exists>rest. fs_trace w2 = fs_trace w1 @ [EvRead scriptingPath, EvUnlink scriptingPath] @ rest \<and>
              set rest \<subseteq> range EvRead)) \<and>
   (files w1 (norm_path scriptingPath) = Some text \<and>
    createSandboxBundle h defs2 extra2 w1 = (Inr out, w2) \<longrightarrow>
      (\<exists>cfg js.
         createWebpackConfig h (next_ref w1) (Suc (next_ref w1)) (opts_of extra2)
           (w1\<lparr>fs_trace := fs_trace w1 @ [EvRead scriptingPath, EvUnlink scriptingPath],
             files := (files w1)(norm_path scriptingPath := None),
             heap := (heap w1)
               (next_ref w1 := builder_merge (heap w1 defs2) [(''PDF_SCRIPTING_JS_SOURCE'', JStr text)],
                Suc (next_ref w1) := umd_output ''pdf.sandbox.js'' ''pdfjs-dist/build/pdf.sandbox''),
             next_ref := Suc (Suc (next_ref w1))\<rparr>) = (Inr cfg, w2) \<and>
         prop_get (cfg_defines cfg) ''PDF_SCRIPTING_JS_SOURCE'' = JStr text \<and>
         webpack_run h cfg (heap w2 (cfg_output cfg)) ''./src/pdf.sandbox.js'' (files w2) = Inr js \<and>
         out = (''pdf.sandbox.js'',
                replaceJSRootName ''pdfjs-dist/build/pdf.sandbox'' ''pdfjsSandbox''
                  (replaceNonWebpackImport (replaceWebpackRequire js))))) \<and>
   (files w1 (norm_path scriptingPath) = None \<longrightarrow>
      createSandboxBundle h defs2 extra2 w1 =
        (Inl (ENOENT scriptingPath), w1\<lparr>fs_trace := fs_trace w1 @ [EvRead scriptingPath]\<rparr>))"
proof -
  let ?w = "w1\<lparr>fs_trace := fs_trace w1 @ [EvRead scriptingPath, EvUnlink scriptingPath],
          files := (files w1)(norm_path scriptingPath := None),
          heap := (heap w1)
              (next_ref w1 := builder_merge (heap w1 defs2) [(''PDF_SCRIPTING_JS_SOURCE'', JStr text)],
               Suc (next_ref w1) := umd_output ''pdf.sandbox.js'' ''pdfjs-dist/build/pdf.sandbox''),
          next_ref := Suc (Suc (next_ref w1))\<rparr>"
  have p1: "createTemporaryScriptingBundle h defs extra w = (Inr (), w1) \<longrightarrow>
      (\<exists>text. files w1 (norm_path scriptingPath) = Some text)"
    using temporary_bundle_written by blast
  have p2: "files w1 (norm_path scriptingPath) = Some text \<and>
    createSandboxBundle h defs2 extra2 w1 = (r, w2) \<longrightarrow>
      files w2 (norm_path scriptingPath) = None \<and>
      (\<exists>rest. fs_trace w2 = fs_trace w1 @ [EvRead scriptingPath, EvUnlink scriptingPath] @ rest \<and>
              set rest \<subseteq> range EvRead)"
  proof
    assume a: "files w1 (norm_path scriptingPath) = Some text \<and>
      createSandboxBundle h defs2 extra2 w1 = (r, w2)"
    then obtain r0 where cfg: "sandboxFileConfig h defs2 extra2 w1 = (r0, w2)"
      using createSandboxBundle_world by blast
    from a have f: "files w1 (norm_path scriptingPath) = Some text" by blast
    from sandboxFileConfig_present[OF f, of h defs2 extra2] cfg
    have "createWebpackConfig h (next_ref w1) (Suc (next_ref w1)) (opts_of extra2) ?w = (r0, w2)"
      by simp
    with reads_only_createWebpackConfig[of h "next_ref w1" "Suc (next_ref w1)" "opts_of extra2"]
    obtain rest where "files w2 = files ?w" and "fs_trace w2 = fs_trace ?w @ rest"
      and "set rest \<subseteq> range EvRead"
      unfolding reads_only_def by blast
    then show "files w2 (norm_path scriptingPath) = None \<and>
        (\<exists>rest. fs_trace w2 = fs_trace w1 @ [EvRead scriptingPath, EvUnlink scriptingPath] @ rest \<and>
                set rest \<subseteq> range EvRead)"
      by auto
  qed
  have p3: "files w1 (norm_path scriptingPath) = Some text \<and>
    createSandboxBundle h defs2 extra2 w1 = (Inr out, w2) \<longrightarrow>
      (\<exists>cfg js.
         createWebpackConfig h (next_ref w1) (Suc (next_ref w1)) (opts_of extra2)
           (w1\<lparr>fs_trace := fs_trace w1 @ [EvRead scriptingPath, EvUnlink scriptingPath],
             files := (files w1)(norm_path scriptingPath := None),
             heap := (heap w1)
               (next_ref w1 := builder_merge (heap w1 defs2) [(''PDF_SCRIPTING_JS_SOURCE'', JStr text)],
                Suc (next_ref w1) := umd_output ''pdf.sandbox.js'' ''pdfjs-dist/build/pdf.sandbox''),
             next_ref := Suc (Suc (next_ref w1))\<rparr>) = (Inr cfg, w2) \<and>
         prop_get (cfg_defines cfg) ''PDF_SCRIPTING_JS_SOURCE'' = JStr text \<and>
         webpack_run h cfg (heap w2 (cfg_output cfg)) ''./src/pdf.sandbox.js'' (files w2) = Inr js \<and>
         out = (''pdf.sandbox.js'',
                replaceJSRootName ''pdfjs-dist/build/pdf.sandbox'' ''pdfjsSandbox''
                  (replaceNonWebpackImport (replaceWebpackRequire js))))"
    using createSandboxBundle_returns by blast
  have p4: "files w1 (norm_path scriptingPath) = None \<longrightarrow>
      createSandboxBundle h defs2 extra2 w1 =
        (Inl (ENOENT scriptingPath), w1\<lparr>fs_trace := fs_trace w1 @ [EvRead scriptingPath]\<rparr>)"
    by (simp add: createSandboxBundle_def bind_def sandboxFileConfig_absent)
  from p1 p2 p3 p4 show ?thesis by blast
qed

lemma bind_run_webpack:
  "webpack_run h cfg (heap w (cfg_output cfg)) entry (files w) = Inr t \<Longrightarrow>
   bind (run_webpack h cfg entry) f w = f t w"
  by (simp add: bind_def run_webpack_def)

lemma bind_createWebpackConfig:
  assumes "disableVersionInfo opts" and "defaultPreferencesDir opts = None"
    and "files w ''src/license_header_libre.js'' = Some lic"
  shows "bind (createWebpackConfig h defs outp opts) f w =
    f (webpackConfigOf h opts (bundleDefinesOf h (heap w defs) (JNum 0) (JNum 0) (JObj []))
            lic (heap w outp) outp)
     (w\<lparr>heap := (heap w)(outp := prop_set (heap w outp) ''globalObject'' (JStr ''globalThis'')),
       fs_trace := fs_trace w @ [EvRead ''./src/license_header_libre.js'']\<rparr>)"
  by (simp add: bind_Inr_I[where m="createWebpackConfig h defs outp opts", OF createWebpackConfig_succeeds[OF assms]])

lemma createTemporaryScriptingBundle_succeeds:
  assumes lic: "files w ''src/license_header_libre.js'' = Some lic"
      and wp: "\<And>c ob e f. webpack_run h c ob e f = Inr (B e)"
  shows "createTemporaryScriptingBundle h defs devOptions w =
    (Inr (),
     w\<lparr>heap := (heap w)(next_ref w :=
              prop_set (umd_output ''pdf.scripting.js'' ''pdfjs-dist/build/pdf.scripting'')
                ''globalObject'' (JStr ''globalThis'')),
       next_ref := Suc (next_ref w),
       fs_trace := fs_trace w @ [EvRead ''./src/license_header_libre.js'',
                                 EvWrite (TMP_DIR @ ''pdf.scripting.js'')],
       files := (files w)(''build/tmp/pdf.scripting.js'' \<mapsto> scripting_post (B ''./src/pdf.scripting.js''))\<rparr>)"
proof -
  have path: "norm_path (TMP_DIR @ ''pdf.scripting.js'') = ''build/tmp/pdf.scripting.js''"
    by (simp add: TMP_DIR_def BUILD_DIR_def norm_path_def)
  have dv: "(case devOptions of None \<Rightarrow> False | Some opts \<Rightarrow> disableVersionInfo opts) = True"
    by (simp add: devOptions_def default_options_def)
  show ?thesis
    unfolding createTemporaryScriptingBundle_def createScriptingBundle_def dv Let_def
    by (simp add: bind_alloc bind_createWebpackConfig[where lic=lic] bind_run_webpack[where t="B ''./src/pdf.scripting.js''"]
        wp lic opts_of_def gulp_dest_def writeFileSync_def path bind_ret bind_assoc scripting_post_def)
qed

lemma demo_webpack: "webpack_run demo_host c ob e f = Inr (''/* '' @ e @ '' */'')"
  by (simp add: demo_host_def)

lemma dev_world0_files:
  "files dev_world0 ''src/license_header_libre.js'' = Some ''/* license */''"
  "files dev_world0 (norm_path scriptingPath) = None"
  by (simp_all add: dev_world0_def demo_world_def license_only_def scriptingPath_norm)

lemma dev_run1:
  "createTemporaryScriptingBundle demo_host 0 devOptions dev_world0 = (Inr (), dev_world1)"
  unfolding dev_world1_def
  by (simp add: createTemporaryScriptingBundle_succeeds[OF dev_world0_files(1) demo_webpack])

lemma dev_world1_files:
  "files dev_world1 (norm_path scriptingPath) = Some (scripting_post ''/* ./src/pdf.scripting.js */'')"
  "files dev_world1 ''src/license_header_libre.js'' = Some ''/* license */''"
  unfolding dev_world1_def
  by (simp_all add: createTemporaryScriptingBundle_succeeds[OF dev_world0_files(1) demo_webpack]
      scriptingPath_norm dev_world0_files)

lemma dev_config_any:
  "\<exists>cfg w3. sandboxFileConfig h 0 devOptions dev_world1 = (Inr cfg, w3)"
proof -
  have o: "disableVersionInfo (opts_of devOptions)" "defaultPreferencesDir (opts_of devOptions) = None"
    by (simp_all add: opts_of_def devOptions_def default_options_def)
  show ?thesis
    unfolding sandboxFileConfig_present[OF dev_world1_files(1)]
    by (subst createWebpackConfig_succeeds[OF o, where lic="''/* license */''"])
       (simp_all add: dev_world1_files scriptingPath_norm)
qed

lemma echo_host_returns:
  "\<exists>out w2. createSandboxBundle echo_host 0 devOptions dev_world1 = (Inr out, w2)"
proof -
  from dev_config_any[of echo_host] obtain cfg w3 where
    c: "sandboxFileConfig echo_host 0 devOptions dev_world1 = (Inr cfg, w3)" by blast
  obtain t where "webpack_run echo_host cfg (heap w3 (cfg_output cfg)) ''./src/pdf.sandbox.js''
      (files w3) = Inr t"
    by (cases "prop_get (cfg_defines cfg) ''PDF_SCRIPTING_JS_SOURCE''") (simp_all add: echo_host_def)
  with c show ?thesis
    by (simp add: createSandboxBundle_def bind_def run_webpack_def ret_def)
qed

lemma echo_host_bundle:
  "prop_get (cfg_defines cfg) ''PDF_SCRIPTING_JS_SOURCE'' = JStr s \<Longrightarrow>
   webpack_run echo_host cfg ob e f = Inr s"
  by (simp add: echo_host_def)

text \<open>A \<^verbatim>\<open>dev-sandbox\<close> run in the small world; the sandbox build once more with a bundler
  whose output is the scripting source of its configuration, so that the bundle returned
  is the text of the temporary file; and a sandbox build started without that file.\<close>

theorem sandbox_two_phase_witness:
  "createTemporaryScriptingBundle demo_host 0 devOptions dev_world0 = (Inr (), dev_world1) \<and>
   (\<exists>text. files dev_world1 (norm_path scriptingPath) = Some text) \<and>
   files dev_world2 (norm_path scriptingPath) = None \<and>
   (\<exists>rest. fs_trace dev_world2 =
            fs_trace dev_world1 @ [EvRead scriptingPath, EvUnlink scriptingPath] @ rest \<and>
          set rest \<subseteq> range EvRead) \<and>
   fst (createSandboxBundle echo_host 0 devOptions dev_world1) =
     Inr (''pdf.sandbox.js'',
          replaceJSRootName ''pdfjs-dist/build/pdf.sandbox'' ''pdfjsSandbox''
            (replaceNonWebpackImport (replaceWebpackRequire
               (scripting_post ''/* ./src/pdf.scripting.js */'')))) \<and>
   files dev_world0 (norm_path scriptingPath) = None \<and>
   fst (createSandboxBundle demo_host 0 devOptions dev_world0) = Inl (ENOENT scriptingPath)"
proof -
  let ?T = "scripting_post ''/* ./src/pdf.scripting.js */''"
  let ?r = "fst (createSandboxBundle demo_host 0 devOptions dev_world1)"
  have run2: "createSandboxBundle demo_host 0 devOptions dev_world1 = (?r, dev_world2)"
    by (simp add: dev_world2_def)
  from echo_host_returns obtain oute w2e where
    run3: "createSandboxBundle echo_host 0 devOptions dev_world1 = (Inr oute, w2e)" by blast
  note t1 = sandbox_two_phase[of demo_host 0 devOptions dev_world0 dev_world1 ?T 0 devOptions ?r dev_world2]
  note t0 = sandbox_two_phase[of demo_host 0 devOptions dev_world0 dev_world0 ?T 0 devOptions ?r dev_world2]
  note t2 = sandbox_two_phase[of echo_host 0 devOptions dev_world0 dev_world1 ?T 0 devOptions
      "Inr oute" w2e oute]
  from t1 dev_run1 have a: "\<exists>text. files dev_world1 (norm_path scriptingPath) = Some text" by blast
  from t1 dev_world1_files(1) run2 have b: "files dev_world2 (norm_path scriptingPath) = None"
    and b': "\<exists>rest. fs_trace dev_world2 =
            fs_trace dev_world1 @ [EvRead scriptingPath, EvUnlink scriptingPath] @ rest \<and>
          set rest \<subseteq> range EvRead" by blast+
  from t2 dev_world1_files(1) run3 obtain cfg js where
    d: "prop_get (cfg_defines cfg) ''PDF_SCRIPTING_JS_SOURCE'' = JStr ?T" and
    wr: "webpack_run echo_host cfg (heap w2e (cfg_output cfg)) ''./src/pdf.sandbox.js'' (files w2e) =
      Inr js" and
    o: "oute = (''pdf.sandbox.js'',
          replaceJSRootName ''pdfjs-dist/build/pdf.sandbox'' ''pdfjsSandbox''
            (replaceNonWebpackImport (replaceWebpackRequire js)))"
    by blast
  from wr echo_host_bundle[OF d] have "js = ?T" by simp
  with o run3 have c: "fst (createSandboxBundle echo_host 0 devOptions dev_world1) =
     Inr (''pdf.sandbox.js'',
          replaceJSRootName ''pdfjs-dist/build/pdf.sandbox'' ''pdfjsSandbox''
            (replaceNonWebpackImport (replaceWebpackRequire ?T)))" by simp
  from t0 dev_world0_files(2) have e: "fst (createSandboxBundle demo_host 0 devOptions dev_world0) = Inl (ENOENT scriptingPath)"
    by simp
  from dev_run1 a b b' c dev_world0_files(2) e show ?thesis by blast
qed

subsection \<open>Minification\<close>

lemma squeeze_split:
  "\<not> (a = CHR ''/'' \<and> b = CHR ''/'') \<Longrightarrow>
   squeeze (xs @ a # b # ys) = squeeze (xs @ [a]) @ squeeze (b # ys)"
  by (induction xs rule: squeeze.induct) auto

lemma squeeze_double_slash: "squeeze (xs @ ''//'') = squeeze (xs @ ''/'')"
  by (induction xs rule: squeeze.induct) auto

lemma squeeze_last: "xs \<noteq> [] \<Longrightarrow> squeeze xs \<noteq> [] \<and> last (squeeze xs) = last xs"
  by (induction xs rule: squeeze.induct) auto

lemma strip_dot_append:
  "A = [] \<or> last A = CHR ''/'' \<Longrightarrow> strip_dot B = B \<Longrightarrow> strip_dot (A @ B) = strip_dot A @ B"
proof (induction A rule: strip_dot.induct)
  case (1 a b cs)
  then show ?case by (cases "cs = []") auto
qed (cases B; auto)+

lemma norm_path_in_dir:
  assumes "B \<noteq> []" and "hd B \<noteq> CHR ''/''" and "squeeze B = B" and "strip_dot B = B"
  shows "norm_path (dir @ CHR ''/'' # B) = dir_prefix dir @ B"
proof -
  obtain b ys where B: "B = b # ys" using assms(1) by (cases B) auto
  with assms(2) have nb: "\<not> (CHR ''/'' = CHR ''/'' \<and> b = CHR ''/'')" by simp
  have "squeeze (dir @ CHR ''/'' # b # ys) = squeeze (dir @ ''/'') @ squeeze (b # ys)"
    using squeeze_split[OF nb, of dir ys] by simp
  with assms(3) B have s: "squeeze (dir @ CHR ''/'' # B) = squeeze (dir @ ''/'') @ B" by simp
  have "last (squeeze (dir @ ''/'')) = CHR ''/''" using squeeze_last[of "dir @ ''/''"] by simp
  from strip_dot_append[OF disjI2[OF this] assms(4)] show ?thesis
    by (simp add: norm_path_def dir_prefix_def s)
qed

lemma dir_prefix_slash: "dir_prefix (d @ ''/'') = dir_prefix d"
  using squeeze_double_slash[of d] by (simp add: dir_prefix_def)

lemma norm_path_in_slash_dir:
  assumes "dir \<noteq> []" and "last dir = CHR ''/''"
    and "B \<noteq> []" and "hd B \<noteq> CHR ''/''" and "squeeze B = B" and "strip_dot B = B"
  shows "norm_path (dir @ B) = dir_prefix dir @ B"
proof -
  from assms(1,2) obtain d where d: "dir = d @ ''/''"
    by (metis append_butlast_last_id)
  have "norm_path (d @ CHR ''/'' # B) = dir_prefix d @ B"
    by (rule norm_path_in_dir[OF assms(3-6)])
  then show ?thesis by (simp add: d dir_prefix_slash)
qed

lemma emits_bind:
  assumes "emits m e1" and "\<And>x. emits (f x) e2"
  shows "emits (bind m f) (e1 @ e2)"
  unfolding emits_def
proof (intro allI impI)
  fix w r w' assume run: "bind m f w = (r, w')"
  obtain r1 w1 where m: "m w = (r1, w1)" by (cases "m w")
  show "case r of Inr x \<Rightarrow> fs_trace w' = fs_trace w @ e1 @ e2
              | Inl e \<Rightarrow> (\<exists>k. fs_trace w' = fs_trace w @ take k (e1 @ e2))"
  proof (cases r1)
    case (Inl e)
    with run m have r: "r = Inl e" "w' = w1" by (simp_all add: bind_def)
    from assms(1) m Inl obtain k where "fs_trace w1 = fs_trace w @ take k e1"
      unfolding emits_def by fastforce
    moreover have "take (min k (length e1)) (e1 @ e2) = take k e1"
      by (cases "k \<le> length e1") (simp_all add: min_def)
    ultimately have "fs_trace w' = fs_trace w @ take (min k (length e1)) (e1 @ e2)"
      using r by (simp only:)
    then have "\<exists>k. fs_trace w' = fs_trace w @ take k (e1 @ e2)" by blast
    with r show ?thesis by simp
  next
    case (Inr x)
    with run m have fx: "f x w1 = (r, w')" by (simp add: bind_def)
    from assms(1) m Inr have t1: "fs_trace w1 = fs_trace w @ e1"
      unfolding emits_def by fastforce
    show ?thesis
    proof (cases r)
      case (Inl e)
      with assms(2)[of x] fx obtain k where "fs_trace w' = fs_trace w1 @ take k e2"
        unfolding emits_def by fastforce
      with t1 have "fs_trace w' = fs_trace w @ take (length e1 + k) (e1 @ e2)" by simp
      then have "\<exists>k. fs_trace w' = fs_trace w @ take k (e1 @ e2)" by blast
      with Inl show ?thesis by simp
    next
      case (Inr y)
      with assms(2)[of x] fx have "fs_trace w' = fs_trace w1 @ e2"
        unfolding emits_def by fastforce
      with t1 Inr show ?thesis by simp
    qed
  qed
qed

lemma emits_bind_log: "(\<And>x. emits (f x) evs) \<Longrightarrow> emits (bind (log_line s) f) evs"
  using emits_bind[of "log_line s" "[]" f evs] by (simp add: emits_def log_line_def)

lemma emits_bind_minify: "(\<And>x. emits (f x) evs) \<Longrightarrow> emits (bind (minify h inp) f) evs"
  using emits_bind[of "minify h inp" "[]" f evs]
  by (auto simp: emits_def minify_def lift_def split: sum.splits)

lemma emits_readFileSync: "emits (readFileSync p) [EvRead p]"
  unfolding emits_def readFileSync_def
  by (auto simp: Let_def split: option.splits sum.splits intro: exI[of _ 1])

lemma emits_writeFileSync: "emits (writeFileSync p c) [EvWrite p]"
  unfolding emits_def writeFileSync_def by (auto split: sum.splits)

lemma emits_unlinkSync: "emits (unlinkSync p) [EvUnlink p]"
  unfolding emits_def unlinkSync_def
  by (auto simp: Let_def split: option.splits sum.splits intro: exI[of _ 1])

lemma emits_renameSync: "emits (renameSync a b) [EvRename a b]"
  unfolding emits_def renameSync_def
  by (auto simp: Let_def split: option.splits sum.splits intro: exI[of _ 1])

lemma emits_bind_read:
  "(\<And>x. emits (f x) evs) \<Longrightarrow> emits (bind (readFileSync p) f) (EvRead p # evs)"
  using emits_bind[OF emits_readFileSync, of f evs p] by simp

lemma emits_bind_write:
  "(\<And>x. emits (f x) evs) \<Longrightarrow> emits (bind (writeFileSync p c) f) (EvWrite p # evs)"
  using emits_bind[OF emits_writeFileSync, of f evs p c] by simp

lemma emits_bind_unlink:
  "(\<And>x. emits (f x) evs) \<Longrightarrow> emits (bind (unlinkSync p) f) (EvUnlink p # evs)"
  using emits_bind[OF emits_unlinkSync, of f evs p] by simp

lemma emits_bind_rename:
  "(\<And>x. emits (f x) evs) \<Longrightarrow> emits (bind (renameSync a b) f) (EvRename a b # evs)"
  using emits_bind[OF emits_renameSync, of f evs a b] by simp

lemma parseMinified_emits: "emits (parseMinified h dir) (minify_events dir)"
  unfolding parseMinified_def minify_events_def Let_def
  by (intro emits_bind_read emits_bind_write emits_bind_unlink emits_bind_rename emits_bind_log
      emits_bind_minify emits_renameSync)

lemma parseMinified_trace:
  "parseMinified h dir w = (r, w') \<Longrightarrow> \<exists>k. fs_trace w' = fs_trace w @ take k (minify_events dir)"
  using parseMinified_emits[of h dir] unfolding emits_def
  by (cases r) (fastforce intro: exI[of _ "length (minify_events dir)"])+

subsection \<open>The outcome of a minification\<close>

lemma put_file_apply: "put_file fs p c q = (if q = p then Some c else fs q)"
  by (simp add: put_file_def)

lemma del_file_apply: "del_file fs p q = (if q = p then None else fs q)"
  by (simp add: del_file_def)

lemma bind_readFileSync:
  "bind (readFileSync p) f w =
     (case files w (norm_path p) of
        None \<Rightarrow> (Inl (ENOENT p), w\<lparr>fs_trace := fs_trace w @ [EvRead p]\<rparr>)
      | Some c \<Rightarrow> f c (w\<lparr>fs_trace := fs_trace w @ [EvRead p]\<rparr>))"
  by (simp add: bind_def readFileSync_def Let_def split: option.splits)

lemma bind_write_file:
  "bind (writeFileSync p c) f w =
     f () (w\<lparr>files := put_file (files w) (norm_path p) c, fs_trace := fs_trace w @ [EvWrite p]\<rparr>)"
  by (simp add: bind_def writeFileSync_def put_file_def)

lemma bind_unlinkSync:
  "bind (unlinkSync p) f w =
     (case files w (norm_path p) of
        None \<Rightarrow> (Inl (ENOENT p), w\<lparr>fs_trace := fs_trace w @ [EvUnlink p]\<rparr>)
      | Some c \<Rightarrow> f () (w\<lparr>fs_trace := fs_trace w @ [EvUnlink p],
                          files := del_file (files w) (norm_path p)\<rparr>))"
  by (simp add: bind_def unlinkSync_def Let_def del_file_def split: option.splits)

lemma bind_renameSync:
  "bind (renameSync a b) f w =
     (case files w (norm_path a) of
        None \<Rightarrow> (Inl (ENOENT a), w\<lparr>fs_trace := fs_trace w @ [EvRename a b]\<rparr>)
      | Some c \<Rightarrow> f () (w\<lparr>fs_trace := fs_trace w @ [EvRename a b],
                          files := put_file (del_file (files w) (norm_path a)) (norm_path b) c\<rparr>))"
  by (simp add: bind_def renameSync_def Let_def put_file_def del_file_def split: option.splits)

lemma renameSync_apply:
  "renameSync a b w =
     (case files w (norm_path a) of
        None \<Rightarrow> (Inl (ENOENT a), w\<lparr>fs_trace := fs_trace w @ [EvRename a b]\<rparr>)
      | Some c \<Rightarrow> (Inr (), w\<lparr>fs_trace := fs_trace w @ [EvRename a b],
                          files := put_file (del_file (files w) (norm_path a)) (norm_path b) c\<rparr>))"
  by (simp add: renameSync_def Let_def put_file_def del_file_def split: option.splits)

lemma bind_minify:
  "bind (minify h inp) f w =
     (case terser_minify h inp of Inl e \<Rightarrow> (Inl e, w) | Inr c \<Rightarrow> f c w)"
  by (simp add: bind_def minify_def lift_def split: sum.splits)

lemma minified_paths:
  "norm_path (dir @ ''/build/pdf.js'') = dir_prefix dir @ ''build/pdf.js''"
  "norm_path (dir @ ''/build/pdf.worker.js'') = dir_prefix dir @ ''build/pdf.worker.js''"
  "norm_path (dir @ ''/build/pdf.sandbox.js'') = dir_prefix dir @ ''build/pdf.sandbox.js''"
  "norm_path (dir @ ''/image_decoders/pdf.image_decoders.js'') =
     dir_prefix dir @ ''image_decoders/pdf.image_decoders.js''"
  "norm_path (dir @ ''/web/viewer.js'') = dir_prefix dir @ ''web/viewer.js''"
  "norm_path (dir @ ''/web/debugger.js'') = dir_prefix dir @ ''web/debugger.js''"
  "norm_path (dir @ ''/web/pdf.viewer.js'') = dir_prefix dir @ ''web/pdf.viewer.js''"
  "norm_path (dir @ ''/build/pdf.min.js'') = dir_prefix dir @ ''build/pdf.min.js''"
  "norm_path (dir @ ''/build/pdf.worker.min.js'') = dir_prefix dir @ ''build/pdf.worker.min.js''"
  "norm_path (dir @ ''/build/pdf.sandbox.min.js'') = dir_prefix dir @ ''build/pdf.sandbox.min.js''"
  "norm_path (dir @ ''/image_decoders/pdf.image_decoders.min.js'') =
     dir_prefix dir @ ''image_decoders/pdf.image_decoders.min.js''"
  by (simp_all add: norm_path_in_dir)

lemma minified_path_slash:
  "dir \<noteq> [] \<Longrightarrow> last dir = CHR ''/'' \<Longrightarrow>
   norm_path (dir @ ''image_decoders/pdf.image_decoders.min.js'') =
     dir_prefix dir @ ''image_decoders/pdf.image_decoders.min.js''"
  by (simp add: norm_path_in_slash_dir)

lemma parseMinified_files:
  assumes dir: "dir \<noteq> []" "last dir = CHR ''/''"
    and f1: "files w (norm_path (dir @ ''/build/pdf.js'')) = Some a"
    and f2: "files w (norm_path (dir @ ''/build/pdf.worker.js'')) = Some b"
    and f3: "files w (norm_path (dir @ ''/build/pdf.sandbox.js'')) = Some c"
    and f4: "files w (norm_path (dir @ ''/image_decoders/pdf.image_decoders.js'')) = Some d"
    and f5: "files w (norm_path (dir @ ''/web/viewer.js'')) = Some v"
    and f6: "files w (norm_path (dir @ ''/web/debugger.js'')) = Some g"
    and nv: "terser_minify h (NamedSources [(''pdf.js'', a), (''viewer.js'', v)]) = Inr vv"
    and n1: "terser_minify h (Source a) = Inr a'"
    and n2: "terser_minify h (Source b) = Inr b'"
    and n3: "terser_minify h (Source c) = Inr c'"
    and n4: "terser_minify h (Source d) = Inr d'"
  shows "fst (parseMinified h dir w) = Inr () \<and>
    files (snd (parseMinified h dir w)) p =
      (if p = norm_path (dir @ ''/web/viewer.js'') \<or> p = norm_path (dir @ ''/web/debugger.js'') \<or>
          p = norm_path (dir @ ''/build/pdf.min.js'') \<or>
          p = norm_path (dir @ ''/build/pdf.worker.min.js'') \<or>
          p = norm_path (dir @ ''/build/pdf.sandbox.min.js'') \<or>
          p = norm_path (dir @ ''/image_decoders/pdf.image_decoders.min.js'')
       then None
       else if p = norm_path (dir @ ''/web/pdf.viewer.js'') then Some vv
       else if p = norm_path (dir @ ''/build/pdf.js'') then Some a'
       else if p = norm_path (dir @ ''/build/pdf.worker.js'') then Some b'
       else if p = norm_path (dir @ ''/build/pdf.sandbox.js'') then Some c'
       else if p = norm_path (dir @ ''/image_decoders/pdf.image_decoders.js'') then Some d'
       else files w p)"
proof -
  define k1 where "k1 = dir_prefix dir @ ''build/pdf.js''"
  define k2 where "k2 = dir_prefix dir @ ''build/pdf.worker.js''"
  define k3 where "k3 = dir_prefix dir @ ''build/pdf.sandbox.js''"
  define k4 where "k4 = dir_prefix dir @ ''image_decoders/pdf.image_decoders.js''"
  define k5 where "k5 = dir_prefix dir @ ''web/viewer.js''"
  define k6 where "k6 = dir_prefix dir @ ''web/debugger.js''"
  define k7 where "k7 = dir_prefix dir @ ''web/pdf.viewer.js''"
  define m1 where "m1 = dir_prefix dir @ ''build/pdf.min.js''"
  define m2 where "m2 = dir_prefix dir @ ''build/pdf.worker.min.js''"
  define m3 where "m3 = dir_prefix dir @ ''build/pdf.sandbox.min.js''"
  define m4 where "m4 = dir_prefix dir @ ''image_decoders/pdf.image_decoders.min.js''"
  note ks = k1_def k2_def k3_def k4_def k5_def k6_def k7_def m1_def m2_def m3_def m4_def
  have paths:
    "norm_path (dir @ ''/build/pdf.js'') = k1"
    "norm_path (dir @ ''/build/pdf.worker.js'') = k2"
    "norm_path (dir @ ''/build/pdf.sandbox.js'') = k3"
    "norm_path (dir @ ''/image_decoders/pdf.image_decoders.js'') = k4"
    "norm_path (dir @ ''/web/viewer.js'') = k5"
    "norm_path (dir @ ''/web/debugger.js'') = k6"
    "norm_path (dir @ ''/web/pdf.viewer.js'') = k7"
    "norm_path (dir @ ''/build/pdf.min.js'') = m1"
    "norm_path (dir @ ''/build/pdf.worker.min.js'') = m2"
    "norm_path (dir @ ''/build/pdf.sandbox.min.js'') = m3"
    "norm_path (dir @ ''/image_decoders/pdf.image_decoders.min.js'') = m4"
    "norm_path (dir @ ''image_decoders/pdf.image_decoders.min.js'') = m4"
    unfolding ks by (simp_all only: minified_paths minified_path_slash[OF dir])
  have "distinct [k1, k2, k3, k4, k5, k6, k7, m1, m2, m3, m4]"
    unfolding ks by simp
  then have ne: "k1 \<noteq> k2" "k1 \<noteq> k3" "k1 \<noteq> k4" "k1 \<noteq> k5" "k1 \<noteq> k6" "k1 \<noteq> k7"
    "k1 \<noteq> m1" "k1 \<noteq> m2" "k1 \<noteq> m3" "k1 \<noteq> m4"
    "k2 \<noteq> k3" "k2 \<noteq> k4" "k2 \<noteq> k5" "k2 \<noteq> k6" "k2 \<noteq> k7"
    "k2 \<noteq> m1" "k2 \<noteq> m2" "k2 \<noteq> m3" "k2 \<noteq> m4"
    "k3 \<noteq> k4" "k3 \<noteq> k5" "k3 \<noteq> k6" "k3 \<noteq> k7"
    "k3 \<noteq> m1" "k3 \<noteq> m2" "k3 \<noteq> m3" "k3 \<noteq> m4"
    "k4 \<noteq> k5" "k4 \<noteq> k6" "k4 \<noteq> k7"
    "k4 \<noteq> m1" "k4 \<noteq> m2" "k4 \<noteq> m3" "k4 \<noteq> m4"
    "k5 \<noteq> k6" "k5 \<noteq> k7" "k5 \<noteq> m1" "k5 \<noteq> m2" "k5 \<noteq> m3" "k5 \<noteq> m4"
    "k6 \<noteq> k7" "k6 \<noteq> m1" "k6 \<noteq> m2" "k6 \<noteq> m3" "k6 \<noteq> m4"
    "k7 \<noteq> m1" "k7 \<noteq> m2" "k7 \<noteq> m3" "k7 \<noteq> m4"
    "m1 \<noteq> m2" "m1 \<noteq> m3" "m1 \<noteq> m4" "m2 \<noteq> m3" "m2 \<noteq> m4" "m3 \<noteq> m4"
    by simp_all
  note ne' = ne ne[symmetric]
  have fs: "files w k1 = Some a" "files w k2 = Some b" "files w k3 = Some c"
    "files w k4 = Some d" "files w k5 = Some v" "files w k6 = Some g"
    using f1 f2 f3 f4 f5 f6 unfolding paths by simp_all
  have run: "fst (parseMinified h dir w) = Inr () \<and> files (snd (parseMinified h dir w)) =
     put_file (del_file (put_file (del_file (put_file (del_file (put_file (del_file
       (del_file (del_file (del_file (del_file (del_file
         (put_file (put_file (put_file (put_file (put_file (files w) k7 vv) m1 a') m2 b') m3 c') m4 d')
       k5) k6) k1) k2) k3) m1) k1 a') m2) k2 b') m3) k3 c') m4) k4 d'"
    unfolding parseMinified_def Let_def
    by (simp add: bind_readFileSync bind_unlinkSync bind_renameSync bind_minify bind_write_file
      bind_log_line paths ne' fs nv n1 n2 n3 n4 renameSync_apply put_file_apply del_file_apply)
  consider "p = k1" | "p = k2" | "p = k3" | "p = k4" | "p = k5" | "p = k6" | "p = k7"
    | "p = m1" | "p = m2" | "p = m3" | "p = m4"
    | "p \<noteq> k1 \<and> p \<noteq> k2 \<and> p \<noteq> k3 \<and> p \<noteq> k4 \<and> p \<noteq> k5 \<and> p \<noteq> k6 \<and> p \<noteq> k7 \<and>
       p \<noteq> m1 \<and> p \<noteq> m2 \<and> p \<noteq> m3 \<and> p \<noteq> m4"
    by auto
  then show ?thesis
    unfolding paths
    by cases (simp_all add: run fs ne' put_file_apply del_file_apply)
qed

text \<open>
  Claim C5, as amended. Let the directory name end in a slash, let the six files that
  \<^verbatim>\<open>parseMinified\<close> reads or unlinks exist, and let the minifier return every single source
  unchanged and the text \<open>vv\<close> for the viewer pair. Then \<^verbatim>\<open>parseMinified\<close> completes, and
  afterwards \<^verbatim>\<open>web/viewer.js\<close> and \<^verbatim>\<open>web/debugger.js\<close> are gone, no \<^verbatim>\<open>.min.js\<close> file is left,
  \<^verbatim>\<open>web/pdf.viewer.js\<close> holds \<open>vv\<close>, and every other file, among them the four library
  files, has the contents it had before.
\<close>

theorem parseMinified_identity:
  assumes dir: "dir \<noteq> []" "last dir = CHR ''/''"
    and f1: "files w (norm_path (dir @ ''/build/pdf.js'')) = Some a"
    and f2: "files w (norm_path (dir @ ''/build/pdf.worker.js'')) = Some b"
    and f3: "files w (norm_path (dir @ ''/build/pdf.sandbox.js'')) = Some c"
    and f4: "files w (norm_path (dir @ ''/image_decoders/pdf.image_decoders.js'')) = Some d"
    and f5: "files w (norm_path (dir @ ''/web/viewer.js'')) = Some v"
    and f6: "files w (norm_path (dir @ ''/web/debugger.js'')) = Some g"
    and idm: "\<And>s. terser_minify h (Source s) = Inr s"
    and nv: "terser_minify h (NamedSources [(''pdf.js'', a), (''viewer.js'', v)]) = Inr vv"
  shows "fst (parseMinified h dir w) = Inr () \<and>
    files (snd (parseMinified h dir w)) p =
      (if p = norm_path (dir @ ''/web/viewer.js'') \<or> p = norm_path (dir @ ''/web/debugger.js'') \<or>
          p = norm_path (dir @ ''/build/pdf.min.js'') \<or>
          p = norm_path (dir @ ''/build/pdf.worker.min.js'') \<or>
          p = norm_path (dir @ ''/build/pdf.sandbox.min.js'') \<or>
          p = norm_path (dir @ ''/image_decoders/pdf.image_decoders.min.js'')
       then None
       else if p = norm_path (dir @ ''/web/pdf.viewer.js'') then Some vv
       else files w p)"
proof -
  note run = parseMinified_files[OF dir f1 f2 f3 f4 f5 f6 nv idm idm idm idm, of p]
  from run have "fst (parseMinified h dir w) = Inr ()" by (rule conjunct1)
  moreover from run have "files (snd (parseMinified h dir w)) p =
      (if p = norm_path (dir @ ''/web/viewer.js'') \<or> p = norm_path (dir @ ''/web/debugger.js'') \<or>
          p = norm_path (dir @ ''/build/pdf.min.js'') \<or>
          p = norm_path (dir @ ''/build/pdf.worker.min.js'') \<or>
          p = norm_path (dir @ ''/build/pdf.sandbox.min.js'') \<or>
          p = norm_path (dir @ ''/image_decoders/pdf.image_decoders.min.js'')
       then None
       else if p = norm_path (dir @ ''/web/pdf.viewer.js'') then Some vv
       else files w p)"
    using f1 f2 f3 f4 by (simp only: split: if_splits) auto
  ultimately show ?thesis by (rule conjI)
qed

lemma dir_prefix_MINIFIED_DIR: "dir_prefix MINIFIED_DIR = ''build/minified/''"
  by (simp add: dir_prefix_def MINIFIED_DIR_def BUILD_DIR_def)

lemma MINIFIED_DIR_slash: "MINIFIED_DIR \<noteq> []" "last MINIFIED_DIR = CHR ''/''"
  by (simp_all add: MINIFIED_DIR_def BUILD_DIR_def)

lemma minified_world_files:
  "files minified_world (norm_path (MINIFIED_DIR @ ''/build/pdf.js'')) = Some ''A''"
  "files minified_world (norm_path (MINIFIED_DIR @ ''/build/pdf.worker.js'')) = Some ''B''"
  "files minified_world (norm_path (MINIFIED_DIR @ ''/build/pdf.sandbox.js'')) = Some ''C''"
  "files minified_world (norm_path (MINIFIED_DIR @ ''/image_decoders/pdf.image_decoders.js'')) =
     Some ''D''"
  "files minified_world (norm_path (MINIFIED_DIR @ ''/web/viewer.js'')) = Some ''V''"
  "files minified_world (norm_path (MINIFIED_DIR @ ''/web/debugger.js'')) = Some ''G''"
  unfolding minified_paths dir_prefix_MINIFIED_DIR
  by (simp_all add: minified_world_def demo_world_def minified_files_def)

lemma demo_minify:
  "terser_minify demo_host (Source s) = Inr s"
  "terser_minify demo_host (NamedSources [(''pdf.js'', ''A''), (''viewer.js'', ''V'')]) = Inr ''AV''"
  by (simp_all add: demo_host_def)

text \<open>
  Claim C5, as it is stated, fails for the minified build directory: with a minifier
  that returns every single source unchanged, \<^verbatim>\<open>parseMinified\<close> completes, and afterwards
  \<^verbatim>\<open>web/viewer.js\<close> and \<^verbatim>\<open>web/debugger.js\<close> are gone and the new file \<^verbatim>\<open>web/pdf.viewer.js\<close>
  holds the minified pair, so the directory is not what it was.
\<close>

theorem identity_minifier_changes_directory:
  "(\<forall>s. terser_minify demo_host (Source s) = Inr s) \<and>
   fst (parseMinified demo_host MINIFIED_DIR minified_world) = Inr () \<and>
   files minified_world ''build/minified/web/viewer.js'' = Some ''V'' \<and>
   files (snd (parseMinified demo_host MINIFIED_DIR minified_world))
     ''build/minified/web/viewer.js'' = None \<and>
   files minified_world ''build/minified/web/debugger.js'' = Some ''G'' \<and>
   files (snd (parseMinified demo_host MINIFIED_DIR minified_world))
     ''build/minified/web/debugger.js'' = None \<and>
   files minified_world ''build/minified/web/pdf.viewer.js'' = None \<and>
   files (snd (parseMinified demo_host MINIFIED_DIR minified_world))
     ''build/minified/web/pdf.viewer.js'' = Some ''AV''"
proof -
  note run = parseMinified_files[OF MINIFIED_DIR_slash minified_world_files demo_minify(2)
      demo_minify(1) demo_minify(1) demo_minify(1) demo_minify(1)]
  have a: "fst (parseMinified demo_host MINIFIED_DIR minified_world) = Inr ()"
    using run by (rule conjunct1)
  have b: "files (snd (parseMinified demo_host MINIFIED_DIR minified_world))
     ''build/minified/web/viewer.js'' = None"
    using run[of "''build/minified/web/viewer.js''"]
    unfolding minified_paths dir_prefix_MINIFIED_DIR by simp
  have c: "files (snd (parseMinified demo_host MINIFIED_DIR minified_world))
     ''build/minified/web/debugger.js'' = None"
    using run[of "''build/minified/web/debugger.js''"]
    unfolding minified_paths dir_prefix_MINIFIED_DIR by simp
  have d: "files (snd (parseMinified demo_host MINIFIED_DIR minified_world))
     ''build/minified/web/pdf.viewer.js'' = Some ''AV''"
    using run[of "''build/minified/web/pdf.viewer.js''"]
    unfolding minified_paths dir_prefix_MINIFIED_DIR by simp
  have e: "files minified_world ''build/minified/web/viewer.js'' = Some ''V''"
    "files minified_world ''build/minified/web/debugger.js'' = Some ''G''"
    "files minified_world ''build/minified/web/pdf.viewer.js'' = None"
    by (simp_all add: minified_world_def demo_world_def minified_files_def)
  show ?thesis using a b c d e demo_minify(1) by blast
qed

text \<open>The amended claim in the same directory: the worker keeps its contents and no
  \<^verbatim>\<open>.min.js\<close> file is left.\<close>

theorem parseMinified_identity_witness:
  "fst (parseMinified demo_host MINIFIED_DIR minified_world) = Inr () \<and>
   files (snd (parseMinified demo_host MINIFIED_DIR minified_world))
     ''build/minified/build/pdf.worker.js'' = Some ''B'' \<and>
   files (snd (parseMinified demo_host MINIFIED_DIR minified_world))
     ''build/minified/build/pdf.worker.min.js'' = None"
proof -
  note run = parseMinified_identity[OF MINIFIED_DIR_slash minified_world_files demo_minify(1)
      demo_minify(2)]
  have a: "fst (parseMinified demo_host MINIFIED_DIR minified_world) = Inr ()"
    using run by (rule conjunct1)
  have b: "files (snd (parseMinified demo_host MINIFIED_DIR minified_world))
     ''build/minified/build/pdf.worker.js'' = Some ''B''"
    using run[of "''build/minified/build/pdf.worker.js''"] minified_world_files(2)
    unfolding minified_paths dir_prefix_MINIFIED_DIR by simp
  have c: "files (snd (parseMinified demo_host MINIFIED_DIR minified_world))
     ''build/minified/build/pdf.worker.min.js'' = None"
    using run[of "''build/minified/build/pdf.worker.min.js''"]
    unfolding minified_paths dir_prefix_MINIFIED_DIR by simp
  show ?thesis using a b c by blast
qed

subsection \<open>A failing minifier\<close>

text \<open>
  Claim C6. The file-system calls of \<^verbatim>\<open>parseMinified\<close> are, on every outcome, an initial
  part of its nineteen calls in source order; the first ten of these are the five reads and
  the five writes of minified output, and they are exactly the calls that neither delete
  nor rename, so a file is unlinked or renamed over only after all five outputs have been
  written. Hence, when the five sources have been read and the minifier throws on one of
  its five inputs, \<^verbatim>\<open>parseMinified\<close> throws, no unlink and no rename has been issued, and
  each of the six originals has the contents it had before.
\<close>

theorem cleanup_after_minification:
  assumes run: "parseMinified h dir w = (r, w')"
  shows "(\<exists>k. fs_trace w' = fs_trace w @ take k (minify_events dir)) \<and>
    filter is_cleanup (take 10 (minify_events dir)) = [] \<and>
    filter (\<lambda>e. \<not> is_cleanup e) (minify_events dir) = take 10 (minify_events dir) \<and>
    (files w (norm_path (dir @ ''/build/pdf.js'')) = Some a \<longrightarrow>
     files w (norm_path (dir @ ''/build/pdf.worker.js'')) = Some b \<longrightarrow>
     files w (norm_path (dir @ ''/build/pdf.sandbox.js'')) = Some c \<longrightarrow>
     files w (norm_path (dir @ ''/image_decoders/pdf.image_decoders.js'')) = Some d \<longrightarrow>
     files w (norm_path (dir @ ''/web/viewer.js'')) = Some v \<longrightarrow>
     (\<exists>inp \<in> set (minify_inputs a b c d v). isl (terser_minify h inp)) \<longrightarrow>
     isl r \<and> filter is_cleanup (drop (length (fs_trace w)) (fs_trace w')) = [] \<and>
     (\<forall>p \<in> set (originals dir). files w' (norm_path p) = files w (norm_path p)))"
proof -
  have A: "\<exists>k. fs_trace w' = fs_trace w @ take k (minify_events dir)"
    by (rule parseMinified_trace[OF run])
  have B: "filter is_cleanup (take 10 (minify_events dir)) = []"
    "filter (\<lambda>e. \<not> is_cleanup e) (minify_events dir) = take 10 (minify_events dir)"
    by (simp_all add: minify_events_def)
  have C: "isl r \<and> filter is_cleanup (drop (length (fs_trace w)) (fs_trace w')) = [] \<and>
     (\<forall>p \<in> set (originals dir). files w' (norm_path p) = files w (norm_path p))"
    if f1: "files w (norm_path (dir @ ''/build/pdf.js'')) = Some a"
      and f2: "files w (norm_path (dir @ ''/build/pdf.worker.js'')) = Some b"
      and f3: "files w (norm_path (dir @ ''/build/pdf.sandbox.js'')) = Some c"
      and f4: "files w (norm_path (dir @ ''/image_decoders/pdf.image_decoders.js'')) = Some d"
      and f5: "files w (norm_path (dir @ ''/web/viewer.js'')) = Some v"
      and fail: "\<exists>inp \<in> set (minify_inputs a b c d v). isl (terser_minify h inp)"
  proof -
    define k1 where "k1 = dir_prefix dir @ ''build/pdf.js''"
    define k2 where "k2 = dir_prefix dir @ ''build/pdf.worker.js''"
    define k3 where "k3 = dir_prefix dir @ ''build/pdf.sandbox.js''"
    define k4 where "k4 = dir_prefix dir @ ''image_decoders/pdf.image_decoders.js''"
    define k5 where "k5 = dir_prefix dir @ ''web/viewer.js''"
    define k6 where "k6 = dir_prefix dir @ ''web/debugger.js''"
    define k7 where "k7 = dir_prefix dir @ ''web/pdf.viewer.js''"
    define m1 where "m1 = dir_prefix dir @ ''build/pdf.min.js''"
    define m2 where "m2 = dir_prefix dir @ ''build/pdf.worker.min.js''"
    define m3 where "m3 = dir_prefix dir @ ''build/pdf.sandbox.min.js''"
    note ks = k1_def k2_def k3_def k4_def k5_def k6_def k7_def m1_def m2_def m3_def
    have paths:
      "norm_path (dir @ ''/build/pdf.js'') = k1"
      "norm_path (dir @ ''/build/pdf.worker.js'') = k2"
      "norm_path (dir @ ''/build/pdf.sandbox.js'') = k3"
      "norm_path (dir @ ''/image_decoders/pdf.image_decoders.js'') = k4"
      "norm_path (dir @ ''/web/viewer.js'') = k5"
      "norm_path (dir @ ''/web/debugger.js'') = k6"
      "norm_path (dir @ ''/web/pdf.viewer.js'') = k7"
      "norm_path (dir @ ''/build/pdf.min.js'') = m1"
      "norm_path (dir @ ''/build/pdf.worker.min.js'') = m2"
      "norm_path (dir @ ''/build/pdf.sandbox.min.js'') = m3"
      unfolding ks by (simp_all only: minified_paths)
    have ne: "k1 \<noteq> k7" "k1 \<noteq> m1" "k1 \<noteq> m2" "k1 \<noteq> m3"
      "k2 \<noteq> k7" "k2 \<noteq> m1" "k2 \<noteq> m2" "k2 \<noteq> m3"
      "k3 \<noteq> k7" "k3 \<noteq> m1" "k3 \<noteq> m2" "k3 \<noteq> m3"
      "k4 \<noteq> k7" "k4 \<noteq> m1" "k4 \<noteq> m2" "k4 \<noteq> m3"
      "k5 \<noteq> k7" "k5 \<noteq> m1" "k5 \<noteq> m2" "k5 \<noteq> m3"
      "k6 \<noteq> k7" "k6 \<noteq> m1" "k6 \<noteq> m2" "k6 \<noteq> m3"
      unfolding ks by simp_all
    have fs: "files w k1 = Some a" "files w k2 = Some b" "files w k3 = Some c"
      "files w k4 = Some d" "files w k5 = Some v"
      using f1 f2 f3 f4 f5 unfolding paths by simp_all
    define t1 where "t1 = terser_minify h (NamedSources [(''pdf.js'', a), (''viewer.js'', v)])"
    define t2 where "t2 = terser_minify h (Source a)"
    define t3 where "t3 = terser_minify h (Source b)"
    define t4 where "t4 = terser_minify h (Source c)"
    define t5 where "t5 = terser_minify h (Source d)"
    note ts = t1_def[symmetric] t2_def[symmetric] t3_def[symmetric] t4_def[symmetric]
      t5_def[symmetric]
    from fail have "isl t1 \<or> isl t2 \<or> isl t3 \<or> isl t4 \<or> isl t5"
      by (simp add: minify_inputs_def ts)
    then consider (1) e where "t1 = Inl e"
      | (2) x1 e where "t1 = Inr x1" "t2 = Inl e"
      | (3) x1 x2 e where "t1 = Inr x1" "t2 = Inr x2" "t3 = Inl e"
      | (4) x1 x2 x3 e where "t1 = Inr x1" "t2 = Inr x2" "t3 = Inr x3" "t4 = Inl e"
      | (5) x1 x2 x3 x4 e where "t1 = Inr x1" "t2 = Inr x2" "t3 = Inr x3" "t4 = Inr x4"
          "t5 = Inl e"
      by (cases t1; cases t2; cases t3; cases t4; cases t5) auto
    then show ?thesis
    proof cases
      case 1
      with run show ?thesis
        unfolding parseMinified_def Let_def originals_def
        by (auto simp add: bind_readFileSync bind_minify bind_write_file bind_log_line
            paths ne fs ts put_file_apply)
    next
      case 2
      with run show ?thesis
        unfolding parseMinified_def Let_def originals_def
        by (auto simp add: bind_readFileSync bind_minify bind_write_file bind_log_line
            paths ne fs ts put_file_apply)
    next
      case 3
      with run show ?thesis
        unfolding parseMinified_def Let_def originals_def
        by (auto simp add: bind_readFileSync bind_minify bind_write_file bind_log_line
            paths ne fs ts put_file_apply)
    next
      case 4
      with run show ?thesis
        unfolding parseMinified_def Let_def originals_def
        by (auto simp add: bind_readFileSync bind_minify bind_write_file bind_log_line
            paths ne fs ts put_file_apply)
    next
      case 5
      with run show ?thesis
        unfolding parseMinified_def Let_def originals_def
        by (auto simp add: bind_readFileSync bind_minify bind_write_file bind_log_line
            paths ne fs ts put_file_apply)
    qed
  qed
  from A B C show ?thesis by blast
qed

lemma failing_minify:
  "\<exists>inp \<in> set (minify_inputs ''A'' ''B'' ''C'' ''D'' ''V''). isl (terser_minify failing_host inp)"
  by (simp add: minify_inputs_def failing_host_def)

text \<open>In the minified build directory, with a minifier that throws on the worker.\<close>

theorem cleanup_after_minification_witness:
  "isl (fst (parseMinified failing_host MINIFIED_DIR minified_world)) \<and>
   filter is_cleanup (fs_trace (snd (parseMinified failing_host MINIFIED_DIR minified_world))) = [] \<and>
   files (snd (parseMinified failing_host MINIFIED_DIR minified_world))
     ''build/minified/build/pdf.worker.js'' = Some ''B'' \<and>
   files (snd (parseMinified failing_host MINIFIED_DIR minified_world))
     ''build/minified/web/viewer.js'' = Some ''V''"
proof -
  note inst = cleanup_after_minification[of failing_host MINIFIED_DIR minified_world
      "fst (parseMinified failing_host MINIFIED_DIR minified_world)"
      "snd (parseMinified failing_host MINIFIED_DIR minified_world)"
      "''A''" "''B''" "''C''" "''D''" "''V''", OF surjective_pairing]
  from inst minified_world_files(1-5) failing_minify
  have C: "isl (fst (parseMinified failing_host MINIFIED_DIR minified_world)) \<and>
     filter is_cleanup (drop (length (fs_trace minified_world))
       (fs_trace (snd (parseMinified failing_host MINIFIED_DIR minified_world)))) = [] \<and>
     (\<forall>p \<in> set (originals MINIFIED_DIR).
        files (snd (parseMinified failing_host MINIFIED_DIR minified_world)) (norm_path p) =
        files minified_world (norm_path p))"
    by blast
  have t: "fs_trace minified_world = []"
    by (simp add: minified_world_def demo_world_def)
  have m: "MINIFIED_DIR @ ''/build/pdf.worker.js'' \<in> set (originals MINIFIED_DIR)"
    "MINIFIED_DIR @ ''/web/viewer.js'' \<in> set (originals MINIFIED_DIR)"
    by (simp_all add: originals_def)
  from C m have
    "files (snd (parseMinified failing_host MINIFIED_DIR minified_world))
       (norm_path (MINIFIED_DIR @ ''/build/pdf.worker.js'')) = Some ''B''"
    "files (snd (parseMinified failing_host MINIFIED_DIR minified_world))
       (norm_path (MINIFIED_DIR @ ''/web/viewer.js'')) = Some ''V''"
    by (simp_all only: minified_world_files)
  then have
    "files (snd (parseMinified failing_host MINIFIED_DIR minified_world))
       ''build/minified/build/pdf.worker.js'' = Some ''B''"
    "files (snd (parseMinified failing_host MINIFIED_DIR minified_world))
       ''build/minified/web/viewer.js'' = Some ''V''"
    unfolding minified_paths dir_prefix_MINIFIED_DIR by simp_all
  with C t show ?thesis by simp
qed

subsection \<open>Text substitutions\<close>

declare gulp_replace.simps [simp del]

lemma gulp_replace_Nil: "gulp_replace s r [] = []"
  by (simp add: gulp_replace.simps)

lemma gulp_replace_hit:
  "s \<noteq> [] \<Longrightarrow> gulp_replace s r (s @ t) = r @ gulp_replace s r t"
  by (cases s) (simp_all add: gulp_replace.simps)

lemma gulp_replace_miss:
  "s \<noteq> [] \<Longrightarrow> \<not> prefix s (c # cs) \<Longrightarrow> gulp_replace s r (c # cs) = c # gulp_replace s r cs"
  by (simp add: gulp_replace.simps)

lemma no_overlap_suffix:
  "no_overlap p x \<Longrightarrow> suffix q p \<Longrightarrow> q \<noteq> [] \<Longrightarrow> \<not> prefix q x \<and> \<not> prefix x q"
  by (induction p) (auto simp: suffix_Cons)

lemma no_overlap_head:
  assumes "no_overlap p x" and "suffix q p" and "q \<noteq> []"
  shows "\<not> (prefix q t \<and> prefix x t)"
  using no_overlap_suffix[OF assms] prefix_same_cases[of q t x] by blast

lemma gulp_replace_skip:
  "no_overlap x s \<Longrightarrow> s \<noteq> [] \<Longrightarrow> gulp_replace s r (x @ u) = x @ gulp_replace s r u"
proof (induction x)
  case Nil
  then show ?case by simp
next
  case (Cons a x)
  have "\<not> (prefix (a # x) ((a # x) @ u) \<and> prefix s ((a # x) @ u))"
    by (rule no_overlap_head[OF Cons.prems(1)]) simp_all
  then have "\<not> prefix s (a # x @ u)" by simp
  with Cons show ?case by (simp add: gulp_replace_miss)
qed

lemma prefix_gulp_replace:
  assumes "no_overlap p s" and "no_overlap p r" and "s \<noteq> []"
  shows "suffix q p \<Longrightarrow> prefix q (gulp_replace s r t) \<longleftrightarrow> prefix q t"
proof (induction t arbitrary: q)
  case Nil
  then show ?case by (simp add: gulp_replace_Nil)
next
  case (Cons c cs)
  show ?case
  proof (cases "q = []")
    case True
    then show ?thesis by simp
  next
    case False
    then obtain a q' where q: "q = a # q'" by (cases q) auto
    show ?thesis
    proof (cases "prefix s (c # cs)")
      case True
      then obtain t' where t: "c # cs = s @ t'" by (auto simp: prefix_def)
      have "\<not> (prefix q (c # cs) \<and> prefix s (c # cs))"
        by (rule no_overlap_head[OF assms(1) Cons.prems False])
      with True have 1: "\<not> prefix q (c # cs)" by simp
      have "\<not> (prefix q (r @ gulp_replace s r t') \<and> prefix r (r @ gulp_replace s r t'))"
        by (rule no_overlap_head[OF assms(2) Cons.prems False])
      then have 2: "\<not> prefix q (gulp_replace s r (c # cs))"
        by (simp add: t gulp_replace_hit[OF assms(3)])
      from 1 2 show ?thesis by simp
    next
      case miss: False
      from Cons.prems q have "suffix q' p" by (auto dest: suffix_ConsD)
      from Cons.IH[OF this] show ?thesis
        by (simp add: gulp_replace_miss[OF assms(3) miss] q)
    qed
  qed
qed

lemma prefix_gulp_replace_self:
  assumes "no_overlap s r" and "s \<noteq> []"
  shows "suffix q s \<Longrightarrow> prefix q (gulp_replace s r t) \<Longrightarrow> prefix q t"
proof (induction t arbitrary: q)
  case Nil
  then show ?case by (simp add: gulp_replace_Nil)
next
  case (Cons c cs)
  show ?case
  proof (cases "q = []")
    case True
    then show ?thesis by simp
  next
    case False
    then obtain a q' where q: "q = a # q'" by (cases q) auto
    show ?thesis
    proof (cases "prefix s (c # cs)")
      case True
      then obtain t' where t: "c # cs = s @ t'" by (auto simp: prefix_def)
      have "\<not> (prefix q (r @ gulp_replace s r t') \<and> prefix r (r @ gulp_replace s r t'))"
        by (rule no_overlap_head[OF assms(1) Cons.prems(1) False])
      with Cons.prems(2) show ?thesis
        by (simp add: t gulp_replace_hit[OF assms(2)])
    next
      case miss: False
      from Cons.prems q have "suffix q' s" by (auto dest: suffix_ConsD)
      from Cons.IH[OF this] Cons.prems(2) show ?thesis
        by (simp add: gulp_replace_miss[OF assms(2) miss] q)
    qed
  qed
qed

lemma gulp_replace_idem:
  assumes "no_overlap r s" and "no_overlap s r" and "s \<noteq> []"
  shows "gulp_replace s r (gulp_replace s r t) = gulp_replace s r t"
proof (induction t rule: length_induct)
  case (1 t)
  show ?case
  proof (cases t)
    case Nil
    then show ?thesis by (simp add: gulp_replace_Nil)
  next
    case (Cons c cs)
    show ?thesis
    proof (cases "prefix s t")
      case True
      then obtain t' where t: "t = s @ t'" by (auto simp: prefix_def)
      with assms(3) have "length t' < length t" by simp
      with 1 have "gulp_replace s r (gulp_replace s r t') = gulp_replace s r t'" by blast
      then show ?thesis
        by (simp add: t gulp_replace_hit[OF assms(3)] gulp_replace_skip[OF assms(1,3)])
    next
      case False
      with Cons have m: "gulp_replace s r t = c # gulp_replace s r cs"
        by (simp add: gulp_replace_miss[OF assms(3)])
      from prefix_gulp_replace_self[OF assms(2,3), of s t] False
      have "\<not> prefix s (c # gulp_replace s r cs)" by (auto simp: m)
      moreover from 1 Cons have "gulp_replace s r (gulp_replace s r cs) = gulp_replace s r cs"
        by simp
      ultimately show ?thesis by (simp add: m gulp_replace_miss[OF assms(3)])
    qed
  qed
qed

lemma gulp_replace_commute:
  assumes a: "no_overlap s1 s2" "no_overlap s2 s1"
    and b: "no_overlap s1 r2" "no_overlap r2 s1"
    and c: "no_overlap s2 r1" "no_overlap r1 s2"
    and ne: "s1 \<noteq> []" "s2 \<noteq> []"
  shows "gulp_replace s1 r1 (gulp_replace s2 r2 t) = gulp_replace s2 r2 (gulp_replace s1 r1 t)"
proof (induction t rule: length_induct)
  case (1 t)
  show ?case
  proof (cases t)
    case Nil
    then show ?thesis by (simp add: gulp_replace_Nil)
  next
    case (Cons x xs)
    consider (one) "prefix s1 t" | (two) "prefix s2 t" | (none) "\<not> prefix s1 t" "\<not> prefix s2 t"
      by blast
    then show ?thesis
    proof cases
      case one
      then obtain t' where t: "t = s1 @ t'" by (auto simp: prefix_def)
      with ne have "length t' < length t" by simp
      with 1 have "gulp_replace s1 r1 (gulp_replace s2 r2 t') =
          gulp_replace s2 r2 (gulp_replace s1 r1 t')" by blast
      then show ?thesis
        by (simp add: t gulp_replace_hit[OF ne(1)] gulp_replace_skip[OF a(1) ne(2)]
            gulp_replace_skip[OF c(2) ne(2)])
    next
      case two
      then obtain t' where t: "t = s2 @ t'" by (auto simp: prefix_def)
      with ne have "length t' < length t" by simp
      with 1 have "gulp_replace s1 r1 (gulp_replace s2 r2 t') =
          gulp_replace s2 r2 (gulp_replace s1 r1 t')" by blast
      then show ?thesis
        by (simp add: t gulp_replace_hit[OF ne(2)] gulp_replace_skip[OF a(2) ne(1)]
            gulp_replace_skip[OF b(2) ne(1)])
    next
      case none
      with Cons have m: "gulp_replace s1 r1 t = x # gulp_replace s1 r1 xs"
        "gulp_replace s2 r2 t = x # gulp_replace s2 r2 xs"
        by (simp_all add: gulp_replace_miss ne)
      from prefix_gulp_replace[OF a(2) c(1) ne(1), of s2 t] none
      have 2: "\<not> prefix s2 (x # gulp_replace s1 r1 xs)" by (simp add: m)
      from prefix_gulp_replace[OF a(1) b(1) ne(2), of s1 t] none
      have 3: "\<not> prefix s1 (x # gulp_replace s2 r2 xs)" by (simp add: m)
      from 1 Cons have "gulp_replace s1 r1 (gulp_replace s2 r2 xs) =
          gulp_replace s2 r2 (gulp_replace s1 r1 xs)" by simp
      with 2 3 show ?thesis by (simp add: m gulp_replace_miss ne)
    qed
  qed
qed

lemma root_names_apart:
  assumes "(amd, js) \<in> set jsRootNames"
  shows "no_overlap (rootAssignmentLegacy amd js) (rootAssignment amd)"
    "no_overlap (rootAssignment amd) (rootAssignmentLegacy amd js)"
    "rootAssignment amd \<noteq> []"
  using assms
  by (auto simp: jsRootNames_def rootAssignment_def rootAssignmentLegacy_def dquote_def)

lemma root_names_apart_require:
  assumes "(amd, js) \<in> set jsRootNames"
  shows "no_overlap (rootAssignment amd) ''__webpack_require__''"
    "no_overlap ''__webpack_require__'' (rootAssignment amd)"
    "no_overlap (rootAssignment amd) ''__w_pdfjs_require__''"
    "no_overlap ''__w_pdfjs_require__'' (rootAssignment amd)"
    "no_overlap ''__webpack_require__'' (rootAssignmentLegacy amd js)"
    "no_overlap (rootAssignmentLegacy amd js) ''__webpack_require__''"
  using assms
  by (auto simp: jsRootNames_def rootAssignment_def rootAssignmentLegacy_def dquote_def)

lemma root_names_apart_import:
  assumes "(amd, js) \<in> set jsRootNames"
  shows "no_overlap (rootAssignment amd) ''__non_webpack_import__''"
    "no_overlap ''__non_webpack_import__'' (rootAssignment amd)"
    "no_overlap (rootAssignment amd) ''import''"
    "no_overlap ''import'' (rootAssignment amd)"
    "no_overlap ''__non_webpack_import__'' (rootAssignmentLegacy amd js)"
    "no_overlap (rootAssignmentLegacy amd js) ''__non_webpack_import__''"
  using assms
  by (auto simp: jsRootNames_def rootAssignment_def rootAssignmentLegacy_def dquote_def)

lemma replaceJSRootName_idem:
  assumes "(amd, js) \<in> set jsRootNames"
  shows "replaceJSRootName amd js (replaceJSRootName amd js t) = replaceJSRootName amd js t"
  unfolding replaceJSRootName_def
  by (rule gulp_replace_idem[OF root_names_apart[OF assms]])

lemma replaceJSRootName_require:
  assumes "(amd, js) \<in> set jsRootNames"
  shows "replaceJSRootName amd js (replaceWebpackRequire t) =
    replaceWebpackRequire (replaceJSRootName amd js t)"
  unfolding replaceJSRootName_def replaceWebpackRequire_def
  using root_names_apart_require[OF assms] root_names_apart(3)[OF assms]
  by (intro gulp_replace_commute) simp_all

lemma replaceJSRootName_import:
  assumes "(amd, js) \<in> set jsRootNames"
  shows "replaceJSRootName amd js (replaceNonWebpackImport t) =
    replaceNonWebpackImport (replaceJSRootName amd js t)"
  unfolding replaceJSRootName_def replaceNonWebpackImport_def
  using root_names_apart_import[OF assms] root_names_apart(3)[OF assms]
  by (intro gulp_replace_commute) simp_all

lemma prefix_before_delimiter:
  assumes "d \<notin> set s" and "prefix s (u @ d # v)"
  shows "prefix s u"
proof -
  from assms(2) consider "prefix s u" | s' where "s = u @ s'" "prefix s' (d # v)"
    by (auto simp: prefix_append)
  then show ?thesis
  proof cases
    case 1
    then show ?thesis .
  next
    case 2
    with assms(1) show ?thesis by (cases s') auto
  qed
qed

lemma gulp_replace_split:
  assumes "d \<notin> set s" and "s \<noteq> []"
  shows "gulp_replace s r (u @ d # v) = gulp_replace s r u @ d # gulp_replace s r v"
proof (induction u rule: length_induct)
  case (1 u)
  show ?case
  proof (cases u)
    case Nil
    from assms have "\<not> prefix s (d # v)" by (cases s) auto
    then show ?thesis by (simp add: Nil gulp_replace_Nil gulp_replace_miss[OF assms(2)])
  next
    case (Cons c cs)
    show ?thesis
    proof (cases "prefix s u")
      case True
      then obtain u' where u: "u = s @ u'" by (auto simp: prefix_def)
      with assms(2) have "length u' < length u" by simp
      with 1 have "gulp_replace s r (u' @ d # v) = gulp_replace s r u' @ d # gulp_replace s r v"
        by blast
      then show ?thesis by (simp add: u gulp_replace_hit[OF assms(2)])
    next
      case False
      with prefix_before_delimiter[OF assms(1)] have "\<not> prefix s (u @ d # v)" by blast
      with False 1 Cons show ?thesis by (simp add: gulp_replace_miss[OF assms(2)])
    qed
  qed
qed

lemma gulp_replace_absent:
  "\<not> sublist s u \<Longrightarrow> s \<noteq> [] \<Longrightarrow> gulp_replace s r u = u"
  by (induction u)
     (auto simp: gulp_replace_Nil gulp_replace_miss sublist_Cons_right dest: prefix_imp_sublist)

lemma words_of_word: "\<forall>c \<in> set u. ident_char c \<Longrightarrow> words_of u = [u]"
  by (induction u) auto

lemma words_of_split:
  "\<forall>c \<in> set u. ident_char c \<Longrightarrow> \<not> ident_char d \<Longrightarrow> words_of (u @ d # v) = u # words_of v"
  by (induction u) auto

lemma text_cases:
  obtains (word) "\<forall>c \<in> set t. ident_char c"
  | (split) u d v where "t = u @ d # v" "\<forall>c \<in> set u. ident_char c" "\<not> ident_char d"
proof (cases "\<forall>c \<in> set t. ident_char c")
  case True
  then show ?thesis by (rule word)
next
  case False
  then have "\<exists>x \<in> set t. \<not> ident_char x" by blast
  from split_list_first_prop[OF this] show ?thesis using split by blast
qed

lemma marker_chars:
  "\<not> ident_char d \<Longrightarrow> d \<notin> set ''__webpack_require__''"
  "\<not> ident_char d \<Longrightarrow> d \<notin> set ''__non_webpack_import__''"
  by (auto simp: ident_char_def)

lemma marker_runs:
  "replaceWebpackRequire ''__webpack_require__'' = ''__w_pdfjs_require__''"
  "replaceWebpackRequire ''__w_pdfjs_require__'' = ''__w_pdfjs_require__''"
  "replaceWebpackRequire ''__non_webpack_import__'' = ''__non_webpack_import__''"
  "replaceWebpackRequire ''import'' = ''import''"
  "replaceNonWebpackImport ''__non_webpack_import__'' = ''import''"
  "replaceNonWebpackImport ''import'' = ''import''"
  "replaceNonWebpackImport ''__webpack_require__'' = ''__webpack_require__''"
  "replaceNonWebpackImport ''__w_pdfjs_require__'' = ''__w_pdfjs_require__''"
  by (simp_all add: replaceWebpackRequire_def replaceNonWebpackImport_def gulp_replace.simps)

lemma word_passes:
  assumes "\<not> sublist ''__webpack_require__'' u \<or> u = ''__webpack_require__''"
    and "\<not> sublist ''__non_webpack_import__'' u \<or> u = ''__non_webpack_import__''"
  shows "replaceWebpackRequire (replaceWebpackRequire u) = replaceWebpackRequire u \<and>
    replaceNonWebpackImport (replaceNonWebpackImport u) = replaceNonWebpackImport u \<and>
    replaceWebpackRequire (replaceNonWebpackImport u) =
      replaceNonWebpackImport (replaceWebpackRequire u)"
proof -
  consider (req) "u = ''__webpack_require__''" | (imp) "u = ''__non_webpack_import__''"
    | (none) "\<not> sublist ''__webpack_require__'' u" "\<not> sublist ''__non_webpack_import__'' u"
    using assms by blast
  then show ?thesis
  proof cases
    case req
    then show ?thesis by (simp only: marker_runs)
  next
    case imp
    then show ?thesis by (simp only: marker_runs)
  next
    case none
    then have "replaceWebpackRequire u = u" "replaceNonWebpackImport u = u"
      by (simp_all add: replaceWebpackRequire_def replaceNonWebpackImport_def gulp_replace_absent)
    then show ?thesis by simp
  qed
qed

lemma marker_passes:
  assumes "whole_word ''__webpack_require__'' t" and "whole_word ''__non_webpack_import__'' t"
  shows "replaceWebpackRequire (replaceWebpackRequire t) = replaceWebpackRequire t \<and>
    replaceNonWebpackImport (replaceNonWebpackImport t) = replaceNonWebpackImport t \<and>
    replaceWebpackRequire (replaceNonWebpackImport t) =
      replaceNonWebpackImport (replaceWebpackRequire t)"
  using assms
proof (induction t rule: length_induct)
  case (1 t)
  show ?case
  proof (cases t rule: text_cases)
    case word
    with 1(2,3) show ?thesis
      by (intro word_passes) (simp_all add: whole_word_def words_of_word)
  next
    case (split u d v)
    from 1(2,3) have u: "\<not> sublist ''__webpack_require__'' u \<or> u = ''__webpack_require__''"
      "\<not> sublist ''__non_webpack_import__'' u \<or> u = ''__non_webpack_import__''"
      and v: "whole_word ''__webpack_require__'' v" "whole_word ''__non_webpack_import__'' v"
      by (simp_all add: whole_word_def split(1) words_of_split[OF split(2,3)])
    have W: "replaceWebpackRequire (x @ d # y) =
        replaceWebpackRequire x @ d # replaceWebpackRequire y" for x y
      unfolding replaceWebpackRequire_def
      by (rule gulp_replace_split[OF marker_chars(1)[OF split(3)]]) simp
    have N: "replaceNonWebpackImport (x @ d # y) =
        replaceNonWebpackImport x @ d # replaceNonWebpackImport y" for x y
      unfolding replaceNonWebpackImport_def
      by (rule gulp_replace_split[OF marker_chars(2)[OF split(3)]]) simp
    from split(1) have "length v < length t" by simp
    with 1(1) v have "replaceWebpackRequire (replaceWebpackRequire v) = replaceWebpackRequire v \<and>
      replaceNonWebpackImport (replaceNonWebpackImport v) = replaceNonWebpackImport v \<and>
      replaceWebpackRequire (replaceNonWebpackImport v) =
        replaceNonWebpackImport (replaceWebpackRequire v)" by blast
    with word_passes[OF u] show ?thesis by (simp add: split(1) W N)
  qed
qed

text \<open>
  Claim C2, as amended. For each of the five name pairs the script passes to
  \<^verbatim>\<open>replaceJSRootName\<close>, that pass is idempotent on every text and commutes on every text with
  \<^verbatim>\<open>replaceWebpackRequire\<close> and with \<^verbatim>\<open>replaceNonWebpackImport\<close>. On a text in which the markers
  \<^verbatim>\<open>__webpack_require__\<close> and \<^verbatim>\<open>__non_webpack_import__\<close> occur only as whole identifiers, the
  other two passes are idempotent as well and commute with each other, and the three
  passes give the same text in each of the six orders.
\<close>

theorem passes_idempotent_commute:
  assumes names: "(amd, js) \<in> set jsRootNames"
  shows "replaceJSRootName amd js (replaceJSRootName amd js t) = replaceJSRootName amd js t \<and>
    replaceJSRootName amd js (replaceWebpackRequire t) =
      replaceWebpackRequire (replaceJSRootName amd js t) \<and>
    replaceJSRootName amd js (replaceNonWebpackImport t) =
      replaceNonWebpackImport (replaceJSRootName amd js t) \<and>
    (whole_word ''__webpack_require__'' t \<and> whole_word ''__non_webpack_import__'' t \<longrightarrow>
       replaceWebpackRequire (replaceWebpackRequire t) = replaceWebpackRequire t \<and>
       replaceNonWebpackImport (replaceNonWebpackImport t) = replaceNonWebpackImport t \<and>
       replaceWebpackRequire (replaceNonWebpackImport t) =
         replaceNonWebpackImport (replaceWebpackRequire t) \<and>
       (\<forall>f \<in> set (pass_orders amd js).
          f t = replaceJSRootName amd js (replaceNonWebpackImport (replaceWebpackRequire t))))"
proof -
  note JJ = replaceJSRootName_idem[OF names]
  note JW = replaceJSRootName_require[OF names]
  note JN = replaceJSRootName_import[OF names]
  have M: "replaceWebpackRequire (replaceWebpackRequire t) = replaceWebpackRequire t \<and>
       replaceNonWebpackImport (replaceNonWebpackImport t) = replaceNonWebpackImport t \<and>
       replaceWebpackRequire (replaceNonWebpackImport t) =
         replaceNonWebpackImport (replaceWebpackRequire t) \<and>
       (\<forall>f \<in> set (pass_orders amd js).
          f t = replaceJSRootName amd js (replaceNonWebpackImport (replaceWebpackRequire t)))"
    if w: "whole_word ''__webpack_require__'' t" "whole_word ''__non_webpack_import__'' t"
  proof -
    note m = marker_passes[OF w]
    from m have WN: "replaceWebpackRequire (replaceNonWebpackImport t) =
        replaceNonWebpackImport (replaceWebpackRequire t)" by blast
    have "\<forall>f \<in> set (pass_orders amd js).
        f t = replaceJSRootName amd js (replaceNonWebpackImport (replaceWebpackRequire t))"
      by (simp add: pass_orders_def Let_def JW[symmetric] JN[symmetric] WN)
    with m show ?thesis by blast
  qed
  show ?thesis
    apply (rule conjI[OF JJ conjI[OF JW conjI[OF JN impI]]])
    apply (erule conjE)
    apply (rule M; assumption)
    done
qed

lemma bundle_text_names: "(''pdfjs-dist/build/pdf'', ''pdfjsLib'') \<in> set jsRootNames"
  by (simp add: jsRootNames_def)

lemma bundle_text_words:
  "whole_word ''__webpack_require__'' bundle_text"
  "whole_word ''__non_webpack_import__'' bundle_text"
  by (simp_all add: whole_word_def bundle_text_def rootAssignment_def dquote_def ident_char_def
      sublist_Cons_right)

lemma bundle_text_run:
  "replaceJSRootName ''pdfjs-dist/build/pdf'' ''pdfjsLib''
     (replaceNonWebpackImport (replaceWebpackRequire bundle_text)) = bundle_text_processed"
  by (simp add: bundle_text_def bundle_text_processed_def replaceJSRootName_def
      replaceNonWebpackImport_def replaceWebpackRequire_def rootAssignment_def
      rootAssignmentLegacy_def dquote_def gulp_replace.simps)

text \<open>A bundle with one occurrence for each pass, processed in two of the orders.\<close>

theorem passes_idempotent_commute_witness:
  "(replaceWebpackRequire \<circ> replaceNonWebpackImport \<circ>
      replaceJSRootName ''pdfjs-dist/build/pdf'' ''pdfjsLib'') bundle_text = bundle_text_processed \<and>
   (replaceNonWebpackImport \<circ> replaceJSRootName ''pdfjs-dist/build/pdf'' ''pdfjsLib'' \<circ>
      replaceWebpackRequire) bundle_text = bundle_text_processed \<and>
   replaceWebpackRequire (replaceWebpackRequire bundle_text) = replaceWebpackRequire bundle_text"
proof -
  note inst = passes_idempotent_commute[OF bundle_text_names, of bundle_text]
  with bundle_text_words have
    a: "replaceWebpackRequire (replaceWebpackRequire bundle_text) =
        replaceWebpackRequire bundle_text"
    and b: "\<forall>f \<in> set (pass_orders ''pdfjs-dist/build/pdf'' ''pdfjsLib'').
        f bundle_text = bundle_text_processed"
    unfolding bundle_text_run by blast+
  have "replaceWebpackRequire \<circ> replaceNonWebpackImport \<circ>
      replaceJSRootName ''pdfjs-dist/build/pdf'' ''pdfjsLib''
      \<in> set (pass_orders ''pdfjs-dist/build/pdf'' ''pdfjsLib'')"
    "replaceNonWebpackImport \<circ> replaceJSRootName ''pdfjs-dist/build/pdf'' ''pdfjsLib'' \<circ>
      replaceWebpackRequire \<in> set (pass_orders ''pdfjs-dist/build/pdf'' ''pdfjsLib'')"
    unfolding pass_orders_def Let_def by (simp_all only: list.set insert_iff simp_thms)
  with a b show ?thesis by blast
qed

text \<open>
  Claim C2, as it is stated for every input text, fails where markers touch: renaming
  \<^verbatim>\<open>__webpack_require__\<close> twice differs from renaming it once, restoring the import twice
  differs from restoring it once, and the two passes give different texts in the two
  orders.
\<close>

theorem adjacent_markers_break_passes:
  "replaceWebpackRequire ''__webpack_require__webpack_require__'' =
     ''__w_pdfjs_require__webpack_require__'' \<and>
   replaceWebpackRequire ''__w_pdfjs_require__webpack_require__'' =
     ''__w_pdfjs_require__w_pdfjs_require__'' \<and>
   replaceNonWebpackImport ''__non_webpack___non_webpack_import____'' =
     ''__non_webpack_import__'' \<and>
   replaceNonWebpackImport ''__non_webpack_import__'' = ''import'' \<and>
   replaceNonWebpackImport (replaceWebpackRequire ''__webpack_require__non_webpack_import__'') =
     ''__w_pdfjs_requireimport'' \<and>
   replaceWebpackRequire (replaceNonWebpackImport ''__webpack_require__non_webpack_import__'') =
     ''__webpack_requireimport''"
  by (simp add: replaceWebpackRequire_def replaceNonWebpackImport_def gulp_replace.simps)

end
